theory Spec2Isabelle
  imports Complex_Main
begin

section \<open>Errors and asynchronous control flow\<close>

text \<open>
  Every value the JavaScript code can throw is a value of \<open>error\<close>: the application's own
  \<open>AppError\<close> (message and HTTP status), an error raised by the relational driver, an error
  raised by the object-store SDK, and the two errors the language itself raises
  (an unbound identifier, a call of a property that is not a function).
\<close>

datatype error =
    AppError string nat
  | DriverError string
  | SdkError string
  | ReferenceError string
  | TypeError string

fun message :: "error \<Rightarrow> string" where
  "message (AppError m code) = m"
| "message (DriverError m) = m"
| "message (SdkError m) = m"
| "message (ReferenceError m) = m"
| "message (TypeError m) = m"

text \<open>
  An \<open>async\<close> function over a state \<open>'s\<close>: it either throws (\<open>Inl\<close>) or returns (\<open>Inr\<close>),
  and in both cases leaves the state it reached. \<open>seq\<close> is \<open>await m\<close> followed by the rest
  of the block, \<open>try_catch\<close> and \<open>try_finally\<close> are the JavaScript statements of the
  same name: the \<open>finally\<close> block always runs, and an error thrown inside it replaces the
  pending outcome.
\<close>

type_synonym ('s, 'a) io = "'s \<Rightarrow> (error + 'a) \<times> 's"

definition ret :: "'a \<Rightarrow> ('s, 'a) io" where
  "ret a = (\<lambda>s. (Inr a, s))"

definition throw :: "error \<Rightarrow> ('s, 'a) io" where
  "throw e = (\<lambda>s. (Inl e, s))"

definition seq :: "('s, 'a) io \<Rightarrow> ('a \<Rightarrow> ('s, 'b) io) \<Rightarrow> ('s, 'b) io" where
  "seq m f = (\<lambda>s. case m s of (Inl e, s') \<Rightarrow> (Inl e, s') | (Inr a, s') \<Rightarrow> f a s')"

definition try_catch :: "('s, 'a) io \<Rightarrow> (error \<Rightarrow> ('s, 'a) io) \<Rightarrow> ('s, 'a) io" where
  "try_catch m h = (\<lambda>s. case m s of (Inl e, s') \<Rightarrow> h e s' | (Inr a, s') \<Rightarrow> (Inr a, s'))"

definition try_finally :: "('s, 'a) io \<Rightarrow> ('s, unit) io \<Rightarrow> ('s, 'a) io" where
  "try_finally m f = (\<lambda>s. case m s of (r, s') \<Rightarrow>
       (case f s' of (Inl e, s'') \<Rightarrow> (Inl e, s'') | (Inr u, s'') \<Rightarrow> (r, s'')))"

text \<open>
  The collaborators (relational store, object store) may fail at any call. Which call fails,
  and with which message, is decided by the environment: a \<open>faults\<close> oracle maps each call
  site of the source to \<open>Some message\<close> when that call raises.
\<close>

datatype step =
    UpdUser | SelExisting | SelTemplate | SelVersion | SelProjectUser | GetConn
  | Begin | S3Put | InsObject | InsSubmission | InsFile nat | InsLog | InsQueueCompleted
  | Commit | Rollback | InsQueueFailed
  | S3Head | S3Complete | S3Abort | S3Presign | UpsObject | SelObject
  | SelUser | SelPending | SelCompleted

type_synonym faults = "step \<Rightarrow> string option"

section \<open>Relational state\<close>

datatype json = JString string | JNumber nat | JObject "(string \<times> json) list"

record user_row =
  u_id :: nat
  u_device_id :: "string option"
  u_last_sync_at :: "int option"

record template_row =
  ft_id :: nat
  ft_project_id :: nat

record version_row =
  ftv_form_template_id :: nat
  ftv_version :: nat

record project_user_row =
  pu_project_id :: nat
  pu_user_id :: nat

record s3_object_row =
  so_id :: nat
  so_bucket_name :: string
  so_object_key :: string
  so_object_key_hash :: string
  so_content_type :: "string option"
  so_size_bytes :: "nat option"
  so_object_version_id :: "string option"
  so_etag :: "string option"
  so_created_by :: nat

record submission_row =
  fs_id :: nat
  fs_uuid :: string
  fs_form_template_id :: nat
  fs_form_template_version :: nat
  fs_submitted_by :: nat
  fs_status :: string
  fs_submitted_at :: "int option"
  fs_data_s3_object_id :: nat
  fs_geolocation_latitude :: "real option"
  fs_geolocation_longitude :: "real option"
  fs_geolocation_accuracy :: "real option"
  fs_device_info :: "string option"
  fs_is_offline_submission :: bool
  fs_synced_at :: "int option"

record file_row =
  fsf_id :: nat
  fsf_form_submission_id :: nat
  fsf_field_name :: string
  fsf_file_s3_object_id :: nat
  fsf_file_name :: string
  fsf_file_description :: "string option"

record log_row =
  al_id :: nat
  al_user_id :: nat
  al_activity_type :: string
  al_entity_type :: string
  al_entity_id :: nat
  al_details :: json
  al_ip_address :: string

record queue_row =
  sq_id :: nat
  sq_user_id :: nat
  sq_device_id :: string
  sq_entity_type :: string
  sq_operation :: string
  sq_local_id :: string
  sq_server_id :: "nat option"
  sq_data :: json
  sq_status :: string
  sq_error_message :: "string option"
  sq_retry_count :: nat
  sq_created_at :: int
  sq_updated_at :: int

text \<open>
  The tables the controllers read and write, each a list of rows in insertion order, and the
  AUTO_INCREMENT counter of every table the controllers insert into.
\<close>

record database =
  users :: "user_row list"
  form_templates :: "template_row list"
  form_template_versions :: "version_row list"
  project_users :: "project_user_row list"
  s3_objects :: "s3_object_row list"
  form_submissions :: "submission_row list"
  form_submission_files :: "file_row list"
  activity_logs :: "log_row list"
  sync_queue :: "queue_row list"
  next_s3_object_id :: nat
  next_submission_id :: nat
  next_file_id :: nat
  next_log_id :: nat
  next_queue_id :: nat

text \<open>
  The object store is seen through the commands the code sends to it; what the store answers
  is the environment's choice.
\<close>

datatype s3_command =
    PutObject string string string string
  | HeadObject string string
  | CompleteMultipartUpload string string string "(string \<times> nat) list"
  | AbortMultipartUpload string string string
  | SignGetObject string string

record world =
  db :: database
  s3_sent :: "s3_command list"

section \<open>database/connection.js and the driver's connection object\<close>

text \<open>
  A connection checked out of the pool holds the working copy of its open transaction
  (\<open>pending\<close>) and counts how often it was handed back (\<open>released\<close>). Statements executed on
  the connection change the working copy only; \<open>commit\<close> makes the working copy the stored
  database, \<open>rollback\<close> drops it.

  \<open>executeTransaction\<close> is handed either such a connection or, in the submission
  controller, the \<open>db\<close> module itself, which exports \<open>query\<close>, \<open>testConnection\<close>, \<open>end\<close>,
  \<open>getConnection\<close> and none of the connection's methods.
\<close>

record connection =
  pending :: "database option"
  released :: nat

datatype handle = PoolConnection connection | DbModule

definition getConnection :: "faults \<Rightarrow> (world, handle) io" where
  "getConnection flt = (\<lambda>w. case flt GetConn of
       Some m \<Rightarrow> (Inl (DriverError m), w)
     | None \<Rightarrow> (Inr (PoolConnection \<lparr>pending = None, released = 0\<rparr>), w))"

definition beginTransaction :: "faults \<Rightarrow> (world \<times> handle, unit) io" where
  "beginTransaction flt = (\<lambda>(w, h). case h of
       DbModule \<Rightarrow> (Inl (TypeError ''connection.beginTransaction is not a function''), (w, h))
     | PoolConnection c \<Rightarrow> (case flt Begin of
           Some m \<Rightarrow> (Inl (DriverError m), (w, h))
         | None \<Rightarrow> (Inr (), (w, PoolConnection (c\<lparr>pending := Some (db w)\<rparr>)))))"

definition commit :: "faults \<Rightarrow> (world \<times> handle, unit) io" where
  "commit flt = (\<lambda>(w, h). case h of
       DbModule \<Rightarrow> (Inl (TypeError ''connection.commit is not a function''), (w, h))
     | PoolConnection c \<Rightarrow> (case flt Commit of
           Some m \<Rightarrow> (Inl (DriverError m), (w, h))
         | None \<Rightarrow> (Inr (), (case pending c of
               Some d \<Rightarrow> (w\<lparr>db := d\<rparr>, PoolConnection (c\<lparr>pending := None\<rparr>))
             | None \<Rightarrow> (w, h)))))"

definition rollback :: "faults \<Rightarrow> (world \<times> handle, unit) io" where
  "rollback flt = (\<lambda>(w, h). case h of
       DbModule \<Rightarrow> (Inl (TypeError ''connection.rollback is not a function''), (w, h))
     | PoolConnection c \<Rightarrow> (case flt Rollback of
           Some m \<Rightarrow> (Inl (DriverError m), (w, h))
         | None \<Rightarrow> (Inr (), (w, PoolConnection (c\<lparr>pending := None\<rparr>)))))"

definition release :: "(world \<times> handle, unit) io" where
  "release = (\<lambda>(w, h). case h of
       DbModule \<Rightarrow> (Inl (TypeError ''connection.release is not a function''), (w, h))
     | PoolConnection c \<Rightarrow> (Inr (), (w, PoolConnection (c\<lparr>released := Suc (released c)\<rparr>))))"

text \<open>
  Code that runs statements through a connection is written over the pair of the world and
  the database the statements act on. \<open>on_connection\<close> runs it on the working copy of the
  open transaction; without an open transaction the driver is in autocommit mode and the
  statements act on the stored database.
\<close>

definition on_connection :: "(world \<times> database, 'a) io \<Rightarrow> (world \<times> handle, 'a) io" where
  "on_connection m = (\<lambda>(w, h). case h of
       DbModule \<Rightarrow> (Inl (TypeError ''connection.execute is not a function''), (w, h))
     | PoolConnection c \<Rightarrow> (case pending c of
           Some d \<Rightarrow> (case m (w, d) of (r, (w', d')) \<Rightarrow>
               (r, (w', PoolConnection (c\<lparr>pending := Some d'\<rparr>))))
         | None \<Rightarrow> (case m (w, db w) of (r, (w', d')) \<Rightarrow>
               (r, (w'\<lparr>db := d'\<rparr>, h)))))"

text \<open>
  \<open>db.query\<close> runs one statement on a pool connection of its own, in autocommit mode;
  \<open>connection.execute\<close> runs one statement on the database it is given. A statement is a
  function on the database that may raise an error of its own (a violated constraint).
\<close>

type_synonym 'a statement = "database \<Rightarrow> error + (database \<times> 'a)"

definition query :: "faults \<Rightarrow> step \<Rightarrow> 'a statement \<Rightarrow> (world, 'a) io" where
  "query flt st stmt = (\<lambda>w. case flt st of
       Some m \<Rightarrow> (Inl (DriverError m), w)
     | None \<Rightarrow> (case stmt (db w) of
           Inl e \<Rightarrow> (Inl e, w)
         | Inr (d', a) \<Rightarrow> (Inr a, w\<lparr>db := d'\<rparr>)))"

definition execute :: "faults \<Rightarrow> step \<Rightarrow> 'a statement \<Rightarrow> (world \<times> database, 'a) io" where
  "execute flt st stmt = (\<lambda>(w, d). case flt st of
       Some m \<Rightarrow> (Inl (DriverError m), (w, d))
     | None \<Rightarrow> (case stmt d of
           Inl e \<Rightarrow> (Inl e, (w, d))
         | Inr (d', a) \<Rightarrow> (Inr a, (w, d'))))"

section \<open>database/transaction.js\<close>

text \<open>
  \<^verbatim>\<open>
  async function executeTransaction(connection, callback) {
      try {
          await connection.beginTransaction();
          const result = await callback(connection);
          await connection.commit();
          return result;
      } catch (error) {
          logger.error('Transaction error:', error);
          await connection.rollback();
          throw error;
      } finally {
          connection.release();
      }
  }
  \<close>
  The connection is the handle component of the state; the callback is the code it runs
  through the connection.
\<close>

definition executeTransaction ::
  "faults \<Rightarrow> (world \<times> database, 'a) io \<Rightarrow> (world \<times> handle, 'a) io" where
  "executeTransaction flt callback =
     try_finally
       (try_catch
          (seq (beginTransaction flt) (\<lambda>u.
           seq (on_connection callback) (\<lambda>result.
           seq (commit flt) (\<lambda>u.
           ret result))))
          (\<lambda>error. seq (rollback flt) (\<lambda>u. throw error)))
       release"

section \<open>Statements\<close>

record env =
  submissionsBucket :: string
  sha256 :: "string \<Rightarrow> string"
  now :: int
  fresh_uuid :: string
  signed_url :: "string \<Rightarrow> string \<Rightarrow> string"

text \<open>JavaScript truthiness of the optional values the controllers test.\<close>

definition truthy_id :: "nat option \<Rightarrow> bool" where
  "truthy_id x = (case x of None \<Rightarrow> False | Some n \<Rightarrow> n \<noteq> 0)"

definition truthy_string :: "string option \<Rightarrow> bool" where
  "truthy_string x = (case x of None \<Rightarrow> False | Some s \<Rightarrow> s \<noteq> [])"

definition number_or_null :: "real option \<Rightarrow> real option" where
  "number_or_null x = (case x of None \<Rightarrow> None | Some v \<Rightarrow> if v = 0 then None else Some v)"

definition string_or_null :: "string option \<Rightarrow> string option" where
  "string_or_null x = (if truthy_string x then x else None)"

text \<open>A number inside a template literal: its decimal digits.\<close>

definition digit_char :: "nat \<Rightarrow> char" where
  "digit_char n = ''0123456789'' ! n"

function string_of_nat :: "nat \<Rightarrow> string" where
  "string_of_nat n =
     (if n < 10 then [digit_char n] else string_of_nat (n div 10) @ [digit_char (n mod 10)])"
  by pat_completeness auto
termination
  by (relation "measure (\<lambda>n. n)") auto

declare string_of_nat.simps [simp del]

text \<open>
  Modelled from the spec: the schema of the relational store is not part of the sources. The
  spec gives it a unique constraint on the client identifier of a submission and one on
  (bucket, key-hash) of an object record; an INSERT that violates one of them raises the
  driver's duplicate-entry error.
\<close>

definition duplicate_entry :: error where
  "duplicate_entry = DriverError ''Duplicate entry''"

definition same_object :: "string \<Rightarrow> string \<Rightarrow> s3_object_row \<Rightarrow> bool" where
  "same_object bucket hash r = (so_bucket_name r = bucket \<and> so_object_key_hash r = hash)"

text \<open>\<^verbatim>\<open>SELECT id FROM form_submissions WHERE uuid = ?\<close>\<close>

definition select_submission_ids :: "string \<Rightarrow> nat list statement" where
  "select_submission_ids uuid d =
     Inr (d, map fs_id (filter (\<lambda>r. fs_uuid r = uuid) (form_submissions d)))"

text \<open>\<^verbatim>\<open>SELECT id, project_id FROM form_templates WHERE id = ?\<close>\<close>

definition select_templates :: "nat \<Rightarrow> template_row list statement" where
  "select_templates tid d = Inr (d, filter (\<lambda>r. ft_id r = tid) (form_templates d))"

text \<open>\<^verbatim>\<open>SELECT version FROM form_template_versions WHERE form_template_id = ? AND version = ?\<close>\<close>

definition select_versions :: "nat \<Rightarrow> nat \<Rightarrow> nat list statement" where
  "select_versions tid v d =
     Inr (d, map ftv_version
        (filter (\<lambda>r. ftv_form_template_id r = tid \<and> ftv_version r = v) (form_template_versions d)))"

text \<open>\<^verbatim>\<open>SELECT 1 FROM project_users WHERE project_id = ? AND user_id = ?\<close>\<close>

definition select_project_users :: "nat \<Rightarrow> nat \<Rightarrow> nat list statement" where
  "select_project_users pid uid d =
     Inr (d, map (\<lambda>r. 1)
        (filter (\<lambda>r. pu_project_id r = pid \<and> pu_user_id r = uid) (project_users d)))"

text \<open>\<^verbatim>\<open>UPDATE users SET device_id = ?, last_sync_at = NOW() WHERE id = ?\<close>\<close>

definition update_user_device :: "string \<Rightarrow> int \<Rightarrow> nat \<Rightarrow> unit statement" where
  "update_user_device dev t uid d =
     Inr (d\<lparr>users := map (\<lambda>r. if u_id r = uid
                 then r\<lparr>u_device_id := Some dev, u_last_sync_at := Some t\<rparr> else r) (users d)\<rparr>, ())"

text \<open>
  The plain \<^verbatim>\<open>INSERT INTO s3_objects (...) VALUES (?, ?, SHA2(?, 256), ?, ?, ?)\<close> of the
  submission paths. The result is the driver's \<open>insertId\<close>.
\<close>

definition insert_s3_object ::
  "env \<Rightarrow> string \<Rightarrow> string \<Rightarrow> string \<Rightarrow> nat \<Rightarrow> nat \<Rightarrow> nat statement" where
  "insert_s3_object e bucket key content_type size_bytes created_by d =
     (if filter (same_object bucket (sha256 e key)) (s3_objects d) \<noteq> [] then Inl duplicate_entry
      else Inr (d\<lparr>s3_objects := s3_objects d @
                    [\<lparr>so_id = next_s3_object_id d, so_bucket_name = bucket, so_object_key = key,
                      so_object_key_hash = sha256 e key, so_content_type = Some content_type,
                      so_size_bytes = Some size_bytes, so_object_version_id = None,
                      so_etag = None, so_created_by = created_by\<rparr>],
                  next_s3_object_id := Suc (next_s3_object_id d)\<rparr>,
                next_s3_object_id d))"

text \<open>
  \<^verbatim>\<open>INSERT INTO s3_objects (...) VALUES (...) ON DUPLICATE KEY UPDATE ...\<close> of the file
  controller: \<open>upd\<close> is the UPDATE clause. When the row exists the driver's \<open>insertId\<close> is the
  existing row's identifier or 0 (the environment's choice \<open>reports_id\<close>); the controller
  handles both.
\<close>

definition upsert_s3_object ::
  "bool \<Rightarrow> s3_object_row \<Rightarrow> (s3_object_row \<Rightarrow> s3_object_row) \<Rightarrow> nat statement" where
  "upsert_s3_object reports_id row upd d =
     (case filter (same_object (so_bucket_name row) (so_object_key_hash row)) (s3_objects d) of
        [] \<Rightarrow> Inr (d\<lparr>s3_objects := s3_objects d @ [row\<lparr>so_id := next_s3_object_id d\<rparr>],
                    next_s3_object_id := Suc (next_s3_object_id d)\<rparr>,
                  next_s3_object_id d)
      | r # rs \<Rightarrow> Inr (d\<lparr>s3_objects :=
                      map (\<lambda>x. if same_object (so_bucket_name row) (so_object_key_hash row) x
                               then upd x else x) (s3_objects d)\<rparr>,
                    if reports_id then so_id r else 0))"

text \<open>\<^verbatim>\<open>SELECT id FROM s3_objects WHERE bucket_name = ? AND object_key_hash = ?\<close>\<close>

definition select_object_ids :: "string \<Rightarrow> string \<Rightarrow> nat list statement" where
  "select_object_ids bucket hash d =
     Inr (d, map so_id (filter (same_object bucket hash) (s3_objects d)))"

definition insert_submission :: "submission_row \<Rightarrow> nat statement" where
  "insert_submission row d =
     (if filter (\<lambda>r. fs_uuid r = fs_uuid row) (form_submissions d) \<noteq> [] then Inl duplicate_entry
      else Inr (d\<lparr>form_submissions := form_submissions d @ [row\<lparr>fs_id := next_submission_id d\<rparr>],
                  next_submission_id := Suc (next_submission_id d)\<rparr>,
                next_submission_id d))"

definition insert_file :: "file_row \<Rightarrow> nat statement" where
  "insert_file row d =
     Inr (d\<lparr>form_submission_files := form_submission_files d @ [row\<lparr>fsf_id := next_file_id d\<rparr>],
            next_file_id := Suc (next_file_id d)\<rparr>,
          next_file_id d)"

definition insert_log :: "log_row \<Rightarrow> nat statement" where
  "insert_log row d =
     Inr (d\<lparr>activity_logs := activity_logs d @ [row\<lparr>al_id := next_log_id d\<rparr>],
            next_log_id := Suc (next_log_id d)\<rparr>,
          next_log_id d)"

definition insert_queue :: "queue_row \<Rightarrow> nat statement" where
  "insert_queue row d =
     Inr (d\<lparr>sync_queue := sync_queue d @ [row\<lparr>sq_id := next_queue_id d\<rparr>],
            next_queue_id := Suc (next_queue_id d)\<rparr>,
          next_queue_id d)"

section \<open>services/s3Service.js\<close>

text \<open>
  Each service function sends one command and rewraps an SDK failure as an \<open>AppError\<close> with
  status 500; \<open>objectExists\<close> turns the SDK's \<open>NotFound\<close> into \<open>false\<close> and rethrows any
  other error as it is.
\<close>

definition putObject :: "faults \<Rightarrow> string \<Rightarrow> string \<Rightarrow> string \<Rightarrow> string \<Rightarrow> (world, unit) io" where
  "putObject flt bucket key body content_type = (\<lambda>w. case flt S3Put of
       Some m \<Rightarrow> (Inl (AppError (''Failed to upload object to S3: '' @ m) 500), w)
     | None \<Rightarrow> (Inr (), w\<lparr>s3_sent := s3_sent w @ [PutObject bucket key body content_type]\<rparr>))"

definition objectExists :: "faults \<Rightarrow> string \<Rightarrow> string \<Rightarrow> (world, bool) io" where
  "objectExists flt bucket key = (\<lambda>w. case flt S3Head of
       Some n \<Rightarrow> (if n = ''NotFound'' then (Inr False, w) else (Inl (SdkError n), w))
     | None \<Rightarrow> (Inr True, w\<lparr>s3_sent := s3_sent w @ [HeadObject bucket key]\<rparr>))"

definition getPresignedDownloadUrl :: "faults \<Rightarrow> env \<Rightarrow> string \<Rightarrow> string \<Rightarrow> (world, string) io" where
  "getPresignedDownloadUrl flt e bucket key = (\<lambda>w. case flt S3Presign of
       Some m \<Rightarrow> (Inl (AppError (''Failed to generate download URL: '' @ m) 500), w)
     | None \<Rightarrow> (Inr (signed_url e bucket key), w\<lparr>s3_sent := s3_sent w @ [SignGetObject bucket key]\<rparr>))"

text \<open>The answer of the store to a completed multipart upload: \<open>VersionId\<close> and \<open>ETag\<close>.\<close>

record complete_result =
  VersionId :: "string option"
  ETag :: "string option"

definition s3_completeMultipartUpload ::
  "faults \<Rightarrow> complete_result \<Rightarrow> string \<Rightarrow> string \<Rightarrow> string \<Rightarrow> (string \<times> nat) list
     \<Rightarrow> (world, complete_result) io" where
  "s3_completeMultipartUpload flt answer bucket key uploadId parts = (\<lambda>w. case flt S3Complete of
       Some m \<Rightarrow> (Inl (AppError (''Failed to complete multipart upload: '' @ m) 500), w)
     | None \<Rightarrow> (Inr answer,
                w\<lparr>s3_sent := s3_sent w @ [CompleteMultipartUpload bucket key uploadId parts]\<rparr>))"

definition s3_abortMultipartUpload ::
  "faults \<Rightarrow> string \<Rightarrow> string \<Rightarrow> string \<Rightarrow> (world, unit) io" where
  "s3_abortMultipartUpload flt bucket key uploadId = (\<lambda>w. case flt S3Abort of
       Some m \<Rightarrow> (Inl (AppError (''Failed to abort multipart upload: '' @ m) 500), w)
     | None \<Rightarrow> (Inr (), w\<lparr>s3_sent := s3_sent w @ [AbortMultipartUpload bucket key uploadId]\<rparr>))"

text \<open>A call that does not go through the connection, made from code that holds one.\<close>

definition outside :: "(world, 'a) io \<Rightarrow> (world \<times> 'x, 'a) io" where
  "outside m = (\<lambda>(w, x). case m w of (r, w') \<Rightarrow> (r, (w', x)))"

text \<open>Code that holds a connection, seen from the code that obtained it.\<close>

definition holding :: "handle \<Rightarrow> (world \<times> handle, 'a) io \<Rightarrow> (world, 'a) io" where
  "holding h m = (\<lambda>w. case m (w, h) of (r, (w', h')) \<Rightarrow> (r, w'))"

section \<open>controllers/syncController.js\<close>

record request =
  user_id :: nat
  ip :: string
  permissions :: "string list"

record file_ref =
  f_s3ObjectId :: "nat option"
  f_fieldName :: string
  f_fileName :: string
  f_description :: "string option"

record geolocation =
  latitude :: "real option"
  longitude :: "real option"
  accuracy :: "real option"

text \<open>
  One element of \<open>req.body.submissions\<close>. \<open>s_data\<close> and \<open>s_deviceInfo\<close> hold the text
  \<open>JSON.stringify\<close> gives for the item's \<open>data\<close> and \<open>deviceInfo\<close>; the controller uses
  both only through that text.
\<close>

record submission =
  s_uuid :: string
  s_formTemplateId :: nat
  s_formTemplateVersion :: nat
  s_status :: string
  s_data :: string
  s_files :: "file_ref list option"
  s_geolocation :: "geolocation option"
  s_deviceInfo :: "string option"

record sync_result =
  r_uuid :: string
  r_status :: string
  r_message :: string
  r_serverId :: "nat option"

definition geo_field :: "geolocation option \<Rightarrow> (geolocation \<Rightarrow> real option) \<Rightarrow> real option" where
  "geo_field g f = (case g of None \<Rightarrow> None | Some x \<Rightarrow> number_or_null (f x))"

definition submission_key :: "nat \<Rightarrow> string \<Rightarrow> string" where
  "submission_key formTemplateId uuid =
     ''submissions/'' @ string_of_nat formTemplateId @ ''/'' @ uuid @ ''.json''"

definition queue_data :: "submission \<Rightarrow> json" where
  "queue_data s = JObject [(''uuid'', JString (s_uuid s)),
                           (''form_template_id'', JNumber (s_formTemplateId s)),
                           (''status'', JString (s_status s))]"

text \<open>The loop over \<open>submission.files\<close>; \<open>i\<close> is the position of the file in the array.\<close>

fun sync_files :: "faults \<Rightarrow> nat \<Rightarrow> nat \<Rightarrow> file_ref list \<Rightarrow> (world \<times> database, unit) io" where
  "sync_files flt submissionId i [] = ret ()"
| "sync_files flt submissionId i (file # files) =
     (if \<not> truthy_id (f_s3ObjectId file) then sync_files flt submissionId (Suc i) files
      else seq (execute flt (InsFile i) (insert_file
                  \<lparr>fsf_id = 0, fsf_form_submission_id = submissionId,
                   fsf_field_name = f_fieldName file,
                   fsf_file_s3_object_id = the (f_s3ObjectId file),
                   fsf_file_name = f_fileName file,
                   fsf_file_description = string_or_null (f_description file)\<rparr>))
             (\<lambda>u. sync_files flt submissionId (Suc i) files))"

text \<open>
  The rows of lines 142 to 154, 189 to 200, 209 to 221 and 247 to 257, as the VALUES lists
  give them; \<open>submittedAt\<close> is the local of line 132.
\<close>

definition sync_submission_row :: "env \<Rightarrow> request \<Rightarrow> submission \<Rightarrow> nat \<Rightarrow> submission_row" where
  "sync_submission_row e req s dataS3ObjectId =
     (let submittedAt = (if s_status s \<noteq> ''draft'' then Some (now e) else None) in
      \<lparr>fs_id = 0, fs_uuid = s_uuid s, fs_form_template_id = s_formTemplateId s,
       fs_form_template_version = s_formTemplateVersion s, fs_submitted_by = user_id req,
       fs_status = s_status s, fs_submitted_at = submittedAt,
       fs_data_s3_object_id = dataS3ObjectId,
       fs_geolocation_latitude = geo_field (s_geolocation s) latitude,
       fs_geolocation_longitude = geo_field (s_geolocation s) longitude,
       fs_geolocation_accuracy = geo_field (s_geolocation s) accuracy,
       fs_device_info = s_deviceInfo s,
       fs_is_offline_submission = True, fs_synced_at = Some (now e)\<rparr>)"

definition sync_log_row :: "request \<Rightarrow> string \<Rightarrow> submission \<Rightarrow> nat \<Rightarrow> log_row" where
  "sync_log_row req deviceId s submissionId =
     \<lparr>al_id = 0, al_user_id = user_id req, al_activity_type = ''sync_submission'',
      al_entity_type = ''form_submissions'', al_entity_id = submissionId,
      al_details = JObject [(''device_id'', JString deviceId),
                            (''form_template_id'', JNumber (s_formTemplateId s)),
                            (''uuid'', JString (s_uuid s))],
      al_ip_address = ip req\<rparr>"

definition completed_entry :: "env \<Rightarrow> request \<Rightarrow> string \<Rightarrow> submission \<Rightarrow> nat \<Rightarrow> queue_row" where
  "completed_entry e req deviceId s submissionId =
     \<lparr>sq_id = 0, sq_user_id = user_id req, sq_device_id = deviceId,
      sq_entity_type = ''form_submissions'', sq_operation = ''create'',
      sq_local_id = s_uuid s, sq_server_id = Some submissionId,
      sq_data = queue_data s, sq_status = ''completed'', sq_error_message = None,
      sq_retry_count = 0, sq_created_at = now e, sq_updated_at = now e\<rparr>"

definition failed_entry :: "env \<Rightarrow> request \<Rightarrow> string \<Rightarrow> submission \<Rightarrow> string \<Rightarrow> queue_row" where
  "failed_entry e req deviceId s msg =
     \<lparr>sq_id = 0, sq_user_id = user_id req, sq_device_id = deviceId,
      sq_entity_type = ''form_submissions'', sq_operation = ''create'',
      sq_local_id = s_uuid s, sq_server_id = None,
      sq_data = queue_data s, sq_status = ''failed'', sq_error_message = Some msg,
      sq_retry_count = 0, sq_created_at = now e, sq_updated_at = now e\<rparr>"

definition error_result :: "submission \<Rightarrow> string \<Rightarrow> sync_result" where
  "error_result s msg = \<lparr>r_uuid = s_uuid s, r_status = ''error'', r_message = msg, r_serverId = None\<rparr>"

definition success_result :: "submission \<Rightarrow> nat \<Rightarrow> sync_result" where
  "success_result s submissionId =
     \<lparr>r_uuid = s_uuid s, r_status = ''success'', r_message = ''Submission synced successfully'',
      r_serverId = Some submissionId\<rparr>"

definition skipped_result :: "submission \<Rightarrow> nat \<Rightarrow> sync_result" where
  "skipped_result s existingId =
     \<lparr>r_uuid = s_uuid s, r_status = ''skipped'',
      r_message = ''Submission with this UUID already exists'', r_serverId = Some existingId\<rparr>"

text \<open>
  Lines 103 to 222: what the item does between \<open>beginTransaction\<close> and \<open>commit\<close>. The result
  is \<open>submissionId\<close>.
\<close>

definition sync_writes ::
  "faults \<Rightarrow> env \<Rightarrow> request \<Rightarrow> string \<Rightarrow> submission \<Rightarrow> (world \<times> database, nat) io" where
  "sync_writes flt e req deviceId s =
     (let objectKey = submission_key (s_formTemplateId s) (s_uuid s) in
      seq (outside (putObject flt (submissionsBucket e) objectKey (s_data s) ''application/json'')) (\<lambda>u.
      seq (execute flt InsObject (insert_s3_object e (submissionsBucket e) objectKey
             ''application/json'' (length (s_data s)) (user_id req))) (\<lambda>dataS3ObjectId.
      seq (execute flt InsSubmission
             (insert_submission (sync_submission_row e req s dataS3ObjectId))) (\<lambda>submissionId.
      seq (case s_files s of None \<Rightarrow> ret () | Some files \<Rightarrow> sync_files flt submissionId 0 files) (\<lambda>u.
      seq (execute flt InsLog (insert_log (sync_log_row req deviceId s submissionId))) (\<lambda>u.
      seq (execute flt InsQueueCompleted
             (insert_queue (completed_entry e req deviceId s submissionId))) (\<lambda>u.
      ret submissionId)))))))"

text \<open>
  Lines 100 to 270: the \<open>try\<close> block, the \<open>catch\<close> block and the whole statement with its
  \<open>finally\<close>, run while holding the connection.
\<close>

definition sync_try ::
  "faults \<Rightarrow> env \<Rightarrow> request \<Rightarrow> string \<Rightarrow> submission \<Rightarrow> (world \<times> handle, sync_result) io" where
  "sync_try flt e req deviceId s =
     seq (beginTransaction flt) (\<lambda>u.
     seq (on_connection (sync_writes flt e req deviceId s)) (\<lambda>submissionId.
     seq (commit flt) (\<lambda>u.
     ret (success_result s submissionId))))"

definition sync_catch ::
  "faults \<Rightarrow> env \<Rightarrow> request \<Rightarrow> string \<Rightarrow> submission \<Rightarrow> error
     \<Rightarrow> (world \<times> handle, sync_result) io" where
  "sync_catch flt e req deviceId s error =
     seq (rollback flt) (\<lambda>u.
     seq (outside (query flt InsQueueFailed
            (insert_queue (failed_entry e req deviceId s (message error))))) (\<lambda>u.
     ret (error_result s (''Error: '' @ message error))))"

definition sync_transaction ::
  "faults \<Rightarrow> env \<Rightarrow> request \<Rightarrow> string \<Rightarrow> submission \<Rightarrow> (world \<times> handle, sync_result) io" where
  "sync_transaction flt e req deviceId s =
     try_finally
       (try_catch (sync_try flt e req deviceId s) (sync_catch flt e req deviceId s))
       release"

text \<open>Lines 48 to 270: the body of the outer \<open>try\<close> of one loop iteration.\<close>

definition sync_item ::
  "faults \<Rightarrow> env \<Rightarrow> request \<Rightarrow> string \<Rightarrow> submission \<Rightarrow> (world, sync_result) io" where
  "sync_item flt e req deviceId s =
     seq (query flt SelExisting (select_submission_ids (s_uuid s))) (\<lambda>existingSubmission.
     if existingSubmission \<noteq> [] then ret (skipped_result s (hd existingSubmission))
     else
     seq (query flt SelTemplate (select_templates (s_formTemplateId s))) (\<lambda>formTemplate.
     if formTemplate = [] then ret (error_result s ''Form template not found'')
     else
     seq (query flt SelVersion
            (select_versions (s_formTemplateId s) (s_formTemplateVersion s))) (\<lambda>formVersion.
     if formVersion = [] then ret (error_result s ''Form template version not found'')
     else
     seq (getConnection flt) (\<lambda>connection.
     holding connection (sync_transaction flt e req deviceId s)))))"

text \<open>
  One loop iteration: the outer \<open>catch\<close> turns whatever the body throws into an \<open>error\<close>
  result. The result is what the iteration pushes on \<open>results\<close>.
\<close>

definition process_item ::
  "faults \<Rightarrow> env \<Rightarrow> request \<Rightarrow> string \<Rightarrow> submission \<Rightarrow> world \<Rightarrow> sync_result \<times> world" where
  "process_item flt e req deviceId s w =
     (case sync_item flt e req deviceId s w of
        (Inr r, w') \<Rightarrow> (r, w')
      | (Inl error, w') \<Rightarrow> (error_result s (''Error: '' @ message error), w'))"

text \<open>
  The loop over \<open>submissions\<close> with its three local variables. \<open>syncedCount\<close> is incremented
  where a \<open>success\<close> result is pushed and \<open>errorCount\<close> where an \<open>error\<close> result is pushed, and
  nowhere else. The environment's faults are given per position of the item in the batch.
\<close>

record tally =
  results :: "sync_result list"
  syncedCount :: nat
  errorCount :: nat

definition push_result :: "sync_result \<Rightarrow> tally \<Rightarrow> tally" where
  "push_result r t =
     \<lparr>results = results t @ [r],
      syncedCount = (if r_status r = ''success'' then Suc (syncedCount t) else syncedCount t),
      errorCount = (if r_status r = ''error'' then Suc (errorCount t) else errorCount t)\<rparr>"

fun sync_loop ::
  "(nat \<Rightarrow> faults) \<Rightarrow> env \<Rightarrow> request \<Rightarrow> string \<Rightarrow> nat \<Rightarrow> submission list \<Rightarrow> tally \<Rightarrow> world
     \<Rightarrow> tally \<times> world" where
  "sync_loop flts e req deviceId i [] t w = (t, w)"
| "sync_loop flts e req deviceId i (s # ss) t w =
     (case process_item (flts i) e req deviceId s w of
        (r, w') \<Rightarrow> sync_loop flts e req deviceId (Suc i) ss (push_result r t) w')"

record sync_body =
  b_deviceId :: "string option"
  b_submissions :: "submission list option"

record sync_data =
  sd_message :: "string option"
  synced :: nat
  errors :: nat
  sd_results :: "sync_result list"

text \<open>What a handler does with the request: it answers, or hands an error to \<open>next\<close>.\<close>

datatype 'a outcome = Json nat 'a | Next error

definition syncSubmissions ::
  "faults \<Rightarrow> (nat \<Rightarrow> faults) \<Rightarrow> env \<Rightarrow> request \<Rightarrow> sync_body \<Rightarrow> world \<Rightarrow> sync_data outcome \<times> world" where
  "syncSubmissions flt flts e req body w =
     (let subs = (case b_submissions body of None \<Rightarrow> [] | Some xs \<Rightarrow> xs) in
      if \<not> truthy_string (b_deviceId body) then (Next (AppError ''Device ID is required'' 400), w)
      else if subs = [] then
        (Json 200 \<lparr>sd_message = Some ''No submissions to sync'', synced = 0, errors = 0,
                   sd_results = []\<rparr>, w)
      else
        (case query flt UpdUser (update_user_device (the (b_deviceId body)) (now e) (user_id req)) w of
           (Inl error, w') \<Rightarrow> (Next error, w')
         | (Inr u, w') \<Rightarrow>
             (case sync_loop flts e req (the (b_deviceId body)) 0 subs
                     \<lparr>results = [], syncedCount = 0, errorCount = 0\<rparr> w' of
                (t, w'') \<Rightarrow>
                  (Json 200 \<lparr>sd_message = None, synced = syncedCount t, errors = errorCount t,
                             sd_results = results t\<rparr>, w''))))"

text \<open>
  \<open>getSyncStatus\<close>: three SELECTs. ORDER BY ... DESC is a stable sort on the negated
  timestamp; the interval of 24 hours is in seconds.
\<close>

record status_data =
  lastSync :: "int option"
  pendingCount :: nat
  pendingItems :: "queue_row list"
  completedItems :: "queue_row list"

definition select_last_sync :: "nat \<Rightarrow> string \<Rightarrow> int option list statement" where
  "select_last_sync uid dev d =
     Inr (d, map u_last_sync_at
        (filter (\<lambda>r. u_id r = uid \<and> u_device_id r = Some dev) (users d)))"

definition select_pending :: "nat \<Rightarrow> string \<Rightarrow> queue_row list statement" where
  "select_pending uid dev d =
     Inr (d, sort_key (\<lambda>r. - sq_created_at r)
        (filter (\<lambda>r. sq_user_id r = uid \<and> sq_device_id r = dev
                    \<and> (sq_status r = ''pending'' \<or> sq_status r = ''failed'')) (sync_queue d)))"

definition select_completed :: "int \<Rightarrow> nat \<Rightarrow> string \<Rightarrow> queue_row list statement" where
  "select_completed t uid dev d =
     Inr (d, take 50 (sort_key (\<lambda>r. - sq_updated_at r)
        (filter (\<lambda>r. sq_user_id r = uid \<and> sq_device_id r = dev \<and> sq_status r = ''completed''
                    \<and> sq_updated_at r \<ge> t - 24 * 3600) (sync_queue d))))"

definition getSyncStatus ::
  "faults \<Rightarrow> env \<Rightarrow> request \<Rightarrow> string option \<Rightarrow> world \<Rightarrow> status_data outcome \<times> world" where
  "getSyncStatus flt e req deviceId w =
     (if \<not> truthy_string deviceId then (Next (AppError ''Device ID is required'' 400), w)
      else
        (case seq (query flt SelUser (select_last_sync (user_id req) (the deviceId))) (\<lambda>users.
              seq (query flt SelPending (select_pending (user_id req) (the deviceId))) (\<lambda>pendingItems.
              seq (query flt SelCompleted
                     (select_completed (now e) (user_id req) (the deviceId))) (\<lambda>completedItems.
              ret \<lparr>lastSync = (if users \<noteq> [] then hd users else None),
                   pendingCount = length pendingItems,
                   pendingItems = pendingItems,
                   completedItems = completedItems\<rparr>))) w of
           (Inl error, w') \<Rightarrow> (Next error, w')
         | (Inr data, w') \<Rightarrow> (Json 200 data, w')))"

section \<open>controllers/fileController.js\<close>

text \<open>
  The driver's \<open>execute\<close> refuses a bind parameter that is \<open>undefined\<close>; the file controller
  passes \<open>contentType\<close> and \<open>fileSize\<close> as they come from the request.
\<close>

definition bind_undefined :: error where
  "bind_undefined = TypeError
     ''Bind parameters must not contain undefined. To pass SQL NULL specify JS null''"

definition last_segment :: "string \<Rightarrow> string" where
  "last_segment key = rev (takeWhile (\<lambda>c. c \<noteq> CHR ''/'') (rev key))"

record file_data =
  fileId :: nat
  downloadUrl :: string
  fileName :: string
  fieldName :: "string option"
  contentType :: "string option"
  fileSize :: "nat option"

text \<open>
  Lines 127 to 143 and 293 to 309: the identifier of the registered row is the driver's
  \<open>insertId\<close> when that is truthy, and otherwise the identifier a SELECT by
  (bucket, key-hash) finds.
\<close>

definition registered_id :: "faults \<Rightarrow> string \<Rightarrow> string \<Rightarrow> nat \<Rightarrow> (world, nat) io" where
  "registered_id flt bucket objectKeyHash insertId =
     (if insertId \<noteq> 0 then ret insertId
      else seq (query flt SelObject (select_object_ids bucket objectKeyHash)) (\<lambda>existingObject.
           if existingObject = [] then throw (AppError ''Failed to retrieve S3 object record'' 500)
           else ret (hd existingObject)))"

record complete_file_body =
  cf_bucket :: "string option"
  cf_objectKey :: "string option"
  cf_contentType :: "string option"
  cf_fileName :: "string option"
  cf_fileSize :: "nat option"
  cf_fieldName :: "string option"
  cf_description :: "string option"

definition completeFileUpload_body ::
  "faults \<Rightarrow> bool \<Rightarrow> env \<Rightarrow> request \<Rightarrow> complete_file_body \<Rightarrow> (world, file_data) io" where
  "completeFileUpload_body flt reports_id e req body =
     (if \<not> truthy_string (cf_objectKey body) \<or> \<not> truthy_string (cf_bucket body)
      then throw (AppError ''Bucket and object key are required'' 400)
      else
      let bucket = the (cf_bucket body); objectKey = the (cf_objectKey body) in
      seq (objectExists flt bucket objectKey) (\<lambda>exists.
      if \<not> exists then throw (AppError ''File not found in S3'' 404)
      else
      let objectKeyHash = sha256 e objectKey in
      seq (if cf_contentType body = None \<or> cf_fileSize body = None then throw bind_undefined
           else query flt UpsObject (upsert_s3_object reports_id
                  \<lparr>so_id = 0, so_bucket_name = bucket, so_object_key = objectKey,
                   so_object_key_hash = objectKeyHash, so_content_type = cf_contentType body,
                   so_size_bytes = cf_fileSize body, so_object_version_id = None,
                   so_etag = None, so_created_by = user_id req\<rparr>
                  (\<lambda>x. x\<lparr>so_content_type := cf_contentType body,
                          so_size_bytes := cf_fileSize body,
                          so_created_by := user_id req\<rparr>))) (\<lambda>insertId.
      seq (registered_id flt bucket objectKeyHash insertId) (\<lambda>s3ObjectId.
      seq (getPresignedDownloadUrl flt e bucket objectKey) (\<lambda>url.
      ret \<lparr>fileId = s3ObjectId, downloadUrl = url,
           fileName = (if truthy_string (cf_fileName body) then the (cf_fileName body)
                       else last_segment objectKey),
           fieldName = cf_fieldName body, contentType = cf_contentType body,
           fileSize = cf_fileSize body\<rparr>)))))"

definition respond :: "nat \<Rightarrow> (world, 'a) io \<Rightarrow> world \<Rightarrow> 'a outcome \<times> world" where
  "respond code m w = (case m w of (Inl error, w') \<Rightarrow> (Next error, w')
                                 | (Inr data, w') \<Rightarrow> (Json code data, w'))"

definition completeFileUpload ::
  "faults \<Rightarrow> bool \<Rightarrow> env \<Rightarrow> request \<Rightarrow> complete_file_body \<Rightarrow> world \<Rightarrow> file_data outcome \<times> world" where
  "completeFileUpload flt reports_id e req body =
     respond 200 (completeFileUpload_body flt reports_id e req body)"

record complete_multipart_body =
  cm_bucket :: "string option"
  cm_key :: "string option"
  cm_uploadId :: "string option"
  cm_parts :: "(string \<times> nat) list option"
  cm_contentType :: "string option"
  cm_fileName :: "string option"
  cm_fileSize :: "nat option"
  cm_fieldName :: "string option"

definition strip_quotes :: "string \<Rightarrow> string" where
  "strip_quotes s = filter (\<lambda>c. c \<noteq> CHR 0x22) s"

definition completeMultipartUpload_body ::
  "faults \<Rightarrow> bool \<Rightarrow> complete_result \<Rightarrow> env \<Rightarrow> request \<Rightarrow> complete_multipart_body
     \<Rightarrow> (world, file_data) io" where
  "completeMultipartUpload_body flt reports_id answer e req body =
     (if \<not> truthy_string (cm_bucket body) \<or> \<not> truthy_string (cm_key body)
         \<or> \<not> truthy_string (cm_uploadId body)
         \<or> (case cm_parts body of None \<Rightarrow> True | Some ps \<Rightarrow> ps = [])
      then throw (AppError ''Missing required parameters'' 400)
      else
      let bucket = the (cm_bucket body); key = the (cm_key body) in
      seq (s3_completeMultipartUpload flt answer bucket key (the (cm_uploadId body))
             (the (cm_parts body))) (\<lambda>result.
      let objectKeyHash = sha256 e key;
          versionId = string_or_null (VersionId result);
          etag = (if truthy_string (ETag result) then Some (strip_quotes (the (ETag result)))
                  else None) in
      seq (if cm_contentType body = None \<or> cm_fileSize body = None then throw bind_undefined
           else query flt UpsObject (upsert_s3_object reports_id
                  \<lparr>so_id = 0, so_bucket_name = bucket, so_object_key = key,
                   so_object_key_hash = objectKeyHash, so_content_type = cm_contentType body,
                   so_size_bytes = cm_fileSize body, so_object_version_id = versionId,
                   so_etag = etag, so_created_by = user_id req\<rparr>
                  (\<lambda>x. x\<lparr>so_content_type := cm_contentType body,
                          so_size_bytes := cm_fileSize body,
                          so_object_version_id := versionId,
                          so_etag := etag,
                          so_created_by := user_id req\<rparr>))) (\<lambda>insertId.
      seq (registered_id flt bucket objectKeyHash insertId) (\<lambda>s3ObjectId.
      seq (getPresignedDownloadUrl flt e bucket key) (\<lambda>url.
      ret \<lparr>fileId = s3ObjectId, downloadUrl = url,
           fileName = (if truthy_string (cm_fileName body) then the (cm_fileName body)
                       else last_segment key),
           fieldName = cm_fieldName body, contentType = cm_contentType body,
           fileSize = cm_fileSize body\<rparr>)))))"

definition completeMultipartUpload ::
  "faults \<Rightarrow> bool \<Rightarrow> complete_result \<Rightarrow> env \<Rightarrow> request \<Rightarrow> complete_multipart_body \<Rightarrow> world
     \<Rightarrow> file_data outcome \<times> world" where
  "completeMultipartUpload flt reports_id answer e req body =
     respond 200 (completeMultipartUpload_body flt reports_id answer e req body)"

record abort_body =
  ab_bucket :: "string option"
  ab_key :: "string option"
  ab_uploadId :: "string option"

definition abortMultipartUpload ::
  "faults \<Rightarrow> abort_body \<Rightarrow> world \<Rightarrow> string outcome \<times> world" where
  "abortMultipartUpload flt body =
     respond 200
       (if \<not> truthy_string (ab_bucket body) \<or> \<not> truthy_string (ab_key body)
           \<or> \<not> truthy_string (ab_uploadId body)
        then throw (AppError ''Missing required parameters'' 400)
        else seq (s3_abortMultipartUpload flt (the (ab_bucket body)) (the (ab_key body))
                    (the (ab_uploadId body))) (\<lambda>u.
             ret ''Multipart upload aborted successfully''))"

section \<open>controllers/submissionController.js\<close>

record create_body =
  c_uuid :: "string option"
  c_formTemplateId :: nat
  c_formTemplateVersion :: nat
  c_data :: string
  c_files :: "file_ref list option"
  c_status :: "string option"
  c_geolocationLatitude :: "real option"
  c_geolocationLongitude :: "real option"
  c_geolocationAccuracy :: "real option"
  c_deviceInfo :: "string option"
  c_isOfflineSubmission :: "bool option"

record created =
  cr_submissionId :: nat
  cr_uuid :: string
  cr_formTemplateId :: nat
  cr_formTemplateVersion :: nat
  cr_status :: string
  cr_submittedAt :: "int option"

text \<open>The defaults of the destructuring assignment at the head of \<open>createSubmission\<close>.\<close>

definition uuid_of :: "env \<Rightarrow> create_body \<Rightarrow> string" where
  "uuid_of e body = (case c_uuid body of None \<Rightarrow> fresh_uuid e | Some u \<Rightarrow> u)"

definition status_of :: "create_body \<Rightarrow> string" where
  "status_of body = (case c_status body of None \<Rightarrow> ''draft'' | Some s \<Rightarrow> s)"

definition files_of :: "create_body \<Rightarrow> file_ref list" where
  "files_of body = (case c_files body of None \<Rightarrow> [] | Some fs \<Rightarrow> fs)"

definition offline_of :: "create_body \<Rightarrow> bool" where
  "offline_of body = (case c_isOfflineSubmission body of None \<Rightarrow> False | Some b \<Rightarrow> b)"

text \<open>
  Lines 709 to 816: the callback \<open>createSubmission\<close> passes to \<open>executeTransaction\<close>;
  \<open>project_id\<close> is \<open>form.project_id\<close>.
\<close>

definition createSubmission_callback ::
  "faults \<Rightarrow> env \<Rightarrow> request \<Rightarrow> create_body \<Rightarrow> nat \<Rightarrow> (world \<times> database, created) io" where
  "createSubmission_callback flt e req body project_id =
     (let uuid = uuid_of e body; status = status_of body;
          objectKey = submission_key (c_formTemplateId body) uuid in
      seq (outside (putObject flt (submissionsBucket e) objectKey (c_data body) ''application/json'')) (\<lambda>u.
      seq (execute flt InsObject (insert_s3_object e (submissionsBucket e) objectKey
             ''application/json'' (length (c_data body)) (user_id req))) (\<lambda>dataS3ObjectId.
      let submittedAt = (if status = ''draft'' then None else Some (now e));
          syncedAt = (if offline_of body then Some (now e) else None) in
      seq (execute flt InsSubmission (insert_submission
             \<lparr>fs_id = 0, fs_uuid = uuid, fs_form_template_id = c_formTemplateId body,
              fs_form_template_version = c_formTemplateVersion body, fs_submitted_by = user_id req,
              fs_status = status, fs_submitted_at = submittedAt,
              fs_data_s3_object_id = dataS3ObjectId,
              fs_geolocation_latitude = number_or_null (c_geolocationLatitude body),
              fs_geolocation_longitude = number_or_null (c_geolocationLongitude body),
              fs_geolocation_accuracy = number_or_null (c_geolocationAccuracy body),
              fs_device_info = c_deviceInfo body,
              fs_is_offline_submission = offline_of body, fs_synced_at = syncedAt\<rparr>)) (\<lambda>submissionId.
      seq (sync_files flt submissionId 0 (files_of body)) (\<lambda>u.
      seq (execute flt InsLog (insert_log
             \<lparr>al_id = 0, al_user_id = user_id req, al_activity_type = ''form_submission'',
              al_entity_type = ''form_submissions'', al_entity_id = submissionId,
              al_details = JObject [(''project_id'', JNumber project_id),
                                    (''form_template_id'', JNumber (c_formTemplateId body)),
                                    (''action'', JString status)],
              al_ip_address = ip req\<rparr>)) (\<lambda>u.
      ret \<lparr>cr_submissionId = submissionId, cr_uuid = uuid,
           cr_formTemplateId = c_formTemplateId body,
           cr_formTemplateVersion = c_formTemplateVersion body,
           cr_status = status, cr_submittedAt = submittedAt\<rparr>))))))"

text \<open>
  The identifiers bound in the module: its six \<open>require\<close> bindings and its four handlers.
  \<open>database/transaction\<close> is not among the modules it requires.
\<close>

definition submissionController_scope :: "string list" where
  "submissionController_scope =
     [''db'', ''s3Service'', ''AppError'', ''logger'', ''config'', ''uuidv4'',
      ''createSubmission'', ''getSubmissionById'', ''getAllSubmissions'', ''updateSubmissionStatus'']"

text \<open>
  \<open>createSubmission\<close> in a module with the bindings \<open>scope\<close>. The call
  \<^verbatim>\<open>executeTransaction(db, async (connection) => { ... })\<close> first resolves the identifier
  \<open>executeTransaction\<close>, and hands the \<open>db\<close> module over as the connection.
\<close>

definition createSubmission_in ::
  "string list \<Rightarrow> faults \<Rightarrow> env \<Rightarrow> request \<Rightarrow> create_body \<Rightarrow> world \<Rightarrow> created outcome \<times> world" where
  "createSubmission_in scope flt e req body =
     respond 201
       (seq (query flt SelTemplate (select_templates (c_formTemplateId body))) (\<lambda>forms.
        if forms = [] then throw (AppError ''Form template not found'' 404)
        else
        let form = hd forms in
        seq (query flt SelVersion
               (select_versions (c_formTemplateId body) (c_formTemplateVersion body))) (\<lambda>versions.
        if versions = [] then throw (AppError ''Form template version not found'' 404)
        else
        seq (if ''create_project'' \<notin> set (permissions req)
             then seq (query flt SelProjectUser
                         (select_project_users (ft_project_id form) (user_id req))) (\<lambda>userProjects.
                  if userProjects = [] then throw (AppError ''Access denied'' 403) else ret ())
             else ret ()) (\<lambda>u.
        if ''executeTransaction'' \<notin> set scope
        then throw (ReferenceError ''executeTransaction is not defined'')
        else holding DbModule
               (executeTransaction flt
                  (createSubmission_callback flt e req body (ft_project_id form)))))))"

definition createSubmission ::
  "faults \<Rightarrow> env \<Rightarrow> request \<Rightarrow> create_body \<Rightarrow> world \<Rightarrow> created outcome \<times> world" where
  "createSubmission = createSubmission_in submissionController_scope"

section \<open>The calls of one item's transaction\<close>

text \<open>
  The calls the \<open>try\<close> block of one item makes, in order: \<open>beginTransaction\<close>, the put to the
  object store, the three INSERTs, one INSERT per attached file that has a truthy
  \<open>s3ObjectId\<close>, the audit-log INSERT, the completed-queue INSERT and \<open>commit\<close>.
\<close>

definition file_steps :: "file_ref list option \<Rightarrow> step list" where
  "file_steps fs = (case fs of None \<Rightarrow> []
     | Some files \<Rightarrow> map InsFile (filter (\<lambda>i. truthy_id (f_s3ObjectId (files ! i))) [0..<length files]))"

definition tx_steps :: "submission \<Rightarrow> step list" where
  "tx_steps s = [Begin, S3Put, InsObject, InsSubmission] @ file_steps (s_files s)
                @ [InsLog, InsQueueCompleted, Commit]"

text \<open>The item gets as far as its transaction: it is not a duplicate, its template and
  version exist, and the three SELECTs and the checkout of the connection do not fail.\<close>

definition reaches_transaction :: "faults \<Rightarrow> submission \<Rightarrow> world \<Rightarrow> bool" where
  "reaches_transaction flt s w =
     (flt SelExisting = None \<and> flt SelTemplate = None \<and> flt SelVersion = None \<and> flt GetConn = None
      \<and> filter (\<lambda>r. fs_uuid r = s_uuid s) (form_submissions (db w)) = []
      \<and> filter (\<lambda>r. ft_id r = s_formTemplateId s) (form_templates (db w)) \<noteq> []
      \<and> filter (\<lambda>r. ftv_form_template_id r = s_formTemplateId s
                     \<and> ftv_version r = s_formTemplateVersion s) (form_template_versions (db w)) \<noteq> [])"

text \<open>Every table but the sync queue holds the same rows in \<open>d'\<close> as in \<open>d\<close>.\<close>

definition only_queue_changed :: "database \<Rightarrow> database \<Rightarrow> bool" where
  "only_queue_changed d d' =
     (users d' = users d \<and> form_templates d' = form_templates d
      \<and> form_template_versions d' = form_template_versions d
      \<and> project_users d' = project_users d \<and> s3_objects d' = s3_objects d
      \<and> form_submissions d' = form_submissions d
      \<and> form_submission_files d' = form_submission_files d
      \<and> activity_logs d' = activity_logs d)"

text \<open>
  An item that can be ingested into \<open>d\<close>: its client identifier is new, its template and
  version exist, and the ledger has no object record for its payload key.
\<close>

definition ingestible :: "env \<Rightarrow> submission \<Rightarrow> database \<Rightarrow> bool" where
  "ingestible e s d =
     (filter (\<lambda>r. fs_uuid r = s_uuid s) (form_submissions d) = []
      \<and> filter (\<lambda>r. ft_id r = s_formTemplateId s) (form_templates d) \<noteq> []
      \<and> filter (\<lambda>r. ftv_form_template_id r = s_formTemplateId s
                     \<and> ftv_version r = s_formTemplateVersion s) (form_template_versions d) \<noteq> []
      \<and> filter (same_object (submissionsBucket e)
            (sha256 e (submission_key (s_formTemplateId s) (s_uuid s)))) (s3_objects d) = [])"

section \<open>What an item leaves in the store\<close>

text \<open>
  The rows the loop over \<open>submission.files\<close> stores for the submission \<open>submissionId\<close> when the
  next free identifier of the attachment table is \<open>n\<close>: one row for every file whose
  \<open>s3ObjectId\<close> is neither missing nor 0, in the order of the array.
\<close>

fun attachment_rows :: "nat \<Rightarrow> nat \<Rightarrow> file_ref list \<Rightarrow> file_row list" where
  "attachment_rows submissionId n [] = []"
| "attachment_rows submissionId n (f # fs) =
     (case f_s3ObjectId f of
        None \<Rightarrow> attachment_rows submissionId n fs
      | Some oid \<Rightarrow>
          if oid = 0 then attachment_rows submissionId n fs
          else \<lparr>fsf_id = n, fsf_form_submission_id = submissionId,
                fsf_field_name = f_fieldName f, fsf_file_s3_object_id = oid,
                fsf_file_name = f_fileName f,
                fsf_file_description =
                  (case f_description f of None \<Rightarrow> None
                   | Some t \<Rightarrow> if t = [] then None else Some t)\<rparr>
               # attachment_rows submissionId (Suc n) fs)"

text \<open>
  The database an item leaves when all of its writes are committed onto \<open>d\<close>: one object
  record for its payload key, one submission row, its attachment rows, one audit-log row
  and one \<open>completed\<close> queue entry, each with the next free identifier of its table.
\<close>

definition ingested :: "env \<Rightarrow> request \<Rightarrow> string \<Rightarrow> submission \<Rightarrow> database \<Rightarrow> database" where
  "ingested e req deviceId s d =
     d\<lparr>s3_objects := s3_objects d @
          [\<lparr>so_id = next_s3_object_id d, so_bucket_name = submissionsBucket e,
            so_object_key =
              ''submissions/'' @ string_of_nat (s_formTemplateId s) @ ''/'' @ s_uuid s @ ''.json'',
            so_object_key_hash = sha256 e
              (''submissions/'' @ string_of_nat (s_formTemplateId s) @ ''/'' @ s_uuid s @ ''.json''),
            so_content_type = Some ''application/json'',
            so_size_bytes = Some (length (s_data s)), so_object_version_id = None,
            so_etag = None, so_created_by = user_id req\<rparr>],
       form_submissions := form_submissions d @
          [\<lparr>fs_id = next_submission_id d, fs_uuid = s_uuid s,
            fs_form_template_id = s_formTemplateId s,
            fs_form_template_version = s_formTemplateVersion s,
            fs_submitted_by = user_id req, fs_status = s_status s,
            fs_submitted_at = (if s_status s = ''draft'' then None else Some (now e)),
            fs_data_s3_object_id = next_s3_object_id d,
            fs_geolocation_latitude = geo_field (s_geolocation s) latitude,
            fs_geolocation_longitude = geo_field (s_geolocation s) longitude,
            fs_geolocation_accuracy = geo_field (s_geolocation s) accuracy,
            fs_device_info = s_deviceInfo s,
            fs_is_offline_submission = True, fs_synced_at = Some (now e)\<rparr>],
       form_submission_files := form_submission_files d @
          (case s_files s of None \<Rightarrow> []
           | Some files \<Rightarrow> attachment_rows (next_submission_id d) (next_file_id d) files),
       activity_logs := activity_logs d @
          [\<lparr>al_id = next_log_id d, al_user_id = user_id req,
            al_activity_type = ''sync_submission'', al_entity_type = ''form_submissions'',
            al_entity_id = next_submission_id d,
            al_details = JObject [(''device_id'', JString deviceId),
                                  (''form_template_id'', JNumber (s_formTemplateId s)),
                                  (''uuid'', JString (s_uuid s))],
            al_ip_address = ip req\<rparr>],
       sync_queue := sync_queue d @
          [\<lparr>sq_id = next_queue_id d, sq_user_id = user_id req, sq_device_id = deviceId,
            sq_entity_type = ''form_submissions'', sq_operation = ''create'',
            sq_local_id = s_uuid s, sq_server_id = Some (next_submission_id d),
            sq_data = JObject [(''uuid'', JString (s_uuid s)),
                               (''form_template_id'', JNumber (s_formTemplateId s)),
                               (''status'', JString (s_status s))],
            sq_status = ''completed'', sq_error_message = None,
            sq_retry_count = 0, sq_created_at = now e, sq_updated_at = now e\<rparr>],
       next_s3_object_id := Suc (next_s3_object_id d),
       next_submission_id := Suc (next_submission_id d),
       next_file_id := next_file_id d +
          length (case s_files s of None \<Rightarrow> []
                  | Some files \<Rightarrow> attachment_rows (next_submission_id d) (next_file_id d) files),
       next_log_id := Suc (next_log_id d),
       next_queue_id := Suc (next_queue_id d)\<rparr>"

text \<open>
  The database a failed attempt leaves when nothing but its \<open>failed\<close> queue entry, with the
  message \<open>msg\<close>, is stored onto \<open>d\<close>.
\<close>

definition failed_attempt :: "env \<Rightarrow> request \<Rightarrow> string \<Rightarrow> submission \<Rightarrow> string \<Rightarrow> database \<Rightarrow> database" where
  "failed_attempt e req deviceId s msg d =
     d\<lparr>sync_queue := sync_queue d @
          [\<lparr>sq_id = next_queue_id d, sq_user_id = user_id req, sq_device_id = deviceId,
            sq_entity_type = ''form_submissions'', sq_operation = ''create'',
            sq_local_id = s_uuid s, sq_server_id = None,
            sq_data = JObject [(''uuid'', JString (s_uuid s)),
                               (''form_template_id'', JNumber (s_formTemplateId s)),
                               (''status'', JString (s_status s))],
            sq_status = ''failed'', sq_error_message = Some msg,
            sq_retry_count = 0, sq_created_at = now e, sq_updated_at = now e\<rparr>],
       next_queue_id := Suc (next_queue_id d)\<rparr>"

text \<open>
  The world in which the item at position \<open>j\<close> of a batch is processed: the world the
  items before it have left, whatever their results were.
\<close>

fun world_before ::
  "(nat \<Rightarrow> faults) \<Rightarrow> env \<Rightarrow> request \<Rightarrow> string \<Rightarrow> submission list \<Rightarrow> nat \<Rightarrow> world \<Rightarrow> world" where
  "world_before flts e req deviceId subs 0 w = w"
| "world_before flts e req deviceId subs (Suc j) w =
     snd (process_item (flts j) e req deviceId (subs ! j)
            (world_before flts e req deviceId subs j w))"

section \<open>What the sync engine can do to the world\<close>

text \<open>
  \<open>sync_reaches w w'\<close>: the world \<open>w'\<close> is reached from \<open>w\<close> by any number of loop iterations
  of \<open>syncSubmissions\<close> (for any items, requests and faults) and of its UPDATE of the
  user's device, in any order: the rest of a batch, and any number of later batches.
\<close>

inductive sync_reaches :: "world \<Rightarrow> world \<Rightarrow> bool" where
  here: "sync_reaches w w"
| item_step: "sync_reaches w w1 \<Longrightarrow> process_item flt e req dev s w1 = (r, w2) \<Longrightarrow> sync_reaches w w2"
| user_step: "sync_reaches w w1 \<Longrightarrow> query flt UpdUser (update_user_device dev t uid) w1 = (r, w2)
              \<Longrightarrow> sync_reaches w w2"

section \<open>Example data\<close>

definition no_faults :: faults where
  "no_faults = (\<lambda>st. None)"

definition env0 :: env where
  "env0 = \<lparr>submissionsBucket = ''form-submissions'', sha256 = (\<lambda>k. ''#'' @ k), now = 1000,
           fresh_uuid = ''u-0'', signed_url = (\<lambda>b k. b @ ''/'' @ k)\<rparr>"

definition req0 :: request where
  "req0 = \<lparr>user_id = 7, ip = ''10.0.0.1'', permissions = []\<rparr>"

definition db0 :: database where
  "db0 = \<lparr>users = [\<lparr>u_id = 7, u_device_id = None, u_last_sync_at = None\<rparr>],
          form_templates = [\<lparr>ft_id = 5, ft_project_id = 1\<rparr>],
          form_template_versions = [\<lparr>ftv_form_template_id = 5, ftv_version = 1\<rparr>],
          project_users = [\<lparr>pu_project_id = 1, pu_user_id = 7\<rparr>],
          s3_objects = [], form_submissions = [], form_submission_files = [],
          activity_logs = [], sync_queue = [],
          next_s3_object_id = 1, next_submission_id = 1, next_file_id = 1,
          next_log_id = 1, next_queue_id = 1\<rparr>"

definition world0 :: world where
  "world0 = \<lparr>db = db0, s3_sent = []\<rparr>"

definition item :: "string \<Rightarrow> nat \<Rightarrow> string \<Rightarrow> submission" where
  "item uuid version status =
     \<lparr>s_uuid = uuid, s_formTemplateId = 5, s_formTemplateVersion = version, s_status = status,
      s_data = ''{}'', s_files = None, s_geolocation = None, s_deviceInfo = None\<rparr>"

definition body0 :: sync_body where
  "body0 = \<lparr>b_deviceId = Some ''dev-1'',
            b_submissions = Some [item ''a1'' 1 ''submitted'', item ''a2'' 99 ''submitted'',
                                  item ''a3'' 1 ''draft'']\<rparr>"

definition create0 :: "string \<Rightarrow> create_body" where
  "create0 status =
     \<lparr>c_uuid = Some ''c1'', c_formTemplateId = 5, c_formTemplateVersion = 1, c_data = ''{}'',
      c_files = None, c_status = Some status, c_geolocationLatitude = None,
      c_geolocationLongitude = None, c_geolocationAccuracy = None, c_deviceInfo = None,
      c_isOfflineSubmission = None\<rparr>"

definition qrow :: "nat \<Rightarrow> nat \<Rightarrow> string \<Rightarrow> string \<Rightarrow> int \<Rightarrow> queue_row" where
  "qrow i uid dev status t =
     \<lparr>sq_id = i, sq_user_id = uid, sq_device_id = dev, sq_entity_type = ''form_submissions'',
      sq_operation = ''create'', sq_local_id = ''x'', sq_server_id = None, sq_data = JObject [],
      sq_status = status, sq_error_message = None, sq_retry_count = 0,
      sq_created_at = t, sq_updated_at = t\<rparr>"

definition world_q :: world where
  "world_q = \<lparr>db = db0\<lparr>sync_queue :=
       [qrow 1 7 ''dev-1'' ''failed'' 10, qrow 2 7 ''dev-1'' ''pending'' 30,
        qrow 3 7 ''dev-1'' ''completed'' 20, qrow 4 7 ''dev-2'' ''failed'' 40,
        qrow 5 8 ''dev-1'' ''failed'' 50]\<rparr>, s3_sent = []\<rparr>"

definition object0 :: s3_object_row where
  "object0 = \<lparr>so_id = 4, so_bucket_name = ''form-submissions'',
              so_object_key = ''submissions/5/a1.json'',
              so_object_key_hash = ''#submissions/5/a1.json'',
              so_content_type = Some ''image/png'', so_size_bytes = Some 3,
              so_object_version_id = None, so_etag = None, so_created_by = 9\<rparr>"

definition world_o :: world where
  "world_o = \<lparr>db = db0\<lparr>s3_objects := [object0], next_s3_object_id := 5\<rparr>, s3_sent = []\<rparr>"

definition file_body0 :: complete_file_body where
  "file_body0 = \<lparr>cf_bucket = Some ''form-submissions'', cf_objectKey = Some ''submissions/5/a1.json'',
                 cf_contentType = Some ''application/pdf'', cf_fileName = Some ''report.pdf'',
                 cf_fileSize = Some 2048, cf_fieldName = None, cf_description = None\<rparr>"

definition multipart_body0 :: complete_multipart_body where
  "multipart_body0 = \<lparr>cm_bucket = Some ''form-submissions'',
                      cm_key = Some ''submissions/5/a1.json'', cm_uploadId = Some ''upload-1'',
                      cm_parts = Some [(''etag-1'', 1), (''etag-2'', 2)],
                      cm_contentType = Some ''video/mp4'', cm_fileName = None,
                      cm_fileSize = Some 4096, cm_fieldName = None\<rparr>"

definition answer0 :: complete_result where
  "answer0 = \<lparr>VersionId = Some ''v1'', ETag = Some ''abc''\<rparr>"

definition abort_body0 :: abort_body where
  "abort_body0 = \<lparr>ab_bucket = Some ''form-submissions'', ab_key = Some ''submissions/5/a1.json'',
                  ab_uploadId = Some ''upload-1''\<rparr>"

definition log0 :: log_row where
  "log0 = \<lparr>al_id = 0, al_user_id = 7, al_activity_type = ''t'', al_entity_type = ''e'',
           al_entity_id = 1, al_details = JObject [], al_ip_address = ''10.0.0.1''\<rparr>"

definition photo :: "nat option \<Rightarrow> string \<Rightarrow> file_ref" where
  "photo oid name = \<lparr>f_s3ObjectId = oid, f_fieldName = ''photo'', f_fileName = name,
                     f_description = None\<rparr>"

definition item_f :: "string \<Rightarrow> nat \<Rightarrow> string \<Rightarrow> submission" where
  "item_f uuid version status =
     (item uuid version status)\<lparr>s_files :=
        Some [photo (Some 4) ''p1.jpg'', photo None ''p2.jpg'', photo (Some 9) ''p3.jpg'']\<rparr>"

definition body1 :: sync_body where
  "body1 = \<lparr>b_deviceId = Some ''dev-1'',
            b_submissions = Some [item_f ''a1'' 1 ''submitted'', item_f ''a2'' 1 ''submitted'',
                                  item_f ''a3'' 1 ''draft'']\<rparr>"

definition body2 :: sync_body where
  "body2 = \<lparr>b_deviceId = Some ''dev-1'',
            b_submissions = Some [item_f ''a1'' 1 ''submitted'', item_f ''a2'' 99 ''submitted'',
                                  item_f ''a3'' 1 ''draft'']\<rparr>"

section \<open>The Unit-of-Work contract\<close>

lemma executeTransaction_success:
  assumes "flt Begin = None" and "callback (w, db w) = (Inr r, (w1, d1))" and "flt Commit = None"
  shows "executeTransaction flt callback (w, PoolConnection c) =
           (Inr r, (w1\<lparr>db := d1\<rparr>, PoolConnection \<lparr>pending = None, released = Suc (released c)\<rparr>))"
  using assms
  by (simp add: executeTransaction_def try_finally_def try_catch_def seq_def ret_def
      beginTransaction_def on_connection_def commit_def release_def)

lemma executeTransaction_callback_raises:
  assumes "flt Begin = None" and "callback (w, db w) = (Inl e, (w1, d1))" and "flt Rollback = None"
  shows "executeTransaction flt callback (w, PoolConnection c) =
           (Inl e, (w1, PoolConnection \<lparr>pending = None, released = Suc (released c)\<rparr>))"
  using assms
  by (simp add: executeTransaction_def try_finally_def try_catch_def seq_def throw_def
      beginTransaction_def on_connection_def rollback_def release_def)

lemma executeTransaction_releases_once:
  "\<exists>r w' c'. executeTransaction flt callback (w, PoolConnection c) = (r, (w', PoolConnection c'))
      \<and> released c' = Suc (released c)"
  by (auto simp add: executeTransaction_def try_finally_def try_catch_def seq_def throw_def ret_def
      beginTransaction_def on_connection_def rollback_def commit_def release_def
      split: option.splits sum.splits prod.splits)

text \<open>
  C3. The Unit-of-Work contract of \<open>executeTransaction\<close> on a pooled connection. When
  \<open>beginTransaction\<close> succeeds, the callback returns and \<open>commit\<close> succeeds, the callback's
  working copy becomes the stored database and the callback's result is returned. When
  the callback raises and \<open>rollback\<close> succeeds, the working copy is dropped (the stored
  database is the one the callback left) and the callback's own error is propagated. On
  every path, also those on which \<open>beginTransaction\<close>, \<open>commit\<close> or \<open>rollback\<close> fail, the
  connection comes back released exactly once more than it was.
\<close>

theorem executeTransaction_contract:
  "(flt Begin = None \<and> callback (w, db w) = (Inr r, (wa, da)) \<and> flt Commit = None \<longrightarrow>
      executeTransaction flt callback (w, PoolConnection c) =
        (Inr r, (wa\<lparr>db := da\<rparr>, PoolConnection \<lparr>pending = None, released = Suc (released c)\<rparr>)))
   \<and> (flt Begin = None \<and> callback (w, db w) = (Inl e, (wb, dd)) \<and> flt Rollback = None \<longrightarrow>
      executeTransaction flt callback (w, PoolConnection c) =
        (Inl e, (wb, PoolConnection \<lparr>pending = None, released = Suc (released c)\<rparr>)))
   \<and> (\<exists>r' w' c'. executeTransaction flt callback (w, PoolConnection c) = (r', (w', PoolConnection c'))
        \<and> released c' = Suc (released c))"
  using executeTransaction_success [of flt callback w r wa da c]
    executeTransaction_callback_raises [of flt callback w e wb dd c]
    executeTransaction_releases_once [of flt callback w c]
  by blast

theorem executeTransaction_contract_witness:
  "executeTransaction no_faults (execute no_faults InsLog (insert_log log0))
       (world0, PoolConnection \<lparr>pending = None, released = 0\<rparr>) =
     (Inr 1, (world0\<lparr>db := db0\<lparr>activity_logs := [log0\<lparr>al_id := 1\<rparr>], next_log_id := 2\<rparr>\<rparr>,
              PoolConnection \<lparr>pending = None, released = 1\<rparr>))
   \<and> executeTransaction no_faults
       (seq (execute no_faults InsLog (insert_log log0)) (\<lambda>u. throw (AppError ''stop'' 500)))
       (world0, PoolConnection \<lparr>pending = None, released = 0\<rparr>) =
     (Inl (AppError ''stop'' 500), (world0, PoolConnection \<lparr>pending = None, released = 1\<rparr>))"
proof -
  have a: "execute no_faults InsLog (insert_log log0) (world0, db world0) =
      (Inr 1, (world0, db0\<lparr>activity_logs := [log0\<lparr>al_id := 1\<rparr>], next_log_id := 2\<rparr>))"
    by (simp add: execute_def no_faults_def insert_log_def world0_def db0_def)
  have b: "seq (execute no_faults InsLog (insert_log log0)) (\<lambda>u. throw (AppError ''stop'' 500))
       (world0, db world0) =
      (Inl (AppError ''stop'' 500), (world0, db0\<lparr>activity_logs := [log0\<lparr>al_id := 1\<rparr>], next_log_id := 2\<rparr>))"
    by (simp add: seq_def throw_def a)
  have n: "no_faults Begin = None" "no_faults Commit = None" "no_faults Rollback = None"
    by (simp_all add: no_faults_def)
  have ok: "executeTransaction no_faults (execute no_faults InsLog (insert_log log0))
       (world0, PoolConnection \<lparr>pending = None, released = 0\<rparr>) =
     (Inr 1, (world0\<lparr>db := db0\<lparr>activity_logs := [log0\<lparr>al_id := 1\<rparr>], next_log_id := 2\<rparr>\<rparr>,
              PoolConnection \<lparr>pending = None, released = Suc (released \<lparr>pending = None, released = 0\<rparr>)\<rparr>))"
    by (rule executeTransaction_contract [where flt = no_faults
        and callback = "execute no_faults InsLog (insert_log log0)" and w = world0 and r = 1
        and wa = world0 and da = "db0\<lparr>activity_logs := [log0\<lparr>al_id := 1\<rparr>], next_log_id := 2\<rparr>"
        and c = "\<lparr>pending = None, released = 0\<rparr>", THEN conjunct1, THEN mp])
      (simp add: a n)
  have err: "executeTransaction no_faults
       (seq (execute no_faults InsLog (insert_log log0)) (\<lambda>u. throw (AppError ''stop'' 500)))
       (world0, PoolConnection \<lparr>pending = None, released = 0\<rparr>) =
     (Inl (AppError ''stop'' 500), (world0,
        PoolConnection \<lparr>pending = None, released = Suc (released \<lparr>pending = None, released = 0\<rparr>)\<rparr>))"
    by (rule executeTransaction_contract [where flt = no_faults
        and callback = "seq (execute no_faults InsLog (insert_log log0)) (\<lambda>u. throw (AppError ''stop'' 500))"
        and w = world0 and e = "AppError ''stop'' 500" and wb = world0
        and dd = "db0\<lparr>activity_logs := [log0\<lparr>al_id := 1\<rparr>], next_log_id := 2\<rparr>"
        and c = "\<lparr>pending = None, released = 0\<rparr>", THEN conjunct2, THEN conjunct1, THEN mp])
      (simp add: b n)
  show ?thesis using ok err by simp
qed

lemma seq_Inr: "m s = (Inr a, s') \<Longrightarrow> seq m f s = f a s'"
  by (simp add: seq_def)

lemma seq_Inl: "m s = (Inl e, s') \<Longrightarrow> seq m f s = (Inl e, s')"
  by (simp add: seq_def)

lemma seq_InrE:
  assumes "seq m f s = (Inr b, t)"
  obtains a s' where "m s = (Inr a, s')" and "f a s' = (Inr b, t)"
  using assms by (auto simp: seq_def split: prod.splits sum.splits)

lemma seq_InlE:
  assumes "seq m f s = (Inl e, t)"
  obtains "m s = (Inl e, t)" | a s' where "m s = (Inr a, s')" and "f a s' = (Inl e, t)"
  using assms by (auto simp: seq_def split: prod.splits sum.splits)

lemma world_db_same [simp]: "w\<lparr>db := db w\<rparr> = w"
  by simp

lemma query_select_submission_ids:
  "flt SelExisting = None \<Longrightarrow>
   query flt SelExisting (select_submission_ids u) w =
     (Inr (map fs_id (filter (\<lambda>r. fs_uuid r = u) (form_submissions (db w)))), w)"
  by (simp add: query_def select_submission_ids_def)

lemma execute_cases:
  "execute flt st stmt (w, d) = (r, (w', d')) \<Longrightarrow>
     w' = w \<and> ((\<exists>e. r = Inl e \<and> d' = d) \<or> (\<exists>a. r = Inr a \<and> flt st = None \<and> stmt d = Inr (d', a)))"
  by (auto simp: execute_def split: option.splits sum.splits)

lemma sync_files_Inr:
  "sync_files flt sid i fs (w, d) = (Inr u, (w', d')) \<Longrightarrow>
     w' = w \<and> form_submissions d' = form_submissions d \<and> s3_objects d' = s3_objects d
     \<and> activity_logs d' = activity_logs d \<and> sync_queue d' = sync_queue d
     \<and> next_submission_id d' = next_submission_id d \<and> next_log_id d' = next_log_id d
     \<and> next_queue_id d' = next_queue_id d \<and> next_s3_object_id d' = next_s3_object_id d
     \<and> users d' = users d \<and> form_templates d' = form_templates d
     \<and> form_template_versions d' = form_template_versions d
     \<and> project_users d' = project_users d"
proof (induction fs arbitrary: i d)
  case Nil
  then show ?case by (simp add: ret_def)
next
  case (Cons f fs)
  show ?case
  proof (cases "truthy_id (f_s3ObjectId f)")
    case False
    with Cons show ?thesis by simp
  next
    case True
    with Cons.prems obtain a s' where
      a: "execute flt (InsFile i) (insert_file
                  \<lparr>fsf_id = 0, fsf_form_submission_id = sid,
                   fsf_field_name = f_fieldName f,
                   fsf_file_s3_object_id = the (f_s3ObjectId f),
                   fsf_file_name = f_fileName f,
                   fsf_file_description = string_or_null (f_description f)\<rparr>) (w, d) = (Inr a, s')"
      and b: "sync_files flt sid (Suc i) fs s' = (Inr u, (w', d'))"
      by (auto elim: seq_InrE)
    obtain w1 d1 where s': "s' = (w1, d1)" by (cases s')
    from execute_cases [OF a [unfolded s']] have w1: "w1 = w"
      and d1: "insert_file \<lparr>fsf_id = 0, fsf_form_submission_id = sid,
                   fsf_field_name = f_fieldName f,
                   fsf_file_s3_object_id = the (f_s3ObjectId f),
                   fsf_file_name = f_fileName f,
                   fsf_file_description = string_or_null (f_description f)\<rparr> d = Inr (d1, a)"
      by auto
    from Cons.IH [OF b [unfolded s' w1]] d1 show ?thesis
      by (auto simp: insert_file_def)
  qed
qed


lemma sync_files_world: "sync_files flt sid i fs (w, d) = (r, (w', d')) \<Longrightarrow> w' = w"
proof (induction fs arbitrary: i d)
  case Nil
  then show ?case by (simp add: ret_def)
next
  case (Cons f fs)
  then show ?case
    by (auto simp: seq_def execute_def split: if_splits option.splits sum.splits prod.splits)
qed

lemma sync_files_faults:
  "sync_files flt sid i fs (w, d) = (Inr u, st) \<Longrightarrow> j < length fs \<Longrightarrow>
     truthy_id (f_s3ObjectId (fs ! j)) \<Longrightarrow> flt (InsFile (i + j)) = None"
proof (induction fs arbitrary: i d j)
  case Nil
  then show ?case by simp
next
  case (Cons f fs)
  show ?case
  proof (cases j)
    case 0
    with Cons.prems show ?thesis
      by (auto simp: seq_def execute_def split: option.splits sum.splits prod.splits)
  next
    case (Suc k)
    with Cons.prems have k: "k < length fs" "truthy_id (f_s3ObjectId (fs ! k))" by simp_all
    from Cons.prems(1) obtain d1 where "sync_files flt sid (Suc i) fs (w, d1) = (Inr u, st)"
      by (auto simp: seq_def execute_def split: if_splits option.splits sum.splits prod.splits)
    from Cons.IH [OF this k] Suc show ?thesis by simp
  qed
qed

lemma execute_Inr:
  assumes "execute flt st stmt (w, d) = (Inr a, s')"
  obtains d' where "flt st = None" and "stmt d = Inr (d', a)" and "s' = (w, d')"
  using assms by (auto simp: execute_def split: option.splits sum.splits)

lemma putObject_Inr:
  assumes "outside (putObject flt b k body ct) (w, d) = (Inr u, s')"
  shows "flt S3Put = None \<and> s' = (w\<lparr>s3_sent := s3_sent w @ [PutObject b k body ct]\<rparr>, d)"
  using assms by (auto simp: outside_def putObject_def split: option.splits)

lemma sync_writes_Inr:
  assumes "sync_writes flt e req dev s (w, d) = (Inr sid, (w', d'))"
  shows "sid = next_submission_id d"
    and "filter (\<lambda>r. fs_uuid r = s_uuid s) (form_submissions d) = []"
    and "filter (same_object (submissionsBucket e)
            (sha256 e (submission_key (s_formTemplateId s) (s_uuid s)))) (s3_objects d) = []"
    and "form_submissions d' = form_submissions d @
           [(sync_submission_row e req s (next_s3_object_id d))\<lparr>fs_id := next_submission_id d\<rparr>]"
    and "sync_queue d' = sync_queue d @
           [(completed_entry e req dev s (next_submission_id d))\<lparr>sq_id := next_queue_id d\<rparr>]"
    and "activity_logs d' = activity_logs d @
           [(sync_log_row req dev s (next_submission_id d))\<lparr>al_id := next_log_id d\<rparr>]"
    and "users d' = users d" and "form_templates d' = form_templates d"
    and "form_template_versions d' = form_template_versions d"
    and "project_users d' = project_users d"
    and "w' = w\<lparr>s3_sent := s3_sent w @ [PutObject (submissionsBucket e)
           (submission_key (s_formTemplateId s) (s_uuid s)) (s_data s) ''application/json'']\<rparr>"
    and "flt S3Put = None" and "flt InsObject = None" and "flt InsSubmission = None"
    and "flt InsLog = None" and "flt InsQueueCompleted = None"
    and "\<And>st. st \<in> set (file_steps (s_files s)) \<Longrightarrow> flt st = None"
    and "\<exists>orow. s3_objects d' = s3_objects d @ [orow]
           \<and> so_bucket_name orow = submissionsBucket e
           \<and> so_object_key_hash orow
               = sha256 e (submission_key (s_formTemplateId s) (s_uuid s))
           \<and> so_id orow = next_s3_object_id d"
proof -
  let ?key = "submission_key (s_formTemplateId s) (s_uuid s)"
  let ?w1 = "w\<lparr>s3_sent := s3_sent w @ [PutObject (submissionsBucket e) ?key (s_data s) ''application/json'']\<rparr>"
  from assms obtain u1 s1 oid s2 sid' s3 u3 s4 u4 s5 u5 s6 where
    put: "outside (putObject flt (submissionsBucket e) ?key (s_data s) ''application/json'') (w, d) = (Inr u1, s1)"
    and obj: "execute flt InsObject (insert_s3_object e (submissionsBucket e) ?key
             ''application/json'' (length (s_data s)) (user_id req)) s1 = (Inr oid, s2)"
    and sub: "execute flt InsSubmission (insert_submission (sync_submission_row e req s oid)) s2 = (Inr sid', s3)"
    and fil: "(case s_files s of None \<Rightarrow> ret () | Some files \<Rightarrow> sync_files flt sid' 0 files) s3 = (Inr u3, s4)"
    and log: "execute flt InsLog (insert_log (sync_log_row req dev s sid')) s4 = (Inr u4, s5)"
    and que: "execute flt InsQueueCompleted (insert_queue (completed_entry e req dev s sid')) s5 = (Inr u5, s6)"
    and fin: "ret sid' s6 = (Inr sid, (w', d'))"
    unfolding sync_writes_def Let_def by (elim seq_InrE) blast
  from putObject_Inr [OF put] have f1: "flt S3Put = None" and s1: "s1 = (?w1, d)" by simp_all
  from obj [unfolded s1] obtain d2 where f2: "flt InsObject = None"
    and o2: "insert_s3_object e (submissionsBucket e) ?key ''application/json''
               (length (s_data s)) (user_id req) d = Inr (d2, oid)"
    and s2: "s2 = (?w1, d2)" by (rule execute_Inr)
  from sub [unfolded s2] obtain d3 where f3: "flt InsSubmission = None"
    and o3: "insert_submission (sync_submission_row e req s oid) d2 = Inr (d3, sid')"
    and s3: "s3 = (?w1, d3)" by (rule execute_Inr)
  obtain w4 d4 where s4: "s4 = (w4, d4)" by (cases s4)
  have w4: "w4 = ?w1" and d4: "form_submissions d4 = form_submissions d3"
      "s3_objects d4 = s3_objects d3" "activity_logs d4 = activity_logs d3"
      "sync_queue d4 = sync_queue d3" "next_log_id d4 = next_log_id d3"
      "next_queue_id d4 = next_queue_id d3" "users d4 = users d3"
      "form_templates d4 = form_templates d3"
      "form_template_versions d4 = form_template_versions d3" "project_users d4 = project_users d3"
    using fil [unfolded s3 s4] sync_files_Inr [of flt sid' 0 _ ?w1 d3 u3 w4 d4]
    by (auto simp: ret_def split: option.splits)
  from log [unfolded s4 w4] obtain d5 where f5: "flt InsLog = None"
    and o5: "insert_log (sync_log_row req dev s sid') d4 = Inr (d5, u4)"
    and s5: "s5 = (?w1, d5)" by (rule execute_Inr)
  from que [unfolded s5] obtain d6 where f6: "flt InsQueueCompleted = None"
    and o6: "insert_queue (completed_entry e req dev s sid') d5 = Inr (d6, u5)"
    and s6: "s6 = (?w1, d6)" by (rule execute_Inr)
  from fin [unfolded s6] have e: "sid = sid'" "w' = ?w1" "d' = d6" by (simp_all add: ret_def)
  from o2 have d2: "filter (same_object (submissionsBucket e) (sha256 e ?key)) (s3_objects d) = []"
      "oid = next_s3_object_id d" "form_submissions d2 = form_submissions d"
      "sync_queue d2 = sync_queue d" "activity_logs d2 = activity_logs d"
      "next_submission_id d2 = next_submission_id d" "next_log_id d2 = next_log_id d"
      "next_queue_id d2 = next_queue_id d" "users d2 = users d"
      "form_templates d2 = form_templates d"
      "form_template_versions d2 = form_template_versions d" "project_users d2 = project_users d"
    and d2o: "\<exists>orow. s3_objects d2 = s3_objects d @ [orow]
           \<and> so_bucket_name orow = submissionsBucket e
           \<and> so_object_key_hash orow = sha256 e ?key \<and> so_id orow = next_s3_object_id d"
    by (auto simp: insert_s3_object_def split: if_splits)
  from o3 have d3: "filter (\<lambda>r. fs_uuid r = s_uuid s) (form_submissions d2) = []"
      "sid' = next_submission_id d2"
      "form_submissions d3 = form_submissions d2 @ [(sync_submission_row e req s oid)\<lparr>fs_id := next_submission_id d2\<rparr>]"
      "sync_queue d3 = sync_queue d2" "activity_logs d3 = activity_logs d2"
      "next_log_id d3 = next_log_id d2"
      "next_queue_id d3 = next_queue_id d2" "users d3 = users d2"
      "form_templates d3 = form_templates d2"
      "form_template_versions d3 = form_template_versions d2" "project_users d3 = project_users d2"
      "s3_objects d3 = s3_objects d2"
    by (auto simp: insert_submission_def sync_submission_row_def Let_def split: if_splits)
  from o5 have d5: "form_submissions d5 = form_submissions d4"
      "sync_queue d5 = sync_queue d4"
      "activity_logs d5 = activity_logs d4 @ [(sync_log_row req dev s sid')\<lparr>al_id := next_log_id d4\<rparr>]"
      "next_queue_id d5 = next_queue_id d4" "users d5 = users d4"
      "form_templates d5 = form_templates d4"
      "form_template_versions d5 = form_template_versions d4" "project_users d5 = project_users d4"
      "s3_objects d5 = s3_objects d4"
    by (auto simp: insert_log_def)
  from o6 have d6: "form_submissions d6 = form_submissions d5"
      "sync_queue d6 = sync_queue d5 @ [(completed_entry e req dev s sid')\<lparr>sq_id := next_queue_id d5\<rparr>]"
      "activity_logs d6 = activity_logs d5" "users d6 = users d5"
      "form_templates d6 = form_templates d5"
      "form_template_versions d6 = form_template_versions d5" "project_users d6 = project_users d5"
      "s3_objects d6 = s3_objects d5"
    by (auto simp: insert_queue_def)
  show "sid = next_submission_id d" using e d3 d2 by simp
  show "filter (\<lambda>r. fs_uuid r = s_uuid s) (form_submissions d) = []" using d3 d2 by simp
  show "filter (same_object (submissionsBucket e) (sha256 e ?key)) (s3_objects d) = []" by (rule d2)
  show "form_submissions d' = form_submissions d @
           [(sync_submission_row e req s (next_s3_object_id d))\<lparr>fs_id := next_submission_id d\<rparr>]"
    using e d6 d5 d4 d3 d2 by simp
  show "sync_queue d' = sync_queue d @
           [(completed_entry e req dev s (next_submission_id d))\<lparr>sq_id := next_queue_id d\<rparr>]"
    using e d6 d5 d4 d3 d2 by simp
  show "activity_logs d' = activity_logs d @
           [(sync_log_row req dev s (next_submission_id d))\<lparr>al_id := next_log_id d\<rparr>]"
    using e d6 d5 d4 d3 d2 by simp
  show "users d' = users d" using e d6 d5 d4 d3 d2 by simp
  show "form_templates d' = form_templates d" using e d6 d5 d4 d3 d2 by simp
  show "form_template_versions d' = form_template_versions d" using e d6 d5 d4 d3 d2 by simp
  show "project_users d' = project_users d" using e d6 d5 d4 d3 d2 by simp
  show "w' = ?w1" by (rule e)
  show "flt S3Put = None" by (rule f1)
  show "flt InsObject = None" by (rule f2)
  show "flt InsSubmission = None" by (rule f3)
  show "flt InsLog = None" by (rule f5)
  show "flt InsQueueCompleted = None" by (rule f6)
  show "flt st = None" if "st \<in> set (file_steps (s_files s))" for st
  proof (cases "s_files s")
    case None
    with that show ?thesis by (simp add: file_steps_def)
  next
    case (Some files)
    with that obtain j where j: "j < length files" "truthy_id (f_s3ObjectId (files ! j))"
      and st: "st = InsFile j" by (auto simp: file_steps_def)
    from fil Some s3 have "sync_files flt sid' 0 files (?w1, d3) = (Inr u3, s4)" by simp
    from sync_files_faults [OF this j] st show ?thesis by simp
  qed
  show "\<exists>orow. s3_objects d' = s3_objects d @ [orow]
           \<and> so_bucket_name orow = submissionsBucket e
           \<and> so_object_key_hash orow = sha256 e ?key \<and> so_id orow = next_s3_object_id d"
    using e d6 d5 d4 d3 d2o by simp
qed

lemma seq_stored:
  assumes "seq m f s = (r, t)"
    and "\<And>r' s'. m s = (r', s') \<Longrightarrow> db (fst s') = db (fst s)"
    and "\<And>a s' r' t'. f a s' = (r', t') \<Longrightarrow> db (fst t') = db (fst s')"
  shows "db (fst t) = db (fst s)"
  using assms by (auto simp: seq_def split: prod.splits sum.splits)

lemma execute_stored: "execute flt st stmt s = (r, t) \<Longrightarrow> db (fst t) = db (fst s)"
  by (cases s) (auto simp: execute_def split: option.splits sum.splits)

lemma putObject_stored: "outside (putObject flt b k body ct) s = (r, t) \<Longrightarrow> db (fst t) = db (fst s)"
  by (cases s) (auto simp: outside_def putObject_def split: option.splits)

lemma sync_files_stored: "sync_files flt sid i fs s = (r, t) \<Longrightarrow> db (fst t) = db (fst s)"
  using sync_files_world [of flt sid i fs "fst s" "snd s" r "fst t" "snd t"] by simp

lemma sync_writes_stored:
  assumes "sync_writes flt e req dev s (w, d) = (r, (w', d'))"
  shows "db w' = db w"
proof -
  have "db (fst (w', d')) = db (fst (w, d))"
    using assms unfolding sync_writes_def Let_def
    apply -
    apply (erule seq_stored, erule putObject_stored)
    apply (erule seq_stored, erule execute_stored)
    apply (erule seq_stored, erule execute_stored)
    apply (erule seq_stored)
     apply (auto simp: ret_def dest: sync_files_stored split: option.splits)[1]
    apply (erule seq_stored, erule execute_stored)
    apply (erule seq_stored, erule execute_stored)
    apply (simp add: ret_def)
    done
  then show ?thesis by simp
qed

lemma sync_try_Inr:
  assumes "sync_try flt e req dev s (w, PoolConnection c) = (Inr r, (w', h'))"
  obtains sid w1 d1 where "flt Begin = None" and "flt Commit = None"
    and "sync_writes flt e req dev s (w, db w) = (Inr sid, (w1, d1))"
    and "r = success_result s sid" and "w' = w1\<lparr>db := d1\<rparr>"
    and "h' = PoolConnection (c\<lparr>pending := None\<rparr>)"
  using assms
  by (auto simp: sync_try_def seq_def beginTransaction_def on_connection_def commit_def ret_def
      split: option.splits sum.splits prod.splits)

lemma sync_try_Inl:
  assumes "sync_try flt e req dev s (w, PoolConnection c) = (Inl err, (w', h'))"
  shows "db w' = db w \<and> (\<exists>c'. h' = PoolConnection c')"
  using assms
  by (auto simp: sync_try_def seq_def beginTransaction_def on_connection_def commit_def ret_def
      split: option.splits sum.splits prod.splits dest: sync_writes_stored)

lemma sync_catch_cases:
  assumes "sync_catch flt e req dev s err (w, PoolConnection c) = (r, (w', h'))"
  shows "(\<exists>e'. r = Inl e' \<and> w' = w)
       \<or> (r = Inr (error_result s (''Error: '' @ message err)) \<and> flt Rollback = None
           \<and> flt InsQueueFailed = None
           \<and> w' = w\<lparr>db := (db w)\<lparr>sync_queue := sync_queue (db w) @
                    [(failed_entry e req dev s (message err))\<lparr>sq_id := next_queue_id (db w)\<rparr>],
                  next_queue_id := Suc (next_queue_id (db w))\<rparr>\<rparr>)"
  using assms
  by (auto simp: sync_catch_def seq_def rollback_def outside_def query_def insert_queue_def ret_def
      split: option.splits sum.splits prod.splits)

lemma sync_transaction_cases:
  assumes "sync_transaction flt e req dev s (w, PoolConnection c) = (r, (w', h'))"
  shows "(\<exists>sid w1 d1. r = Inr (success_result s sid) \<and> flt Begin = None \<and> flt Commit = None
            \<and> sync_writes flt e req dev s (w, db w) = (Inr sid, (w1, d1)) \<and> w' = w1\<lparr>db := d1\<rparr>)
       \<or> (\<exists>err. r = Inl err \<and> db w' = db w)
       \<or> (\<exists>err w1 h1. sync_try flt e req dev s (w, PoolConnection c) = (Inl err, (w1, h1))
            \<and> r = Inr (error_result s (''Error: '' @ message err)) \<and> flt Rollback = None
            \<and> flt InsQueueFailed = None
            \<and> w' = w1\<lparr>db := (db w)\<lparr>sync_queue := sync_queue (db w) @
                    [(failed_entry e req dev s (message err))\<lparr>sq_id := next_queue_id (db w)\<rparr>],
                  next_queue_id := Suc (next_queue_id (db w))\<rparr>\<rparr>)"
proof -
  obtain r0 w0 h0 where t: "sync_try flt e req dev s (w, PoolConnection c) = (r0, (w0, h0))"
    by (metis prod.exhaust)
  show ?thesis
  proof (cases r0)
    case (Inr res)
    from sync_try_Inr [OF t [unfolded Inr]] obtain sid w1 d1 where
      *: "flt Begin = None" "flt Commit = None"
      "sync_writes flt e req dev s (w, db w) = (Inr sid, (w1, d1))"
      "res = success_result s sid" "w0 = w1\<lparr>db := d1\<rparr>" "h0 = PoolConnection (c\<lparr>pending := None\<rparr>)"
      by blast
    from assms t Inr * have "r = Inr (success_result s sid) \<and> w' = w1\<lparr>db := d1\<rparr>"
      by (auto simp: sync_transaction_def try_finally_def try_catch_def release_def)
    with * show ?thesis by blast
  next
    case (Inl err)
    from sync_try_Inl [OF t [unfolded Inl]] obtain c0 where
      w0: "db w0 = db w" and h0: "h0 = PoolConnection c0" by blast
    obtain r1 w1 h1 where k: "sync_catch flt e req dev s err (w0, PoolConnection c0) = (r1, (w1, h1))"
      by (metis prod.exhaust)
    from k have h1: "\<exists>c1. h1 = PoolConnection c1"
      by (auto simp: sync_catch_def seq_def rollback_def outside_def query_def insert_queue_def ret_def
          split: option.splits sum.splits prod.splits)
    from assms t Inl h0 k h1 have rw: "r = r1" "w' = w1"
      by (auto simp: sync_transaction_def try_finally_def try_catch_def release_def)
    from sync_catch_cases [OF k] w0 rw t Inl show ?thesis by auto
  qed
qed

lemma process_item_cases:
  assumes "process_item flt e req dev s w = (r, w')"
  shows "(\<exists>w1 d1. reaches_transaction flt s w \<and> flt Begin = None \<and> flt Commit = None
            \<and> sync_writes flt e req dev s (w, db w) = (Inr (next_submission_id (db w)), (w1, d1))
            \<and> r = success_result s (next_submission_id (db w)) \<and> w' = w1\<lparr>db := d1\<rparr>)
       \<or> (r_status r \<noteq> ''success'' \<and> only_queue_changed (db w) (db w')
           \<and> (sync_queue (db w') = sync_queue (db w)
              \<or> (\<exists>msg. r = error_result s (''Error: '' @ msg)
                   \<and> sync_queue (db w') = sync_queue (db w) @
                        [(failed_entry e req dev s msg)\<lparr>sq_id := next_queue_id (db w)\<rparr>])))"
proof (cases "reaches_transaction flt s w")
  case False
  with assms have "w' = w \<and> r_status r \<noteq> ''success''"
    by (auto simp: process_item_def sync_item_def seq_def query_def select_submission_ids_def
        select_templates_def select_versions_def getConnection_def ret_def
        reaches_transaction_def error_result_def skipped_result_def
        split: option.splits sum.splits prod.splits if_splits)
  then show ?thesis by (simp add: only_queue_changed_def)
next
  case True
  let ?c = "\<lparr>pending = None, released = 0\<rparr>"
  obtain r0 w0 h0 where t: "sync_transaction flt e req dev s (w, PoolConnection ?c) = (r0, (w0, h0))"
    by (metis prod.exhaust)
  from True t have p: "process_item flt e req dev s w =
      (case r0 of Inr x \<Rightarrow> (x, w0) | Inl err \<Rightarrow> (error_result s (''Error: '' @ message err), w0))"
    by (auto simp: process_item_def sync_item_def seq_def query_def select_submission_ids_def
        select_templates_def select_versions_def getConnection_def ret_def holding_def
        reaches_transaction_def split: sum.splits)
  from sync_transaction_cases [OF t] show ?thesis
  proof (elim disjE exE conjE)
    fix sid w1 d1
    assume *: "r0 = Inr (success_result s sid)" "flt Begin = None" "flt Commit = None"
      "sync_writes flt e req dev s (w, db w) = (Inr sid, (w1, d1))" "w0 = w1\<lparr>db := d1\<rparr>"
    from sync_writes_Inr(1) [OF *(4)] have "sid = next_submission_id (db w)" .
    with * p assms True show ?thesis by auto
  next
    fix err assume "r0 = Inl err" "db w0 = db w"
    with p assms show ?thesis by (auto simp: only_queue_changed_def error_result_def)
  next
    fix err w1 h1
    assume *: "sync_try flt e req dev s (w, PoolConnection ?c) = (Inl err, (w1, h1))"
      "r0 = Inr (error_result s (''Error: '' @ message err))"
      "w0 = w1\<lparr>db := (db w)\<lparr>sync_queue := sync_queue (db w) @
                    [(failed_entry e req dev s (message err))\<lparr>sq_id := next_queue_id (db w)\<rparr>],
                  next_queue_id := Suc (next_queue_id (db w))\<rparr>\<rparr>"
    with p assms show ?thesis by (auto simp: only_queue_changed_def error_result_def)
  qed
qed

lemma submission_key_5: "submission_key 5 u = ''submissions/5/'' @ u @ ''.json''"
  by (simp add: submission_key_def string_of_nat.simps digit_char_def)

lemma sync_files_ok:
  "(\<And>j. j < length fs \<Longrightarrow> truthy_id (f_s3ObjectId (fs ! j)) \<Longrightarrow> flt (InsFile (i + j)) = None)
     \<Longrightarrow> \<exists>d'. sync_files flt sid i fs (w, d) = (Inr (), (w, d'))"
proof (induction fs arbitrary: i d)
  case Nil
  then show ?case by (simp add: ret_def)
next
  case (Cons f fs)
  have rest: "\<And>d1. \<exists>d'. sync_files flt sid (Suc i) fs (w, d1) = (Inr (), (w, d'))"
  proof -
    fix d1
    show "\<exists>d'. sync_files flt sid (Suc i) fs (w, d1) = (Inr (), (w, d'))"
    proof (rule Cons.IH)
      fix j assume "j < length fs" "truthy_id (f_s3ObjectId (fs ! j))"
      with Cons.prems [of "Suc j"] show "flt (InsFile (Suc i + j)) = None" by simp
    qed
  qed
  show ?case
  proof (cases "truthy_id (f_s3ObjectId f)")
    case False
    with rest show ?thesis by simp
  next
    case True
    with Cons.prems [of 0] have "flt (InsFile i) = None" by simp
    with True rest show ?thesis
      by (simp add: seq_def execute_def insert_file_def)
  qed
qed

lemma file_steps_mem:
  "s_files s = Some files \<Longrightarrow> j < length files \<Longrightarrow> truthy_id (f_s3ObjectId (files ! j))
     \<Longrightarrow> InsFile j \<in> set (file_steps (s_files s))"
  by (auto simp: file_steps_def)

lemma sync_writes_ok:
  assumes f: "flt S3Put = None" "flt InsObject = None" "flt InsSubmission = None"
      "flt InsLog = None" "flt InsQueueCompleted = None"
      "\<And>st. st \<in> set (file_steps (s_files s)) \<Longrightarrow> flt st = None"
    and o: "filter (same_object (submissionsBucket e)
            (sha256 e (submission_key (s_formTemplateId s) (s_uuid s)))) (s3_objects d) = []"
    and u: "filter (\<lambda>r. fs_uuid r = s_uuid s) (form_submissions d) = []"
  shows "\<exists>w1 d1. sync_writes flt e req dev s (w, d) = (Inr (next_submission_id d), (w1, d1))"
proof -
  let ?key = "submission_key (s_formTemplateId s) (s_uuid s)"
  let ?w1 = "w\<lparr>s3_sent := s3_sent w @ [PutObject (submissionsBucket e) ?key (s_data s) ''application/json'']\<rparr>"
  let ?sid = "next_submission_id d"
  have 1: "outside (putObject flt (submissionsBucket e) ?key (s_data s) ''application/json'') (w, d)
      = (Inr (), (?w1, d))"
    using f by (simp add: outside_def putObject_def)
  obtain d2 where 2: "execute flt InsObject (insert_s3_object e (submissionsBucket e) ?key
             ''application/json'' (length (s_data s)) (user_id req)) (?w1, d) = (Inr (next_s3_object_id d), (?w1, d2))"
    and d2: "form_submissions d2 = form_submissions d" "next_submission_id d2 = next_submission_id d"
    using f o by (simp add: execute_def insert_s3_object_def)
  obtain d3 where 3: "execute flt InsSubmission
       (insert_submission (sync_submission_row e req s (next_s3_object_id d))) (?w1, d2)
       = (Inr ?sid, (?w1, d3))"
    using f u d2 by (simp add: execute_def insert_submission_def sync_submission_row_def Let_def)
  obtain d4 where 4: "(case s_files s of None \<Rightarrow> ret () | Some files \<Rightarrow> sync_files flt ?sid 0 files)
       (?w1, d3) = (Inr (), (?w1, d4))"
  proof (cases "s_files s")
    case None
    with that show ?thesis by (simp add: ret_def)
  next
    case (Some files)
    have "\<exists>d'. sync_files flt ?sid 0 files (?w1, d3) = (Inr (), (?w1, d'))"
      by (rule sync_files_ok) (use f(6) file_steps_mem [OF Some] in simp)
    with Some that show ?thesis by auto
  qed
  obtain d5 where 5: "execute flt InsLog (insert_log (sync_log_row req dev s ?sid)) (?w1, d4)
       = (Inr (next_log_id d4), (?w1, d5))"
    using f by (simp add: execute_def insert_log_def)
  obtain d6 where 6: "execute flt InsQueueCompleted (insert_queue (completed_entry e req dev s ?sid))
       (?w1, d5) = (Inr (next_queue_id d5), (?w1, d6))"
    using f by (simp add: execute_def insert_queue_def)
  have "sync_writes flt e req dev s (w, d) = (Inr ?sid, (?w1, d6))"
    unfolding sync_writes_def Let_def
    by (simp add: seq_def 1 2 3 4 5 6 ret_def)
  then show ?thesis by blast
qed

lemma process_item_success:
  assumes "reaches_transaction flt s w"
    and "\<And>st. st \<in> set (tx_steps s) \<Longrightarrow> flt st = None"
    and "filter (same_object (submissionsBucket e)
            (sha256 e (submission_key (s_formTemplateId s) (s_uuid s)))) (s3_objects (db w)) = []"
  shows "\<exists>w1 d1. sync_writes flt e req dev s (w, db w) = (Inr (next_submission_id (db w)), (w1, d1))
           \<and> process_item flt e req dev s w = (success_result s (next_submission_id (db w)), w1\<lparr>db := d1\<rparr>)"
proof -
  from assms(2) have f: "flt Begin = None" "flt Commit = None" "flt S3Put = None"
    "flt InsObject = None" "flt InsSubmission = None" "flt InsLog = None"
    "flt InsQueueCompleted = None"
    "\<And>st. st \<in> set (file_steps (s_files s)) \<Longrightarrow> flt st = None"
    by (simp_all add: tx_steps_def)
  from assms(1) have u: "filter (\<lambda>r. fs_uuid r = s_uuid s) (form_submissions (db w)) = []"
    by (simp add: reaches_transaction_def)
  from sync_writes_ok [OF f(3-8) assms(3) u] obtain w1 d1 where
    sw: "sync_writes flt e req dev s (w, db w) = (Inr (next_submission_id (db w)), (w1, d1))"
    by blast
  let ?c = "\<lparr>pending = None, released = 0\<rparr>"
  have t: "sync_transaction flt e req dev s (w, PoolConnection ?c) =
      (Inr (success_result s (next_submission_id (db w))),
       (w1\<lparr>db := d1\<rparr>, PoolConnection \<lparr>pending = None, released = 1\<rparr>))"
    using f(1,2) sw
    by (simp add: sync_transaction_def try_finally_def try_catch_def sync_try_def seq_def
        beginTransaction_def on_connection_def commit_def ret_def release_def)
  from assms(1) t have "process_item flt e req dev s w =
      (success_result s (next_submission_id (db w)), w1\<lparr>db := d1\<rparr>)"
    by (auto simp: process_item_def sync_item_def seq_def query_def select_submission_ids_def
        select_templates_def select_versions_def getConnection_def ret_def holding_def
        reaches_transaction_def split: sum.splits)
  with sw show ?thesis by blast
qed


lemma process_item_new_row:
  assumes "process_item flt e req dev s w = (r, w')" and "r_status r = ''success''"
  shows "filter (\<lambda>x. fs_uuid x = s_uuid s) (form_submissions (db w)) = []"
    and "form_submissions (db w') = form_submissions (db w) @
           [(sync_submission_row e req s (next_s3_object_id (db w)))\<lparr>fs_id := next_submission_id (db w)\<rparr>]"
    and "r = success_result s (next_submission_id (db w))"
proof -
  from process_item_cases [OF assms(1)] assms(2) obtain w1 d1 where
    sw: "sync_writes flt e req dev s (w, db w) = (Inr (next_submission_id (db w)), (w1, d1))"
    and r: "r = success_result s (next_submission_id (db w))" and w': "w' = w1\<lparr>db := d1\<rparr>"
    by blast
  show "filter (\<lambda>x. fs_uuid x = s_uuid s) (form_submissions (db w)) = []"
    by (rule sync_writes_Inr(2) [OF sw])
  show "form_submissions (db w') = form_submissions (db w) @
           [(sync_submission_row e req s (next_s3_object_id (db w)))\<lparr>fs_id := next_submission_id (db w)\<rparr>]"
    using sync_writes_Inr(4) [OF sw] w' by simp
  show "r = success_result s (next_submission_id (db w))" by (rule r)
qed




lemma no_faults_None: "no_faults st = None"
  by (simp add: no_faults_def)



lemma sync_reaches_trans:
  assumes "sync_reaches w1 w2" shows "sync_reaches w0 w1 \<Longrightarrow> sync_reaches w0 w2"
  using assms
proof (induction rule: sync_reaches.induct)
  case (here w)
  then show ?case .
next
  case (item_step w w1 flt e req dev s r w2)
  then show ?case by (blast intro: sync_reaches.item_step)
next
  case (user_step w w1 flt dev t uid r w2)
  then show ?case by (blast intro: sync_reaches.user_step)
qed

lemma sync_loop_reaches:
  "sync_loop flts e req dev i ss t w = (t', w') \<Longrightarrow> sync_reaches w w'"
proof (induction ss arbitrary: i t w)
  case Nil
  then show ?case by (simp add: sync_reaches.here)
next
  case (Cons s ss)
  obtain r w1 where p: "process_item (flts i) e req dev s w = (r, w1)" by (metis prod.exhaust)
  with Cons.prems have "sync_loop flts e req dev (Suc i) ss (push_result r t) w1 = (t', w')"
    by simp
  from Cons.IH [OF this] have "sync_reaches w1 w'" .
  moreover have "sync_reaches w w1"
    by (rule sync_reaches.item_step [OF sync_reaches.here p])
  ultimately show ?case by (rule sync_reaches_trans)
qed

lemma syncSubmissions_reaches:
  assumes "syncSubmissions flt flts e req body w = (out, w')"
  shows "sync_reaches w w'"
proof -
  let ?subs = "case b_submissions body of None \<Rightarrow> [] | Some xs \<Rightarrow> xs"
  let ?dev = "the (b_deviceId body)"
  show ?thesis
  proof (cases "\<not> truthy_string (b_deviceId body) \<or> ?subs = []")
    case True
    with assms have "w' = w" by (auto simp: syncSubmissions_def Let_def split: if_splits)
    then show ?thesis by (simp add: sync_reaches.here)
  next
    case False
    obtain r0 w0 where q: "query flt UpdUser (update_user_device ?dev (now e) (user_id req)) w = (r0, w0)"
      by (metis prod.exhaust)
    have wq: "sync_reaches w w0" by (rule sync_reaches.user_step [OF sync_reaches.here q])
    show ?thesis
    proof (cases r0)
      case (Inl err)
      with assms False q have "w' = w0" by (auto simp: syncSubmissions_def Let_def)
      with wq show ?thesis by simp
    next
      case (Inr u)
      obtain t1 w1 where l: "sync_loop flts e req ?dev 0 ?subs
          \<lparr>results = [], syncedCount = 0, errorCount = 0\<rparr> w0 = (t1, w1)" by (metis prod.exhaust)
      with assms False q Inr have "w' = w1" by (auto simp: syncSubmissions_def Let_def)
      with sync_loop_reaches [OF l] wq show ?thesis by (blast intro: sync_reaches_trans)
    qed
  qed
qed

lemma process_item_via_transaction:
  assumes "reaches_transaction flt s w"
    and "sync_transaction flt e req dev s (w, PoolConnection \<lparr>pending = None, released = 0\<rparr>)
           = (r0, (w0, h0))"
  shows "process_item flt e req dev s w =
      (case r0 of Inr x \<Rightarrow> (x, w0) | Inl err \<Rightarrow> (error_result s (''Error: '' @ message err), w0))"
  using assms
  by (auto simp: process_item_def sync_item_def seq_def query_def select_submission_ids_def
        select_templates_def select_versions_def getConnection_def ret_def holding_def
        reaches_transaction_def split: sum.splits)

lemma sync_catch_ok:
  assumes "flt Rollback = None" "flt InsQueueFailed = None"
  shows "sync_catch flt e req dev s err (w1, PoolConnection c1) =
      (Inr (error_result s (''Error: '' @ message err)),
       (w1\<lparr>db := (db w1)\<lparr>sync_queue := sync_queue (db w1) @
                    [(failed_entry e req dev s (message err))\<lparr>sq_id := next_queue_id (db w1)\<rparr>],
                  next_queue_id := Suc (next_queue_id (db w1))\<rparr>\<rparr>,
        PoolConnection (c1\<lparr>pending := None\<rparr>)))"
  using assms
  by (simp add: sync_catch_def seq_def rollback_def outside_def query_def insert_queue_def ret_def)

lemma sync_transaction_failure:
  assumes "sync_try flt e req dev s (w, PoolConnection c) = (Inl err, (w1, PoolConnection c1))"
    and "flt Rollback = None" "flt InsQueueFailed = None"
  shows "sync_transaction flt e req dev s (w, PoolConnection c) =
      (Inr (error_result s (''Error: '' @ message err)),
       (w1\<lparr>db := (db w1)\<lparr>sync_queue := sync_queue (db w1) @
                    [(failed_entry e req dev s (message err))\<lparr>sq_id := next_queue_id (db w1)\<rparr>],
                  next_queue_id := Suc (next_queue_id (db w1))\<rparr>\<rparr>,
        PoolConnection (c1\<lparr>pending := None, released := Suc (released c1)\<rparr>)))"
  by (simp add: sync_transaction_def try_finally_def try_catch_def release_def assms(1)
      sync_catch_ok [OF assms(2,3)])

lemma sync_try_fails:
  assumes st: "st \<in> set (tx_steps s)" "flt st = Some m"
    and t: "sync_try flt e req dev s (w, PoolConnection c) = (r0, (w1, h1))"
  shows "\<exists>err. r0 = Inl err"
proof (cases r0)
  case (Inr res)
  from t [unfolded Inr] obtain sid wa da where
    *: "flt Begin = None" "flt Commit = None"
    "sync_writes flt e req dev s (w, db w) = (Inr sid, (wa, da))"
    "res = success_result s sid" "w1 = wa\<lparr>db := da\<rparr>" "h1 = PoolConnection (c\<lparr>pending := None\<rparr>)"
    by (rule sync_try_Inr)
  note sw = sync_writes_Inr [OF *(3)]
  from st(1) have "st = Begin \<or> st = Commit \<or> st = S3Put \<or> st = InsObject \<or> st = InsSubmission
      \<or> st = InsLog \<or> st = InsQueueCompleted \<or> st \<in> set (file_steps (s_files s))"
    unfolding tx_steps_def by auto
  then have "flt st = None"
    using *(1,2) sw(12) sw(13) sw(14) sw(15) sw(16) sw(17) [of st] by (elim disjE) simp_all
  with st(2) show ?thesis by simp
qed simp


lemma process_item_tx_failure:
  assumes rt: "reaches_transaction flt s w"
    and st: "st \<in> set (tx_steps s)" "flt st = Some m"
    and ok: "flt Rollback = None" "flt InsQueueFailed = None"
  shows "\<exists>err w1 h1 w'.
      sync_try flt e req dev s (w, PoolConnection \<lparr>pending = None, released = 0\<rparr>) = (Inl err, (w1, h1))
      \<and> process_item flt e req dev s w = (error_result s (''Error: '' @ message err), w')
      \<and> only_queue_changed (db w) (db w')
      \<and> sync_queue (db w') = sync_queue (db w) @
           [(failed_entry e req dev s (message err))\<lparr>sq_id := next_queue_id (db w)\<rparr>]"
proof -
  let ?c = "\<lparr>pending = None, released = 0\<rparr>"
  obtain r0 w1 h1 where t: "sync_try flt e req dev s (w, PoolConnection ?c) = (r0, (w1, h1))"
    by (metis prod.exhaust)
  from sync_try_fails [OF st t] obtain err where r0: "r0 = Inl err" by (rule exE)
  from sync_try_Inl [OF t [unfolded r0]] obtain c1 where
    w1: "db w1 = db w" and h1: "h1 = PoolConnection c1" by (elim conjE exE)
  let ?d = "(db w)\<lparr>sync_queue := sync_queue (db w) @
                    [(failed_entry e req dev s (message err))\<lparr>sq_id := next_queue_id (db w)\<rparr>],
                  next_queue_id := Suc (next_queue_id (db w))\<rparr>"
  have tr: "sync_transaction flt e req dev s (w, PoolConnection ?c) =
      (Inr (error_result s (''Error: '' @ message err)),
       (w1\<lparr>db := ?d\<rparr>, PoolConnection (c1\<lparr>pending := None, released := Suc (released c1)\<rparr>)))"
    using sync_transaction_failure [OF t [unfolded r0 h1] ok] w1 by simp
  have p: "process_item flt e req dev s w =
      (error_result s (''Error: '' @ message err), w1\<lparr>db := ?d\<rparr>)"
    using process_item_via_transaction [OF rt tr] by simp
  have q1: "only_queue_changed (db w) (db (w1\<lparr>db := ?d\<rparr>))" by (simp add: only_queue_changed_def)
  have q2: "sync_queue (db (w1\<lparr>db := ?d\<rparr>)) = sync_queue (db w) @
           [(failed_entry e req dev s (message err))\<lparr>sq_id := next_queue_id (db w)\<rparr>]" by simp
  show ?thesis
    by (rule exI [of _ err], rule exI [of _ w1], rule exI [of _ h1], rule exI [of _ "w1\<lparr>db := ?d\<rparr>"])
      (intro conjI, rule t [unfolded r0], rule p, rule q1, rule q2)
qed

lemma process_item_tx_atomic:
  assumes rt: "reaches_transaction flt s w"
    and st: "st \<in> set (tx_steps s)" "flt st = Some m"
    and p: "process_item flt e req dev s w = (r, w')"
  shows "r_status r = ''error'' \<and> only_queue_changed (db w) (db w')"
proof -
  let ?c = "\<lparr>pending = None, released = 0\<rparr>"
  obtain r0 w0 h0 where t: "sync_transaction flt e req dev s (w, PoolConnection ?c) = (r0, (w0, h0))"
    by (metis prod.exhaust)
  note v = process_item_via_transaction [OF rt t, of ]
  from sync_transaction_cases [OF t] show ?thesis
  proof (elim disjE exE conjE)
    fix sid w1 d1
    assume *: "flt Begin = None" "flt Commit = None"
      "sync_writes flt e req dev s (w, db w) = (Inr sid, (w1, d1))"
    have "sync_try flt e req dev s (w, PoolConnection ?c) =
        (Inr (success_result s sid), (w1\<lparr>db := d1\<rparr>, PoolConnection (?c\<lparr>pending := None\<rparr>)))"
      using * by (simp add: sync_try_def seq_def beginTransaction_def on_connection_def
          commit_def ret_def)
    from sync_try_fails [OF st this] show ?thesis by simp
  next
    fix err assume "r0 = Inl err" "db w0 = db w"
    with v p show ?thesis by (auto simp: only_queue_changed_def error_result_def)
  next
    fix err w1 h1
    assume *: "sync_try flt e req dev s (w, PoolConnection ?c) = (Inl err, (w1, h1))"
      "r0 = Inr (error_result s (''Error: '' @ message err))"
      "w0 = w1\<lparr>db := (db w)\<lparr>sync_queue := sync_queue (db w) @
                    [(failed_entry e req dev s (message err))\<lparr>sq_id := next_queue_id (db w)\<rparr>],
                  next_queue_id := Suc (next_queue_id (db w))\<rparr>\<rparr>"
    with v p show ?thesis by (auto simp: only_queue_changed_def error_result_def)
  qed
qed

lemma sync_files_exact:
  "(\<And>j. j < length fs \<Longrightarrow> truthy_id (f_s3ObjectId (fs ! j)) \<Longrightarrow> flt (InsFile (i + j)) = None)
     \<Longrightarrow> sync_files flt sid i fs (w, d) =
          (Inr (), (w, d\<lparr>form_submission_files := form_submission_files d
                           @ attachment_rows sid (next_file_id d) fs,
                         next_file_id := next_file_id d
                           + length (attachment_rows sid (next_file_id d) fs)\<rparr>))"
proof (induction fs arbitrary: i d)
  case Nil
  then show ?case by (simp add: ret_def)
next
  case (Cons f fs)
  have rest: "\<And>d1. sync_files flt sid (Suc i) fs (w, d1) =
          (Inr (), (w, d1\<lparr>form_submission_files := form_submission_files d1
                           @ attachment_rows sid (next_file_id d1) fs,
                         next_file_id := next_file_id d1
                           + length (attachment_rows sid (next_file_id d1) fs)\<rparr>))"
  proof -
    fix d1
    show "sync_files flt sid (Suc i) fs (w, d1) =
          (Inr (), (w, d1\<lparr>form_submission_files := form_submission_files d1
                           @ attachment_rows sid (next_file_id d1) fs,
                         next_file_id := next_file_id d1
                           + length (attachment_rows sid (next_file_id d1) fs)\<rparr>))"
    proof (rule Cons.IH)
      fix j assume "j < length fs" "truthy_id (f_s3ObjectId (fs ! j))"
      with Cons.prems [of "Suc j"] show "flt (InsFile (Suc i + j)) = None" by simp
    qed
  qed
  show ?case
  proof (cases "truthy_id (f_s3ObjectId f)")
    case False
    then show ?thesis
      by (simp add: rest truthy_id_def split: option.splits)
  next
    case True
    with Cons.prems [of 0] have "flt (InsFile i) = None" by simp
    with True show ?thesis
      by (auto simp: rest seq_def execute_def insert_file_def truthy_id_def string_or_null_def
          truthy_string_def split: option.splits)
  qed
qed

lemma sync_writes_exact:
  assumes f: "flt S3Put = None" "flt InsObject = None" "flt InsSubmission = None"
      "flt InsLog = None" "flt InsQueueCompleted = None"
      "\<And>st. st \<in> set (file_steps (s_files s)) \<Longrightarrow> flt st = None"
    and o: "filter (same_object (submissionsBucket e)
            (sha256 e (submission_key (s_formTemplateId s) (s_uuid s)))) (s3_objects d) = []"
    and u: "filter (\<lambda>r. fs_uuid r = s_uuid s) (form_submissions d) = []"
  shows "sync_writes flt e req dev s (w, d) =
     (Inr (next_submission_id d),
      (w\<lparr>s3_sent := s3_sent w @ [PutObject (submissionsBucket e)
            (submission_key (s_formTemplateId s) (s_uuid s)) (s_data s) ''application/json'']\<rparr>,
       ingested e req dev s d))"
proof -
  let ?key = "submission_key (s_formTemplateId s) (s_uuid s)"
  let ?w1 = "w\<lparr>s3_sent := s3_sent w @ [PutObject (submissionsBucket e) ?key (s_data s) ''application/json'']\<rparr>"
  let ?sid = "next_submission_id d"
  let ?orow = "\<lparr>so_id = next_s3_object_id d, so_bucket_name = submissionsBucket e,
            so_object_key = ?key, so_object_key_hash = sha256 e ?key,
            so_content_type = Some ''application/json'',
            so_size_bytes = Some (length (s_data s)), so_object_version_id = None,
            so_etag = None, so_created_by = user_id req\<rparr>"
  let ?d2 = "d\<lparr>s3_objects := s3_objects d @ [?orow], next_s3_object_id := Suc (next_s3_object_id d)\<rparr>"
  let ?srow = "(sync_submission_row e req s (next_s3_object_id d))\<lparr>fs_id := ?sid\<rparr>"
  let ?d3 = "?d2\<lparr>form_submissions := form_submissions d @ [?srow], next_submission_id := Suc ?sid\<rparr>"
  let ?att = "case s_files s of None \<Rightarrow> [] | Some files \<Rightarrow> attachment_rows ?sid (next_file_id d) files"
  let ?d4 = "?d3\<lparr>form_submission_files := form_submission_files d @ ?att,
                 next_file_id := next_file_id d + length ?att\<rparr>"
  let ?d5 = "?d4\<lparr>activity_logs := activity_logs d @ [(sync_log_row req dev s ?sid)\<lparr>al_id := next_log_id d\<rparr>],
                 next_log_id := Suc (next_log_id d)\<rparr>"
  let ?d6 = "?d5\<lparr>sync_queue := sync_queue d @ [(completed_entry e req dev s ?sid)\<lparr>sq_id := next_queue_id d\<rparr>],
                 next_queue_id := Suc (next_queue_id d)\<rparr>"
  have 1: "outside (putObject flt (submissionsBucket e) ?key (s_data s) ''application/json'') (w, d)
      = (Inr (), (?w1, d))"
    using f by (simp add: outside_def putObject_def)
  have 2: "execute flt InsObject (insert_s3_object e (submissionsBucket e) ?key
             ''application/json'' (length (s_data s)) (user_id req)) (?w1, d)
           = (Inr (next_s3_object_id d), (?w1, ?d2))"
    using f o by (simp add: execute_def insert_s3_object_def)
  have 3: "execute flt InsSubmission
       (insert_submission (sync_submission_row e req s (next_s3_object_id d))) (?w1, ?d2)
       = (Inr ?sid, (?w1, ?d3))"
    using f u by (simp add: execute_def insert_submission_def sync_submission_row_def Let_def)
  have 4: "(case s_files s of None \<Rightarrow> ret () | Some files \<Rightarrow> sync_files flt ?sid 0 files)
       (?w1, ?d3) = (Inr (), (?w1, ?d4))"
  proof (cases "s_files s")
    case None
    then show ?thesis by (simp add: ret_def)
  next
    case (Some files)
    have "sync_files flt ?sid 0 files (?w1, ?d3) =
          (Inr (), (?w1, ?d3\<lparr>form_submission_files := form_submission_files ?d3
                           @ attachment_rows ?sid (next_file_id ?d3) files,
                         next_file_id := next_file_id ?d3
                           + length (attachment_rows ?sid (next_file_id ?d3) files)\<rparr>))"
      by (rule sync_files_exact) (use f(6) file_steps_mem [OF Some] in simp)
    with Some show ?thesis by simp
  qed
  have 5: "execute flt InsLog (insert_log (sync_log_row req dev s ?sid)) (?w1, ?d4)
       = (Inr (next_log_id d), (?w1, ?d5))"
    using f by (simp add: execute_def insert_log_def)
  have 6: "execute flt InsQueueCompleted (insert_queue (completed_entry e req dev s ?sid))
       (?w1, ?d5) = (Inr (next_queue_id d), (?w1, ?d6))"
    using f by (simp add: execute_def insert_queue_def)
  have sw: "sync_writes flt e req dev s (w, d) = (Inr ?sid, (?w1, ?d6))"
    unfolding sync_writes_def Let_def
    by (simp add: seq_def 1 2 3 4 5 6 ret_def)
  have "?d6 = ingested e req dev s d"
    by (simp add: ingested_def sync_submission_row_def Let_def sync_log_row_def
        completed_entry_def queue_data_def submission_key_def)
  with sw show ?thesis by simp
qed

lemma sync_try_exact:
  assumes b: "flt Begin = None" and c: "flt Commit = None"
    and f: "flt S3Put = None" "flt InsObject = None" "flt InsSubmission = None"
      "flt InsLog = None" "flt InsQueueCompleted = None"
      "\<And>st. st \<in> set (file_steps (s_files s)) \<Longrightarrow> flt st = None"
    and o: "filter (same_object (submissionsBucket e)
            (sha256 e (submission_key (s_formTemplateId s) (s_uuid s)))) (s3_objects (db w)) = []"
    and u: "filter (\<lambda>r. fs_uuid r = s_uuid s) (form_submissions (db w)) = []"
  shows "sync_try flt e req dev s (w, PoolConnection c0) =
     (Inr (success_result s (next_submission_id (db w))),
      (w\<lparr>s3_sent := s3_sent w @ [PutObject (submissionsBucket e)
            (submission_key (s_formTemplateId s) (s_uuid s)) (s_data s) ''application/json''],
         db := ingested e req dev s (db w)\<rparr>,
       PoolConnection (c0\<lparr>pending := None\<rparr>)))"
  using b c sync_writes_exact [OF f o u, where req = req and dev = dev and w = w]
  by (simp add: sync_try_def seq_def beginTransaction_def on_connection_def commit_def ret_def)

lemma process_item_exact:
  assumes rt: "reaches_transaction flt s w"
    and f: "\<And>st. st \<in> set (tx_steps s) \<Longrightarrow> flt st = None"
    and o: "filter (same_object (submissionsBucket e)
            (sha256 e (submission_key (s_formTemplateId s) (s_uuid s)))) (s3_objects (db w)) = []"
  shows "process_item flt e req dev s w =
     (\<lparr>r_uuid = s_uuid s, r_status = ''success'', r_message = ''Submission synced successfully'',
       r_serverId = Some (next_submission_id (db w))\<rparr>,
      w\<lparr>s3_sent := s3_sent w @ [PutObject (submissionsBucket e)
            (submission_key (s_formTemplateId s) (s_uuid s)) (s_data s) ''application/json''],
        db := ingested e req dev s (db w)\<rparr>)"
proof -
  from f have g: "flt Begin = None" "flt Commit = None" "flt S3Put = None"
    "flt InsObject = None" "flt InsSubmission = None" "flt InsLog = None"
    "flt InsQueueCompleted = None"
    "\<And>st. st \<in> set (file_steps (s_files s)) \<Longrightarrow> flt st = None"
    by (simp_all add: tx_steps_def)
  from rt have u: "filter (\<lambda>r. fs_uuid r = s_uuid s) (form_submissions (db w)) = []"
    by (simp add: reaches_transaction_def)
  let ?c = "\<lparr>pending = None, released = 0\<rparr>"
  let ?w' = "w\<lparr>s3_sent := s3_sent w @ [PutObject (submissionsBucket e)
            (submission_key (s_formTemplateId s) (s_uuid s)) (s_data s) ''application/json''],
        db := ingested e req dev s (db w)\<rparr>"
  have t: "sync_transaction flt e req dev s (w, PoolConnection ?c) =
      (Inr (success_result s (next_submission_id (db w))),
       (?w', PoolConnection \<lparr>pending = None, released = 1\<rparr>))"
    by (simp add: sync_transaction_def try_finally_def try_catch_def release_def
        sync_try_exact [OF g(1,2) g(3-8) o u])
  from process_item_via_transaction [OF rt t] show ?thesis
    by (simp add: success_result_def)
qed

lemma sync_try_Inl_handle:
  assumes "sync_try flt e req dev s (w, PoolConnection c) = (Inl err, (w', h'))"
  shows "\<exists>c'. h' = PoolConnection c' \<and> released c' = released c \<and> db w' = db w"
  using assms
  by (auto simp: sync_try_def seq_def beginTransaction_def on_connection_def commit_def ret_def
      split: option.splits sum.splits prod.splits dest: sync_writes_stored)

lemma sync_transaction_after_failure:
  assumes t: "sync_try flt e req dev s (w, PoolConnection c) = (Inl err, (w1, PoolConnection c1))"
  shows "sync_transaction flt e req dev s (w, PoolConnection c) =
     (case flt Rollback of
        Some m \<Rightarrow> (Inl (DriverError m), (w1, PoolConnection (c1\<lparr>released := Suc (released c1)\<rparr>)))
      | None \<Rightarrow>
         (case flt InsQueueFailed of
            Some m \<Rightarrow> (Inl (DriverError m),
                       (w1, PoolConnection (c1\<lparr>pending := None, released := Suc (released c1)\<rparr>)))
          | None \<Rightarrow> (Inr (error_result s (''Error: '' @ message err)),
                     (w1\<lparr>db := failed_attempt e req dev s (message err) (db w1)\<rparr>,
                      PoolConnection (c1\<lparr>pending := None, released := Suc (released c1)\<rparr>)))))"
  by (simp add: sync_transaction_def try_finally_def try_catch_def release_def t
      sync_catch_def seq_def rollback_def outside_def query_def insert_queue_def ret_def
      failed_attempt_def failed_entry_def queue_data_def split: option.splits)

lemma process_item_after_failure:
  assumes rt: "reaches_transaction flt s w"
    and t: "sync_try flt e req dev s (w, PoolConnection \<lparr>pending = None, released = 0\<rparr>)
              = (Inl err, (w1, h1))"
  shows "process_item flt e req dev s w =
     (case flt Rollback of
        Some m \<Rightarrow> (\<lparr>r_uuid = s_uuid s, r_status = ''error'', r_message = ''Error: '' @ m,
                    r_serverId = None\<rparr>, w1)
      | None \<Rightarrow>
         (case flt InsQueueFailed of
            Some m \<Rightarrow> (\<lparr>r_uuid = s_uuid s, r_status = ''error'', r_message = ''Error: '' @ m,
                        r_serverId = None\<rparr>, w1)
          | None \<Rightarrow> (\<lparr>r_uuid = s_uuid s, r_status = ''error'',
                       r_message = ''Error: '' @ message err, r_serverId = None\<rparr>,
                     w1\<lparr>db := failed_attempt e req dev s (message err) (db w)\<rparr>)))"
proof -
  from sync_try_Inl_handle [OF t] obtain c1 where h1: "h1 = PoolConnection c1"
    and w1: "db w1 = db w" by (elim exE conjE)
  note tr = sync_transaction_after_failure [OF t [unfolded h1]]
  show ?thesis
  proof (cases "flt Rollback")
    case (Some m)
    with tr have "sync_transaction flt e req dev s (w, PoolConnection \<lparr>pending = None, released = 0\<rparr>) =
        (Inl (DriverError m), (w1, PoolConnection (c1\<lparr>released := Suc (released c1)\<rparr>)))" by simp
    from process_item_via_transaction [OF rt this] Some show ?thesis
      by (simp add: error_result_def)
  next
    case None
    show ?thesis
    proof (cases "flt InsQueueFailed")
      case (Some m)
      with tr None have "sync_transaction flt e req dev s (w, PoolConnection \<lparr>pending = None, released = 0\<rparr>) =
        (Inl (DriverError m), (w1, PoolConnection (c1\<lparr>pending := None, released := Suc (released c1)\<rparr>)))"
        by simp
      from process_item_via_transaction [OF rt this] Some None show ?thesis
        by (simp add: error_result_def)
    next
      case N2: None
      with tr None have "sync_transaction flt e req dev s (w, PoolConnection \<lparr>pending = None, released = 0\<rparr>) =
        (Inr (error_result s (''Error: '' @ message err)),
                     (w1\<lparr>db := failed_attempt e req dev s (message err) (db w1)\<rparr>,
                      PoolConnection (c1\<lparr>pending := None, released := Suc (released c1)\<rparr>)))"
        by simp
      from process_item_via_transaction [OF rt this] N2 None w1 show ?thesis
        by (simp add: error_result_def)
    qed
  qed
qed

lemma sync_try_duplicate:
  assumes "flt Begin = None" "flt S3Put = None" "flt InsObject = None"
    and "filter (same_object (submissionsBucket e)
            (sha256 e (submission_key (s_formTemplateId s) (s_uuid s)))) (s3_objects (db w)) \<noteq> []"
  shows "sync_try flt e req dev s (w, PoolConnection c) =
     (Inl (DriverError ''Duplicate entry''),
      (w\<lparr>s3_sent := s3_sent w @ [PutObject (submissionsBucket e)
            (submission_key (s_formTemplateId s) (s_uuid s)) (s_data s) ''application/json'']\<rparr>,
       PoolConnection (c\<lparr>pending := Some (db w)\<rparr>)))"
  using assms
  by (simp add: sync_try_def seq_def beginTransaction_def on_connection_def sync_writes_def Let_def
      outside_def putObject_def execute_def insert_s3_object_def duplicate_entry_def)

lemma sync_try_faulty:
  assumes st: "st \<in> set (tx_steps s)" "flt st = Some m"
  shows "\<exists>err w1 h1. sync_try flt e req dev s (w, PoolConnection c) = (Inl err, (w1, h1))"
proof -
  obtain r0 w1 h1 where t: "sync_try flt e req dev s (w, PoolConnection c) = (r0, (w1, h1))"
    by (metis prod.exhaust)
  from sync_try_fails [OF st t] obtain err where "r0 = Inl err" by (rule exE)
  with t show ?thesis by simp
qed

lemma sync_try_log_fails_exact:
  assumes f: "flt Begin = None" "flt S3Put = None" "flt InsObject = None" "flt InsSubmission = None"
      "\<And>st. st \<in> set (file_steps (s_files s)) \<Longrightarrow> flt st = None"
    and l: "flt InsLog = Some m"
    and o: "filter (same_object (submissionsBucket e)
            (sha256 e (submission_key (s_formTemplateId s) (s_uuid s)))) (s3_objects (db w)) = []"
    and u: "filter (\<lambda>r. fs_uuid r = s_uuid s) (form_submissions (db w)) = []"
  shows "\<exists>dw. sync_try flt e req dev s (w, PoolConnection c) =
     (Inl (DriverError m),
      (w\<lparr>s3_sent := s3_sent w @ [PutObject (submissionsBucket e)
            (submission_key (s_formTemplateId s) (s_uuid s)) (s_data s) ''application/json'']\<rparr>,
       PoolConnection (c\<lparr>pending := Some dw\<rparr>)))
     \<and> map fs_uuid (form_submissions dw) = map fs_uuid (form_submissions (db w)) @ [s_uuid s]
     \<and> map so_object_key (s3_objects dw) = map so_object_key (s3_objects (db w))
          @ [submission_key (s_formTemplateId s) (s_uuid s)]
     \<and> form_submission_files dw = form_submission_files (db w)
          @ (case s_files s of None \<Rightarrow> []
             | Some files \<Rightarrow> attachment_rows (next_submission_id (db w)) (next_file_id (db w)) files)"
proof -
  let ?d = "db w"
  let ?key = "submission_key (s_formTemplateId s) (s_uuid s)"
  let ?w1 = "w\<lparr>s3_sent := s3_sent w @ [PutObject (submissionsBucket e) ?key (s_data s) ''application/json'']\<rparr>"
  let ?sid = "next_submission_id ?d"
  let ?orow = "\<lparr>so_id = next_s3_object_id ?d, so_bucket_name = submissionsBucket e,
            so_object_key = ?key, so_object_key_hash = sha256 e ?key,
            so_content_type = Some ''application/json'',
            so_size_bytes = Some (length (s_data s)), so_object_version_id = None,
            so_etag = None, so_created_by = user_id req\<rparr>"
  let ?d2 = "?d\<lparr>s3_objects := s3_objects ?d @ [?orow], next_s3_object_id := Suc (next_s3_object_id ?d)\<rparr>"
  let ?srow = "(sync_submission_row e req s (next_s3_object_id ?d))\<lparr>fs_id := ?sid\<rparr>"
  let ?d3 = "?d2\<lparr>form_submissions := form_submissions ?d @ [?srow], next_submission_id := Suc ?sid\<rparr>"
  let ?att = "case s_files s of None \<Rightarrow> [] | Some files \<Rightarrow> attachment_rows ?sid (next_file_id ?d) files"
  let ?d4 = "?d3\<lparr>form_submission_files := form_submission_files ?d @ ?att,
                 next_file_id := next_file_id ?d + length ?att\<rparr>"
  have 1: "outside (putObject flt (submissionsBucket e) ?key (s_data s) ''application/json'') (w, ?d)
      = (Inr (), (?w1, ?d))"
    using f by (simp add: outside_def putObject_def)
  have 2: "execute flt InsObject (insert_s3_object e (submissionsBucket e) ?key
             ''application/json'' (length (s_data s)) (user_id req)) (?w1, ?d)
           = (Inr (next_s3_object_id ?d), (?w1, ?d2))"
    using f o by (simp add: execute_def insert_s3_object_def)
  have 3: "execute flt InsSubmission
       (insert_submission (sync_submission_row e req s (next_s3_object_id ?d))) (?w1, ?d2)
       = (Inr ?sid, (?w1, ?d3))"
    using f u by (simp add: execute_def insert_submission_def sync_submission_row_def Let_def)
  have 4: "(case s_files s of None \<Rightarrow> ret () | Some files \<Rightarrow> sync_files flt ?sid 0 files)
       (?w1, ?d3) = (Inr (), (?w1, ?d4))"
  proof (cases "s_files s")
    case None
    then show ?thesis by (simp add: ret_def)
  next
    case (Some files)
    have "sync_files flt ?sid 0 files (?w1, ?d3) =
          (Inr (), (?w1, ?d3\<lparr>form_submission_files := form_submission_files ?d3
                           @ attachment_rows ?sid (next_file_id ?d3) files,
                         next_file_id := next_file_id ?d3
                           + length (attachment_rows ?sid (next_file_id ?d3) files)\<rparr>))"
      by (rule sync_files_exact) (use f(5) file_steps_mem [OF Some] in simp)
    with Some show ?thesis by simp
  qed
  have 5: "execute flt InsLog (insert_log (sync_log_row req dev s ?sid)) (?w1, ?d4)
       = (Inl (DriverError m), (?w1, ?d4))"
    using l by (simp add: execute_def)
  have sw: "sync_writes flt e req dev s (w, ?d) = (Inl (DriverError m), (?w1, ?d4))"
    unfolding sync_writes_def Let_def
    by (simp add: seq_def 1 2 3 4 5)
  have t: "sync_try flt e req dev s (w, PoolConnection c) =
     (Inl (DriverError m), (?w1, PoolConnection (c\<lparr>pending := Some ?d4\<rparr>)))"
    using f(1) sw
    by (simp add: sync_try_def seq_def beginTransaction_def on_connection_def)
  show ?thesis
    by (rule exI [where x = ?d4]) (simp add: t sync_submission_row_def Let_def)
qed

lemma item_sel:
  "s_uuid (item u v st) = u" "s_formTemplateId (item u v st) = 5"
  "s_formTemplateVersion (item u v st) = v" "s_status (item u v st) = st"
  "s_data (item u v st) = ''{}''" "s_files (item u v st) = None"
  "s_geolocation (item u v st) = None" "s_deviceInfo (item u v st) = None"
  by (simp_all add: item_def)

lemma item_f_sel:
  "s_uuid (item_f u v st) = u" "s_formTemplateId (item_f u v st) = 5"
  "s_formTemplateVersion (item_f u v st) = v" "s_status (item_f u v st) = st"
  "s_data (item_f u v st) = ''{}''"
  "s_files (item_f u v st) =
     Some [photo (Some 4) ''p1.jpg'', photo None ''p2.jpg'', photo (Some 9) ''p3.jpg'']"
  "s_geolocation (item_f u v st) = None" "s_deviceInfo (item_f u v st) = None"
  by (simp_all add: item_f_def item_def)

lemma reaches_transaction_world0_f:
  "flt SelExisting = None \<Longrightarrow> flt SelTemplate = None \<Longrightarrow> flt SelVersion = None
     \<Longrightarrow> flt GetConn = None \<Longrightarrow> reaches_transaction flt (item_f u 1 status) world0"
  by (simp add: reaches_transaction_def item_f_def item_def world0_def db0_def)

lemma reaches_transaction_world_o:
  "flt SelExisting = None \<Longrightarrow> flt SelTemplate = None \<Longrightarrow> flt SelVersion = None
     \<Longrightarrow> flt GetConn = None \<Longrightarrow> reaches_transaction flt (item u 1 status) world_o"
  by (simp add: reaches_transaction_def item_def world_o_def db0_def)

lemma log_fails_world0:
  assumes "flt Begin = None" "flt S3Put = None" "flt InsObject = None" "flt InsSubmission = None"
      "\<And>i. flt (InsFile i) = None" "flt InsLog = Some m"
  shows "\<exists>dw. sync_try flt env0 req0 ''dev-1'' (item_f ''a1'' 1 ''submitted'')
        (world0, PoolConnection \<lparr>pending = None, released = 0\<rparr>) =
     (Inl (DriverError m),
      (world0\<lparr>s3_sent := [PutObject ''form-submissions'' ''submissions/5/a1.json'' ''{}''
                             ''application/json'']\<rparr>,
       PoolConnection \<lparr>pending = Some dw, released = 0\<rparr>))
     \<and> map fs_uuid (form_submissions dw) = [''a1'']
     \<and> map so_object_key (s3_objects dw) = [''submissions/5/a1.json'']
     \<and> map fsf_file_name (form_submission_files dw) = [''p1.jpg'', ''p3.jpg'']"
proof -
  let ?a = "item_f ''a1'' 1 ''submitted''"
  have fs: "\<And>st. st \<in> set (file_steps (s_files ?a)) \<Longrightarrow> flt st = None"
    using assms(5) by (auto simp: file_steps_def split: option.splits)
  have o: "filter (same_object (submissionsBucket env0)
            (sha256 env0 (submission_key (s_formTemplateId ?a) (s_uuid ?a)))) (s3_objects (db world0)) = []"
    by (simp add: world0_def db0_def)
  have u: "filter (\<lambda>r. fs_uuid r = s_uuid ?a) (form_submissions (db world0)) = []"
    by (simp add: world0_def db0_def)
  have "\<exists>dw. sync_try flt env0 req0 ''dev-1'' ?a (world0, PoolConnection \<lparr>pending = None, released = 0\<rparr>) =
     (Inl (DriverError m),
      (world0\<lparr>s3_sent := s3_sent world0 @ [PutObject (submissionsBucket env0)
            (submission_key (s_formTemplateId ?a) (s_uuid ?a)) (s_data ?a) ''application/json'']\<rparr>,
       PoolConnection (\<lparr>pending = None, released = 0\<rparr>\<lparr>pending := Some dw\<rparr>)))
     \<and> map fs_uuid (form_submissions dw) = map fs_uuid (form_submissions (db world0)) @ [s_uuid ?a]
     \<and> map so_object_key (s3_objects dw) = map so_object_key (s3_objects (db world0))
          @ [submission_key (s_formTemplateId ?a) (s_uuid ?a)]
     \<and> form_submission_files dw = form_submission_files (db world0)
          @ (case s_files ?a of None \<Rightarrow> []
             | Some files \<Rightarrow> attachment_rows (next_submission_id (db world0)) (next_file_id (db world0)) files)"
    by (rule sync_try_log_fails_exact [where flt = flt and s = ?a and m = m])
      (rule assms(1), rule assms(2), rule assms(3), rule assms(4), rule fs, assumption,
       rule assms(6), rule o, rule u)
  then obtain dw where
    t: "sync_try flt env0 req0 ''dev-1'' ?a (world0, PoolConnection \<lparr>pending = None, released = 0\<rparr>) =
     (Inl (DriverError m),
      (world0\<lparr>s3_sent := s3_sent world0 @ [PutObject (submissionsBucket env0)
            (submission_key (s_formTemplateId ?a) (s_uuid ?a)) (s_data ?a) ''application/json'']\<rparr>,
       PoolConnection (\<lparr>pending = None, released = 0\<rparr>\<lparr>pending := Some dw\<rparr>)))"
    and k: "map fs_uuid (form_submissions dw) = map fs_uuid (form_submissions (db world0)) @ [s_uuid ?a]"
     "map so_object_key (s3_objects dw) = map so_object_key (s3_objects (db world0))
          @ [submission_key (s_formTemplateId ?a) (s_uuid ?a)]"
     "form_submission_files dw = form_submission_files (db world0)
          @ (case s_files ?a of None \<Rightarrow> []
             | Some files \<Rightarrow> attachment_rows (next_submission_id (db world0)) (next_file_id (db world0)) files)"
    by (elim exE conjE)
  note e = item_f_sel
  from t have t': "sync_try flt env0 req0 ''dev-1'' ?a (world0, PoolConnection \<lparr>pending = None, released = 0\<rparr>) =
     (Inl (DriverError m),
      (world0\<lparr>s3_sent := [PutObject ''form-submissions'' ''submissions/5/a1.json'' ''{}''
                             ''application/json'']\<rparr>,
       PoolConnection \<lparr>pending = Some dw, released = 0\<rparr>))"
    by (simp add: e submission_key_5 env0_def world0_def)
  from k(1) have k1: "map fs_uuid (form_submissions dw) = [''a1'']"
    by (simp add: e world0_def db0_def)
  from k(2) have k2: "map so_object_key (s3_objects dw) = [''submissions/5/a1.json'']"
    by (simp add: e submission_key_5 world0_def db0_def)
  from k(3) have k3: "map fsf_file_name (form_submission_files dw) = [''p1.jpg'', ''p3.jpg'']"
    by (simp add: e world0_def db0_def photo_def)
  show ?thesis
    by (rule exI [where x = dw]) (intro conjI, rule t', rule k1, rule k2, rule k3)
qed

text \<open>
  C2, as the code has it. Take an item that gets as far as its transaction and whose \<open>try\<close>
  block fails with the error \<open>err\<close>, leaving the world \<open>w1\<close> and the connection \<open>h1\<close>. The
  stored database is then still the one the item found (all it wrote is in the working copy
  of the connection), the item's result has status \<open>error\<close>, and every table but the sync
  queue holds the rows it held before, whatever happens in the \<open>catch\<close> block. What the
  \<open>catch\<close> block adds depends on its own two calls:
  \<^item> when \<open>rollback\<close> and the INSERT of the failed entry succeed, the working copy is dropped
    (the connection is handed back once, with no open transaction), the result carries the
    message of \<open>err\<close>, and the sync queue gains exactly one entry, written outside the
    transaction: status \<open>failed\<close>, the user, the device, the item's uuid and the message of
    \<open>err\<close>;
  \<^item> when \<open>rollback\<close> raises, nothing is inserted and the result carries the message of the
    rollback's error;
  \<^item> when the INSERT of the failed entry raises, nothing is inserted and the result carries
    that error's message.

  The \<open>try\<close> block fails whenever one of its calls (\<open>beginTransaction\<close>, the put to the object
  store, an INSERT, \<open>commit\<close>) raises, and also, with no call raising, when the ledger
  already holds an object record for the item's payload key.
\<close>

theorem sync_item_atomic_on_failure:
  "(reaches_transaction flt s w
      \<and> sync_try flt e req dev s (w, PoolConnection \<lparr>pending = None, released = 0\<rparr>)
           = (Inl err, (w1, h1))
      \<and> process_item flt e req dev s w = (r, w') \<longrightarrow>
    db w1 = db w
    \<and> r_uuid r = s_uuid s \<and> r_status r = ''error'' \<and> r_serverId r = None
    \<and> users (db w') = users (db w) \<and> form_templates (db w') = form_templates (db w)
    \<and> form_template_versions (db w') = form_template_versions (db w)
    \<and> project_users (db w') = project_users (db w)
    \<and> s3_objects (db w') = s3_objects (db w)
    \<and> form_submissions (db w') = form_submissions (db w)
    \<and> form_submission_files (db w') = form_submission_files (db w)
    \<and> activity_logs (db w') = activity_logs (db w)
    \<and> (flt Rollback = None \<and> flt InsQueueFailed = None \<longrightarrow>
         r_message r = ''Error: '' @ message err
         \<and> w' = w1\<lparr>db := (db w)\<lparr>sync_queue := sync_queue (db w) @
               [\<lparr>sq_id = next_queue_id (db w), sq_user_id = user_id req, sq_device_id = dev,
                 sq_entity_type = ''form_submissions'', sq_operation = ''create'',
                 sq_local_id = s_uuid s, sq_server_id = None,
                 sq_data = JObject [(''uuid'', JString (s_uuid s)),
                                    (''form_template_id'', JNumber (s_formTemplateId s)),
                                    (''status'', JString (s_status s))],
                 sq_status = ''failed'', sq_error_message = Some (message err),
                 sq_retry_count = 0, sq_created_at = now e, sq_updated_at = now e\<rparr>],
               next_queue_id := Suc (next_queue_id (db w))\<rparr>\<rparr>
         \<and> snd (sync_transaction flt e req dev s (w, PoolConnection \<lparr>pending = None, released = 0\<rparr>))
             = (w', PoolConnection \<lparr>pending = None, released = 1\<rparr>))
    \<and> (\<forall>m. flt Rollback = Some m \<longrightarrow> r_message r = ''Error: '' @ m \<and> w' = w1)
    \<and> (\<forall>m. flt Rollback = None \<and> flt InsQueueFailed = Some m \<longrightarrow>
          r_message r = ''Error: '' @ m \<and> w' = w1))
   \<and> (st \<in> set (tx_steps s) \<and> flt st = Some m0 \<longrightarrow>
        (\<exists>err0 w0 h0. sync_try flt e req dev s (w, PoolConnection c) = (Inl err0, (w0, h0))))
   \<and> (flt Begin = None \<and> flt S3Put = None \<and> flt InsObject = None
        \<and> filter (same_object (submissionsBucket e)
              (sha256 e (submission_key (s_formTemplateId s) (s_uuid s)))) (s3_objects (db w)) \<noteq> []
      \<longrightarrow>
        sync_try flt e req dev s (w, PoolConnection c) =
          (Inl (DriverError ''Duplicate entry''),
           (w\<lparr>s3_sent := s3_sent w @ [PutObject (submissionsBucket e)
                 (submission_key (s_formTemplateId s) (s_uuid s)) (s_data s) ''application/json'']\<rparr>,
            PoolConnection (c\<lparr>pending := Some (db w)\<rparr>))))"
proof (intro conjI)
  let ?c0 = "\<lparr>pending = None, released = 0\<rparr>"
  let ?E = "\<lambda>msg. \<lparr>r_uuid = s_uuid s, r_status = ''error'', r_message = ''Error: '' @ msg,
                    r_serverId = None\<rparr>"
  show "reaches_transaction flt s w
      \<and> sync_try flt e req dev s (w, PoolConnection ?c0) = (Inl err, (w1, h1))
      \<and> process_item flt e req dev s w = (r, w') \<longrightarrow>
    db w1 = db w
    \<and> r_uuid r = s_uuid s \<and> r_status r = ''error'' \<and> r_serverId r = None
    \<and> users (db w') = users (db w) \<and> form_templates (db w') = form_templates (db w)
    \<and> form_template_versions (db w') = form_template_versions (db w)
    \<and> project_users (db w') = project_users (db w)
    \<and> s3_objects (db w') = s3_objects (db w)
    \<and> form_submissions (db w') = form_submissions (db w)
    \<and> form_submission_files (db w') = form_submission_files (db w)
    \<and> activity_logs (db w') = activity_logs (db w)
    \<and> (flt Rollback = None \<and> flt InsQueueFailed = None \<longrightarrow>
         r_message r = ''Error: '' @ message err
         \<and> w' = w1\<lparr>db := (db w)\<lparr>sync_queue := sync_queue (db w) @
               [\<lparr>sq_id = next_queue_id (db w), sq_user_id = user_id req, sq_device_id = dev,
                 sq_entity_type = ''form_submissions'', sq_operation = ''create'',
                 sq_local_id = s_uuid s, sq_server_id = None,
                 sq_data = JObject [(''uuid'', JString (s_uuid s)),
                                    (''form_template_id'', JNumber (s_formTemplateId s)),
                                    (''status'', JString (s_status s))],
                 sq_status = ''failed'', sq_error_message = Some (message err),
                 sq_retry_count = 0, sq_created_at = now e, sq_updated_at = now e\<rparr>],
               next_queue_id := Suc (next_queue_id (db w))\<rparr>\<rparr>
         \<and> snd (sync_transaction flt e req dev s (w, PoolConnection ?c0))
             = (w', PoolConnection \<lparr>pending = None, released = 1\<rparr>))
    \<and> (\<forall>m. flt Rollback = Some m \<longrightarrow> r_message r = ''Error: '' @ m \<and> w' = w1)
    \<and> (\<forall>m. flt Rollback = None \<and> flt InsQueueFailed = Some m \<longrightarrow>
          r_message r = ''Error: '' @ m \<and> w' = w1)"
  proof
    assume a: "reaches_transaction flt s w
      \<and> sync_try flt e req dev s (w, PoolConnection ?c0) = (Inl err, (w1, h1))
      \<and> process_item flt e req dev s w = (r, w')"
    then have rt: "reaches_transaction flt s w"
      and t: "sync_try flt e req dev s (w, PoolConnection ?c0) = (Inl err, (w1, h1))"
      and p: "process_item flt e req dev s w = (r, w')" by simp_all
    from sync_try_Inl_handle [OF t] obtain c1 where h1: "h1 = PoolConnection c1"
      and c1: "released c1 = 0" and w1: "db w1 = db w" by (elim exE conjE) simp
    note pf = process_item_after_failure [OF rt t]
    note tr = sync_transaction_after_failure [OF t [unfolded h1]]
    show "db w1 = db w
    \<and> r_uuid r = s_uuid s \<and> r_status r = ''error'' \<and> r_serverId r = None
    \<and> users (db w') = users (db w) \<and> form_templates (db w') = form_templates (db w)
    \<and> form_template_versions (db w') = form_template_versions (db w)
    \<and> project_users (db w') = project_users (db w)
    \<and> s3_objects (db w') = s3_objects (db w)
    \<and> form_submissions (db w') = form_submissions (db w)
    \<and> form_submission_files (db w') = form_submission_files (db w)
    \<and> activity_logs (db w') = activity_logs (db w)
    \<and> (flt Rollback = None \<and> flt InsQueueFailed = None \<longrightarrow>
         r_message r = ''Error: '' @ message err
         \<and> w' = w1\<lparr>db := (db w)\<lparr>sync_queue := sync_queue (db w) @
               [\<lparr>sq_id = next_queue_id (db w), sq_user_id = user_id req, sq_device_id = dev,
                 sq_entity_type = ''form_submissions'', sq_operation = ''create'',
                 sq_local_id = s_uuid s, sq_server_id = None,
                 sq_data = JObject [(''uuid'', JString (s_uuid s)),
                                    (''form_template_id'', JNumber (s_formTemplateId s)),
                                    (''status'', JString (s_status s))],
                 sq_status = ''failed'', sq_error_message = Some (message err),
                 sq_retry_count = 0, sq_created_at = now e, sq_updated_at = now e\<rparr>],
               next_queue_id := Suc (next_queue_id (db w))\<rparr>\<rparr>
         \<and> snd (sync_transaction flt e req dev s (w, PoolConnection ?c0))
             = (w', PoolConnection \<lparr>pending = None, released = 1\<rparr>))
    \<and> (\<forall>m. flt Rollback = Some m \<longrightarrow> r_message r = ''Error: '' @ m \<and> w' = w1)
    \<and> (\<forall>m. flt Rollback = None \<and> flt InsQueueFailed = Some m \<longrightarrow>
          r_message r = ''Error: '' @ m \<and> w' = w1)"
    proof (cases "flt Rollback")
      case (Some m)
      with pf p have "r = ?E m" "w' = w1" by simp_all
      with Some w1 show ?thesis by simp
    next
      case None
      show ?thesis
      proof (cases "flt InsQueueFailed")
        case (Some m)
        with pf p None have "r = ?E m" "w' = w1" by simp_all
        with Some None w1 show ?thesis by simp
      next
        case N2: None
        with pf p None have r: "r = ?E (message err)"
          and w': "w' = w1\<lparr>db := failed_attempt e req dev s (message err) (db w)\<rparr>" by simp_all
        from tr None N2 w1 c1 have "snd (sync_transaction flt e req dev s (w, PoolConnection ?c0))
             = (w', PoolConnection \<lparr>pending = None, released = 1\<rparr>)"
          by (simp add: w')
        with r w' w1 None N2 show ?thesis by (simp add: failed_attempt_def)
      qed
    qed
  qed
next
  show "st \<in> set (tx_steps s) \<and> flt st = Some m0 \<longrightarrow>
        (\<exists>err0 w0 h0. sync_try flt e req dev s (w, PoolConnection c) = (Inl err0, (w0, h0)))"
    using sync_try_faulty [of st s flt m0 e req dev w c] by blast
next
  show "flt Begin = None \<and> flt S3Put = None \<and> flt InsObject = None
        \<and> filter (same_object (submissionsBucket e)
              (sha256 e (submission_key (s_formTemplateId s) (s_uuid s)))) (s3_objects (db w)) \<noteq> []
      \<longrightarrow>
        sync_try flt e req dev s (w, PoolConnection c) =
          (Inl (DriverError ''Duplicate entry''),
           (w\<lparr>s3_sent := s3_sent w @ [PutObject (submissionsBucket e)
                 (submission_key (s_formTemplateId s) (s_uuid s)) (s_data s) ''application/json'']\<rparr>,
            PoolConnection (c\<lparr>pending := Some (db w)\<rparr>)))"
    using sync_try_duplicate [of flt e s w req dev c] by blast
qed

theorem sync_item_atomic_on_failure_witness:
  "fst (process_item (no_faults(InsLog := Some ''audit log down'')) env0 req0 ''dev-1''
          (item_f ''a1'' 1 ''submitted'') world0)
     = \<lparr>r_uuid = ''a1'', r_status = ''error'', r_message = ''Error: audit log down'',
        r_serverId = None\<rparr>
   \<and> db (snd (process_item (no_faults(InsLog := Some ''audit log down'')) env0 req0 ''dev-1''
          (item_f ''a1'' 1 ''submitted'') world0))
     = db0\<lparr>sync_queue :=
          [\<lparr>sq_id = 1, sq_user_id = 7, sq_device_id = ''dev-1'',
            sq_entity_type = ''form_submissions'', sq_operation = ''create'',
            sq_local_id = ''a1'', sq_server_id = None,
            sq_data = JObject [(''uuid'', JString ''a1''), (''form_template_id'', JNumber 5),
                               (''status'', JString ''submitted'')],
            sq_status = ''failed'', sq_error_message = Some ''audit log down'',
            sq_retry_count = 0, sq_created_at = 1000, sq_updated_at = 1000\<rparr>],
          next_queue_id := 2\<rparr>
   \<and> (case snd (snd (sync_try (no_faults(InsLog := Some ''audit log down'')) env0 req0 ''dev-1''
          (item_f ''a1'' 1 ''submitted'') (world0, PoolConnection \<lparr>pending = None, released = 0\<rparr>))) of
        PoolConnection c1 \<Rightarrow>
          (case pending c1 of
             Some dw \<Rightarrow> map fs_uuid (form_submissions dw) = [''a1'']
                 \<and> map so_object_key (s3_objects dw) = [''submissions/5/a1.json'']
                 \<and> map fsf_file_name (form_submission_files dw) = [''p1.jpg'', ''p3.jpg'']
           | None \<Rightarrow> False)
      | DbModule \<Rightarrow> False)
   \<and> snd (snd (sync_transaction (no_faults(InsLog := Some ''audit log down'')) env0 req0 ''dev-1''
          (item_f ''a1'' 1 ''submitted'') (world0, PoolConnection \<lparr>pending = None, released = 0\<rparr>)))
     = PoolConnection \<lparr>pending = None, released = 1\<rparr>
   \<and> fst (process_item no_faults env0 req0 ''dev-1'' (item ''a1'' 1 ''submitted'') world_o)
     = \<lparr>r_uuid = ''a1'', r_status = ''error'', r_message = ''Error: Duplicate entry'',
        r_serverId = None\<rparr>
   \<and> db (snd (process_item no_faults env0 req0 ''dev-1'' (item ''a1'' 1 ''submitted'') world_o))
     = db0\<lparr>s3_objects := [object0], next_s3_object_id := 5,
          sync_queue :=
          [\<lparr>sq_id = 1, sq_user_id = 7, sq_device_id = ''dev-1'',
            sq_entity_type = ''form_submissions'', sq_operation = ''create'',
            sq_local_id = ''a1'', sq_server_id = None,
            sq_data = JObject [(''uuid'', JString ''a1''), (''form_template_id'', JNumber 5),
                               (''status'', JString ''submitted'')],
            sq_status = ''failed'', sq_error_message = Some ''Duplicate entry'',
            sq_retry_count = 0, sq_created_at = 1000, sq_updated_at = 1000\<rparr>],
          next_queue_id := 2\<rparr>
   \<and> fst (process_item (no_faults(InsLog := Some ''audit log down'', InsQueueFailed := Some ''queue down''))
          env0 req0 ''dev-1'' (item_f ''a1'' 1 ''submitted'') world0)
     = \<lparr>r_uuid = ''a1'', r_status = ''error'', r_message = ''Error: queue down'',
        r_serverId = None\<rparr>
   \<and> db (snd (process_item (no_faults(InsLog := Some ''audit log down'', InsQueueFailed := Some ''queue down''))
          env0 req0 ''dev-1'' (item_f ''a1'' 1 ''submitted'') world0)) = db0"
proof -
  let ?c0 = "\<lparr>pending = None, released = 0\<rparr>"
  let ?f = "item_f ''a1'' 1 ''submitted''" and ?a = "item ''a1'' 1 ''submitted''"
  let ?flt = "no_faults(InsLog := Some ''audit log down'')"
  let ?flq = "no_faults(InsLog := Some ''audit log down'', InsQueueFailed := Some ''queue down'')"
  let ?P = "process_item ?flt env0 req0 ''dev-1'' ?f world0"
  let ?Q = "process_item no_faults env0 req0 ''dev-1'' ?a world_o"
  let ?R = "process_item ?flq env0 req0 ''dev-1'' ?f world0"
  note ef = item_f_sel and ea = item_sel
  \<comment> \<open>the audit-log INSERT fails\<close>
  have "\<exists>dw. sync_try ?flt env0 req0 ''dev-1'' ?f (world0, PoolConnection ?c0) =
     (Inl (DriverError ''audit log down''),
      (world0\<lparr>s3_sent := [PutObject ''form-submissions'' ''submissions/5/a1.json'' ''{}''
                             ''application/json'']\<rparr>,
       PoolConnection \<lparr>pending = Some dw, released = 0\<rparr>))
     \<and> map fs_uuid (form_submissions dw) = [''a1'']
     \<and> map so_object_key (s3_objects dw) = [''submissions/5/a1.json'']
     \<and> map fsf_file_name (form_submission_files dw) = [''p1.jpg'', ''p3.jpg'']"
    by (rule log_fails_world0) (simp_all add: no_faults_def)
  then obtain dw where
    t: "sync_try ?flt env0 req0 ''dev-1'' ?f (world0, PoolConnection ?c0) =
     (Inl (DriverError ''audit log down''),
      (world0\<lparr>s3_sent := [PutObject ''form-submissions'' ''submissions/5/a1.json'' ''{}''
                             ''application/json'']\<rparr>,
       PoolConnection \<lparr>pending = Some dw, released = 0\<rparr>))"
    and dw: "map fs_uuid (form_submissions dw) = [''a1'']"
      "map so_object_key (s3_objects dw) = [''submissions/5/a1.json'']"
      "map fsf_file_name (form_submission_files dw) = [''p1.jpg'', ''p3.jpg'']"
    by (elim exE conjE)
  have rt: "reaches_transaction ?flt ?f world0"
    by (rule reaches_transaction_world0_f) (simp_all add: no_faults_def)
  have hyp: "reaches_transaction ?flt ?f world0
      \<and> sync_try ?flt env0 req0 ''dev-1'' ?f (world0, PoolConnection ?c0)
           = (Inl (DriverError ''audit log down''),
      (world0\<lparr>s3_sent := [PutObject ''form-submissions'' ''submissions/5/a1.json'' ''{}''
                             ''application/json'']\<rparr>,
       PoolConnection \<lparr>pending = Some dw, released = 0\<rparr>))
      \<and> ?P = (fst ?P, snd ?P)"
    using rt t by simp
  note K = sync_item_atomic_on_failure [where flt = ?flt and s = ?f and w = world0 and e = env0
      and req = req0 and dev = "''dev-1''" and r = "fst ?P" and w' = "snd ?P",
      THEN conjunct1, THEN mp, OF hyp]
  have ok: "?flt Rollback = None \<and> ?flt InsQueueFailed = None" by (simp add: no_faults_def)
  from K have K1: "r_uuid (fst ?P) = s_uuid ?f" "r_status (fst ?P) = ''error''"
    "r_serverId (fst ?P) = None" by blast+
  from K ok have K2: "r_message (fst ?P) = ''Error: '' @ message (DriverError ''audit log down'')"
    by blast
  from K ok have K3: "snd ?P = (world0\<lparr>s3_sent := [PutObject ''form-submissions''
         ''submissions/5/a1.json'' ''{}'' ''application/json'']\<rparr>)\<lparr>db := (db world0)\<lparr>sync_queue := sync_queue (db world0) @
               [\<lparr>sq_id = next_queue_id (db world0), sq_user_id = user_id req0, sq_device_id = ''dev-1'',
                 sq_entity_type = ''form_submissions'', sq_operation = ''create'',
                 sq_local_id = s_uuid ?f, sq_server_id = None,
                 sq_data = JObject [(''uuid'', JString (s_uuid ?f)),
                                    (''form_template_id'', JNumber (s_formTemplateId ?f)),
                                    (''status'', JString (s_status ?f))],
                 sq_status = ''failed'', sq_error_message = Some (message (DriverError ''audit log down'')),
                 sq_retry_count = 0, sq_created_at = now env0, sq_updated_at = now env0\<rparr>],
               next_queue_id := Suc (next_queue_id (db world0))\<rparr>\<rparr>"
    by blast
  from K ok have K4: "snd (sync_transaction ?flt env0 req0 ''dev-1'' ?f (world0, PoolConnection ?c0))
             = (snd ?P, PoolConnection \<lparr>pending = None, released = 1\<rparr>)"
    by blast
  have A1: "fst ?P = \<lparr>r_uuid = ''a1'', r_status = ''error'', r_message = ''Error: audit log down'',
        r_serverId = None\<rparr>"
    by (rule sync_result.equality) (use K1 K2 ef in simp_all)
  have A2: "db (snd ?P) = db0\<lparr>sync_queue :=
          [\<lparr>sq_id = 1, sq_user_id = 7, sq_device_id = ''dev-1'',
            sq_entity_type = ''form_submissions'', sq_operation = ''create'',
            sq_local_id = ''a1'', sq_server_id = None,
            sq_data = JObject [(''uuid'', JString ''a1''), (''form_template_id'', JNumber 5),
                               (''status'', JString ''submitted'')],
            sq_status = ''failed'', sq_error_message = Some ''audit log down'',
            sq_retry_count = 0, sq_created_at = 1000, sq_updated_at = 1000\<rparr>],
          next_queue_id := 2\<rparr>"
    unfolding K3 by (simp add: ef world0_def db0_def req0_def env0_def)
  have A3: "(case snd (snd (sync_try ?flt env0 req0 ''dev-1'' ?f (world0, PoolConnection ?c0))) of
        PoolConnection c1 \<Rightarrow>
          (case pending c1 of
             Some dw \<Rightarrow> map fs_uuid (form_submissions dw) = [''a1'']
                 \<and> map so_object_key (s3_objects dw) = [''submissions/5/a1.json'']
                 \<and> map fsf_file_name (form_submission_files dw) = [''p1.jpg'', ''p3.jpg'']
           | None \<Rightarrow> False)
      | DbModule \<Rightarrow> False)"
    unfolding t using dw by simp
  have A4: "snd (snd (sync_transaction ?flt env0 req0 ''dev-1'' ?f (world0, PoolConnection ?c0)))
     = PoolConnection \<lparr>pending = None, released = 1\<rparr>"
    unfolding K4 by simp
  \<comment> \<open>no call fails, the ledger holds the payload key\<close>
  have rq: "reaches_transaction no_faults ?a world_o"
    by (rule reaches_transaction_world_o) (simp_all add: no_faults_def)
  have dup: "no_faults Begin = None \<and> no_faults S3Put = None \<and> no_faults InsObject = None
        \<and> filter (same_object (submissionsBucket env0)
              (sha256 env0 (submission_key (s_formTemplateId ?a) (s_uuid ?a)))) (s3_objects (db world_o)) \<noteq> []"
    by (simp add: no_faults_def ea submission_key_5 env0_def world_o_def object0_def same_object_def)
  note tq = sync_item_atomic_on_failure [where flt = no_faults and s = ?a and w = world_o and e = env0
      and req = req0 and dev = "''dev-1''" and c = ?c0,
      THEN conjunct2, THEN conjunct2, THEN mp, OF dup]
  have hq: "reaches_transaction no_faults ?a world_o
      \<and> sync_try no_faults env0 req0 ''dev-1'' ?a (world_o, PoolConnection ?c0)
           = (Inl (DriverError ''Duplicate entry''),
           (world_o\<lparr>s3_sent := s3_sent world_o @ [PutObject (submissionsBucket env0)
                 (submission_key (s_formTemplateId ?a) (s_uuid ?a)) (s_data ?a) ''application/json'']\<rparr>,
            PoolConnection (?c0\<lparr>pending := Some (db world_o)\<rparr>)))
      \<and> ?Q = (fst ?Q, snd ?Q)"
    using rq tq by simp
  note Q = sync_item_atomic_on_failure [where flt = no_faults and s = ?a and w = world_o and e = env0
      and req = req0 and dev = "''dev-1''" and r = "fst ?Q" and w' = "snd ?Q",
      THEN conjunct1, THEN mp, OF hq]
  have okq: "no_faults Rollback = None \<and> no_faults InsQueueFailed = None" by (simp add: no_faults_def)
  from Q have Q1: "r_uuid (fst ?Q) = s_uuid ?a" "r_status (fst ?Q) = ''error''"
    "r_serverId (fst ?Q) = None" by blast+
  from Q okq have Q2: "r_message (fst ?Q) = ''Error: '' @ message (DriverError ''Duplicate entry'')"
    by blast
  from Q okq have Q3: "snd ?Q = (world_o\<lparr>s3_sent := s3_sent world_o @ [PutObject (submissionsBucket env0)
                 (submission_key (s_formTemplateId ?a) (s_uuid ?a)) (s_data ?a) ''application/json'']\<rparr>)\<lparr>db := (db world_o)\<lparr>sync_queue := sync_queue (db world_o) @
               [\<lparr>sq_id = next_queue_id (db world_o), sq_user_id = user_id req0, sq_device_id = ''dev-1'',
                 sq_entity_type = ''form_submissions'', sq_operation = ''create'',
                 sq_local_id = s_uuid ?a, sq_server_id = None,
                 sq_data = JObject [(''uuid'', JString (s_uuid ?a)),
                                    (''form_template_id'', JNumber (s_formTemplateId ?a)),
                                    (''status'', JString (s_status ?a))],
                 sq_status = ''failed'', sq_error_message = Some (message (DriverError ''Duplicate entry'')),
                 sq_retry_count = 0, sq_created_at = now env0, sq_updated_at = now env0\<rparr>],
               next_queue_id := Suc (next_queue_id (db world_o))\<rparr>\<rparr>"
    by blast
  have B1: "fst ?Q = \<lparr>r_uuid = ''a1'', r_status = ''error'', r_message = ''Error: Duplicate entry'',
        r_serverId = None\<rparr>"
    by (rule sync_result.equality) (use Q1 Q2 ea in simp_all)
  have B2: "db (snd ?Q) = db0\<lparr>s3_objects := [object0], next_s3_object_id := 5,
          sync_queue :=
          [\<lparr>sq_id = 1, sq_user_id = 7, sq_device_id = ''dev-1'',
            sq_entity_type = ''form_submissions'', sq_operation = ''create'',
            sq_local_id = ''a1'', sq_server_id = None,
            sq_data = JObject [(''uuid'', JString ''a1''), (''form_template_id'', JNumber 5),
                               (''status'', JString ''submitted'')],
            sq_status = ''failed'', sq_error_message = Some ''Duplicate entry'',
            sq_retry_count = 0, sq_created_at = 1000, sq_updated_at = 1000\<rparr>],
          next_queue_id := 2\<rparr>"
    unfolding Q3 by (simp add: ea world_o_def db0_def req0_def env0_def)
  \<comment> \<open>the audit-log INSERT and the INSERT of the failed entry fail\<close>
  have "\<exists>dw. sync_try ?flq env0 req0 ''dev-1'' ?f (world0, PoolConnection ?c0) =
     (Inl (DriverError ''audit log down''),
      (world0\<lparr>s3_sent := [PutObject ''form-submissions'' ''submissions/5/a1.json'' ''{}''
                             ''application/json'']\<rparr>,
       PoolConnection \<lparr>pending = Some dw, released = 0\<rparr>))
     \<and> map fs_uuid (form_submissions dw) = [''a1'']
     \<and> map so_object_key (s3_objects dw) = [''submissions/5/a1.json'']
     \<and> map fsf_file_name (form_submission_files dw) = [''p1.jpg'', ''p3.jpg'']"
    by (rule log_fails_world0) (simp_all add: no_faults_def)
  then obtain dv where
    tr: "sync_try ?flq env0 req0 ''dev-1'' ?f (world0, PoolConnection ?c0) =
     (Inl (DriverError ''audit log down''),
      (world0\<lparr>s3_sent := [PutObject ''form-submissions'' ''submissions/5/a1.json'' ''{}''
                             ''application/json'']\<rparr>,
       PoolConnection \<lparr>pending = Some dv, released = 0\<rparr>))"
    by (elim exE conjE)
  have rr: "reaches_transaction ?flq ?f world0"
    by (rule reaches_transaction_world0_f) (simp_all add: no_faults_def)
  have hr: "reaches_transaction ?flq ?f world0
      \<and> sync_try ?flq env0 req0 ''dev-1'' ?f (world0, PoolConnection ?c0)
           = (Inl (DriverError ''audit log down''),
      (world0\<lparr>s3_sent := [PutObject ''form-submissions'' ''submissions/5/a1.json'' ''{}''
                             ''application/json'']\<rparr>,
       PoolConnection \<lparr>pending = Some dv, released = 0\<rparr>))
      \<and> ?R = (fst ?R, snd ?R)"
    using rr tr by simp
  note R = sync_item_atomic_on_failure [where flt = ?flq and s = ?f and w = world0 and e = env0
      and req = req0 and dev = "''dev-1''" and r = "fst ?R" and w' = "snd ?R",
      THEN conjunct1, THEN mp, OF hr]
  have nq: "?flq Rollback = None \<and> ?flq InsQueueFailed = Some ''queue down''"
    by (simp add: no_faults_def)
  from R have R1: "r_uuid (fst ?R) = s_uuid ?f" "r_status (fst ?R) = ''error''"
    "r_serverId (fst ?R) = None" by blast+
  from R nq have R2: "r_message (fst ?R) = ''Error: '' @ ''queue down''" by blast
  from R nq have R3: "snd ?R = world0\<lparr>s3_sent := [PutObject ''form-submissions''
         ''submissions/5/a1.json'' ''{}'' ''application/json'']\<rparr>" by blast
  have C1: "fst ?R = \<lparr>r_uuid = ''a1'', r_status = ''error'', r_message = ''Error: queue down'',
        r_serverId = None\<rparr>"
    by (rule sync_result.equality) (use R1 R2 ef in simp_all)
  have C2: "db (snd ?R) = db0" unfolding R3 by (simp add: world0_def)
  from A1 A2 A3 A4 B1 B2 C1 C2 show ?thesis by (intro conjI)
qed

text \<open>
  C2 as stated fails on the code: the \<open>failed\<close> entry is not written whenever a step of the
  transaction fails. Here the audit-log INSERT fails and the \<open>rollback\<close> of the \<open>catch\<close> block
  raises too: the INSERT of the failed entry is never reached, the sync queue stays empty,
  and the result carries the message of the rollback's error, not that of the failed step.
\<close>

theorem sync_item_no_failed_entry_counterexample:
  "fst (process_item (no_faults(InsLog := Some ''audit log down'', Rollback := Some ''connection lost''))
          env0 req0 ''dev-1'' (item_f ''a1'' 1 ''submitted'') world0)
     = \<lparr>r_uuid = ''a1'', r_status = ''error'', r_message = ''Error: connection lost'',
        r_serverId = None\<rparr>
   \<and> sync_queue (db (snd (process_item
          (no_faults(InsLog := Some ''audit log down'', Rollback := Some ''connection lost''))
          env0 req0 ''dev-1'' (item_f ''a1'' 1 ''submitted'') world0))) = []"
proof -
  let ?c0 = "\<lparr>pending = None, released = 0\<rparr>"
  let ?f = "item_f ''a1'' 1 ''submitted''"
  let ?flt = "no_faults(InsLog := Some ''audit log down'', Rollback := Some ''connection lost'')"
  have "\<exists>dw. sync_try ?flt env0 req0 ''dev-1'' ?f (world0, PoolConnection ?c0) =
     (Inl (DriverError ''audit log down''),
      (world0\<lparr>s3_sent := [PutObject ''form-submissions'' ''submissions/5/a1.json'' ''{}''
                             ''application/json'']\<rparr>,
       PoolConnection \<lparr>pending = Some dw, released = 0\<rparr>))
     \<and> map fs_uuid (form_submissions dw) = [''a1'']
     \<and> map so_object_key (s3_objects dw) = [''submissions/5/a1.json'']
     \<and> map fsf_file_name (form_submission_files dw) = [''p1.jpg'', ''p3.jpg'']"
    by (rule log_fails_world0) (simp_all add: no_faults_def)
  then obtain dw where
    t: "sync_try ?flt env0 req0 ''dev-1'' ?f (world0, PoolConnection ?c0) =
     (Inl (DriverError ''audit log down''),
      (world0\<lparr>s3_sent := [PutObject ''form-submissions'' ''submissions/5/a1.json'' ''{}''
                             ''application/json'']\<rparr>,
       PoolConnection \<lparr>pending = Some dw, released = 0\<rparr>))"
    by (elim exE conjE)
  have rt: "reaches_transaction ?flt ?f world0"
    by (rule reaches_transaction_world0_f) (simp_all add: no_faults_def)
  have p: "process_item ?flt env0 req0 ''dev-1'' ?f world0 =
      (\<lparr>r_uuid = s_uuid ?f, r_status = ''error'', r_message = ''Error: '' @ ''connection lost'',
        r_serverId = None\<rparr>,
       world0\<lparr>s3_sent := [PutObject ''form-submissions'' ''submissions/5/a1.json'' ''{}''
                             ''application/json'']\<rparr>)"
    using process_item_after_failure [OF rt t] by (simp add: no_faults_def)
  show ?thesis unfolding p by (simp add: item_f_sel world0_def db0_def)
qed

lemma process_item_uuid:
  assumes "process_item flt e req dev s w = (r, w')"
  shows "r_uuid r = s_uuid s"
proof (cases "reaches_transaction flt s w")
  case False
  with assms show ?thesis
    by (auto simp: process_item_def sync_item_def seq_def query_def select_submission_ids_def
        select_templates_def select_versions_def getConnection_def ret_def
        reaches_transaction_def error_result_def skipped_result_def
        split: option.splits sum.splits prod.splits if_splits)
next
  case True
  let ?c = "\<lparr>pending = None, released = 0\<rparr>"
  obtain r0 w0 h0 where t: "sync_transaction flt e req dev s (w, PoolConnection ?c) = (r0, (w0, h0))"
    by (metis prod.exhaust)
  note v = process_item_via_transaction [OF True t]
  from sync_transaction_cases [OF t] v assms show ?thesis
    by (elim disjE exE conjE) (auto simp: error_result_def success_result_def)
qed

lemma sync_loop_tally:
  "sync_loop flts e req dev i ss t w = (t', w') \<Longrightarrow>
     \<exists>rs. results t' = results t @ rs \<and> map r_uuid rs = map s_uuid ss
       \<and> syncedCount t' = syncedCount t + length (filter (\<lambda>r. r_status r = ''success'') rs)
       \<and> errorCount t' = errorCount t + length (filter (\<lambda>r. r_status r = ''error'') rs)"
proof (induction ss arbitrary: i t w)
  case Nil
  then show ?case by simp
next
  case (Cons s ss)
  obtain r w1 where p: "process_item (flts i) e req dev s w = (r, w1)" by (metis prod.exhaust)
  with Cons.prems have "sync_loop flts e req dev (Suc i) ss (push_result r t) w1 = (t', w')"
    by simp
  from Cons.IH [OF this] obtain rs where
    rs: "results t' = results (push_result r t) @ rs" "map r_uuid rs = map s_uuid ss"
      "syncedCount t' = syncedCount (push_result r t) + length (filter (\<lambda>r. r_status r = ''success'') rs)"
      "errorCount t' = errorCount (push_result r t) + length (filter (\<lambda>r. r_status r = ''error'') rs)"
    by (elim exE conjE)
  have "results t' = results t @ (r # rs) \<and> map r_uuid (r # rs) = map s_uuid (s # ss)
       \<and> syncedCount t' = syncedCount t + length (filter (\<lambda>r. r_status r = ''success'') (r # rs))
       \<and> errorCount t' = errorCount t + length (filter (\<lambda>r. r_status r = ''error'') (r # rs))"
    using rs process_item_uuid [OF p] by (simp add: push_result_def)
  then show ?case by (rule exI)
qed

lemma syncSubmissions_tally:
  assumes "syncSubmissions flt flts e req body w = (Json 200 d, w')"
    and "b_submissions body = Some subs" and "subs \<noteq> []"
  shows "map r_uuid (sd_results d) = map s_uuid subs
       \<and> synced d = length (filter (\<lambda>r. r_status r = ''success'') (sd_results d))
       \<and> errors d = length (filter (\<lambda>r. r_status r = ''error'') (sd_results d))"
proof -
  let ?dev = "the (b_deviceId body)"
  let ?t0 = "\<lparr>results = [], syncedCount = 0, errorCount = 0\<rparr>"
  from assms obtain w0 where q: "query flt UpdUser (update_user_device ?dev (now e) (user_id req)) w = (Inr (), w0)"
    by (auto simp: syncSubmissions_def Let_def split: if_splits prod.splits sum.splits)
  obtain t1 w1 where l: "sync_loop flts e req ?dev 0 subs ?t0 w0 = (t1, w1)" by (metis prod.exhaust)
  from assms q l have d: "d = \<lparr>sd_message = None, synced = syncedCount t1, errors = errorCount t1,
                             sd_results = results t1\<rparr>"
    by (auto simp: syncSubmissions_def Let_def split: if_splits)
  from sync_loop_tally [OF l] d show ?thesis by auto
qed

lemma process_item_version_missing:
  assumes "flt SelExisting = None" "flt SelTemplate = None" "flt SelVersion = None"
    and "filter (\<lambda>r. fs_uuid r = s_uuid s) (form_submissions (db w)) = []"
    and "filter (\<lambda>r. ft_id r = s_formTemplateId s) (form_templates (db w)) \<noteq> []"
    and "filter (\<lambda>r. ftv_form_template_id r = s_formTemplateId s
                     \<and> ftv_version r = s_formTemplateVersion s) (form_template_versions (db w)) = []"
  shows "process_item flt e req dev s w = (error_result s ''Form template version not found'', w)"
  using assms
  by (simp add: process_item_def sync_item_def seq_def query_def select_submission_ids_def
      select_templates_def select_versions_def ret_def)

lemma process_item_ingest:
  assumes f: "\<And>st. flt st = None" and i: "ingestible e s (db w)"
  shows "\<exists>w'. process_item flt e req dev s w = (success_result s (next_submission_id (db w)), w')
      \<and> form_submissions (db w') = form_submissions (db w) @
           [(sync_submission_row e req s (next_s3_object_id (db w)))\<lparr>fs_id := next_submission_id (db w)\<rparr>]
      \<and> sync_queue (db w') = sync_queue (db w) @
           [(completed_entry e req dev s (next_submission_id (db w)))\<lparr>sq_id := next_queue_id (db w)\<rparr>]
      \<and> form_templates (db w') = form_templates (db w)
      \<and> form_template_versions (db w') = form_template_versions (db w)
      \<and> (\<exists>orow. s3_objects (db w') = s3_objects (db w) @ [orow]
           \<and> so_bucket_name orow = submissionsBucket e
           \<and> so_object_key_hash orow = sha256 e (submission_key (s_formTemplateId s) (s_uuid s)))"
proof -
  from f i have rt: "reaches_transaction flt s w"
    by (simp add: reaches_transaction_def ingestible_def)
  from i have o: "filter (same_object (submissionsBucket e)
            (sha256 e (submission_key (s_formTemplateId s) (s_uuid s)))) (s3_objects (db w)) = []"
    by (simp add: ingestible_def)
  from process_item_success [OF rt f o, of req dev] obtain w1 d1 where
    sw: "sync_writes flt e req dev s (w, db w) = (Inr (next_submission_id (db w)), (w1, d1))"
    and p: "process_item flt e req dev s w = (success_result s (next_submission_id (db w)), w1\<lparr>db := d1\<rparr>)"
    by (elim exE conjE)
  note k = sync_writes_Inr [OF sw]
  show ?thesis
    apply (rule exI [of _ "w1\<lparr>db := d1\<rparr>"])
    apply (intro conjI)
         apply (rule p)
        apply (simp add: k(4))
       apply (simp add: k(5))
      apply (simp add: k(8))
     apply (simp add: k(9))
    using k(18) apply auto
    done
qed

lemma three_item_batch:
  assumes dev: "truthy_string (b_deviceId body)" and subs: "b_submissions body = Some [a, b, c]"
    and upd: "flt UpdUser = None"
    and f0: "\<And>st. flts 0 st = None" and f2: "\<And>st. flts 2 st = None"
    and f1: "flts 1 SelExisting = None" "flts 1 SelTemplate = None" "flts 1 SelVersion = None"
    and ia: "ingestible e a (db w)" and ic: "ingestible e c (db w)"
    and b: "filter (\<lambda>r. fs_uuid r = s_uuid b) (form_submissions (db w)) = []"
      "filter (\<lambda>r. ft_id r = s_formTemplateId b) (form_templates (db w)) \<noteq> []"
      "filter (\<lambda>r. ftv_form_template_id r = s_formTemplateId b
                     \<and> ftv_version r = s_formTemplateVersion b) (form_template_versions (db w)) = []"
    and ne: "s_uuid a \<noteq> s_uuid b" "s_uuid a \<noteq> s_uuid c"
      "sha256 e (submission_key (s_formTemplateId a) (s_uuid a))
         \<noteq> sha256 e (submission_key (s_formTemplateId c) (s_uuid c))"
  shows "\<exists>d w'. syncSubmissions flt flts e req body w = (Json 200 d, w')
      \<and> synced d = 2 \<and> errors d = 1
      \<and> map r_status (sd_results d) = [''success'', ''error'', ''success'']
      \<and> map fs_uuid (form_submissions (db w')) =
           map fs_uuid (form_submissions (db w)) @ [s_uuid a, s_uuid c]
      \<and> map (\<lambda>q. (sq_local_id q, sq_status q)) (sync_queue (db w')) =
           map (\<lambda>q. (sq_local_id q, sq_status q)) (sync_queue (db w))
             @ [(s_uuid a, ''completed''), (s_uuid c, ''completed'')]"
proof -
  let ?dev = "the (b_deviceId body)"
  let ?t0 = "\<lparr>results = [], syncedCount = 0, errorCount = 0\<rparr>"
  obtain w0 where q: "query flt UpdUser (update_user_device ?dev (now e) (user_id req)) w = (Inr (), w0)"
    and w0: "form_submissions (db w0) = form_submissions (db w)"
      "form_templates (db w0) = form_templates (db w)"
      "form_template_versions (db w0) = form_template_versions (db w)"
      "s3_objects (db w0) = s3_objects (db w)" "sync_queue (db w0) = sync_queue (db w)"
    using upd by (simp add: query_def update_user_device_def)
  from ia w0 have ia0: "ingestible e a (db w0)" by (simp add: ingestible_def)
  from process_item_ingest [where flt = "flts 0" and req = req and dev = ?dev, OF f0 ia0] obtain w1 orow where
    pa: "process_item (flts 0) e req ?dev a w0 = (success_result a (next_submission_id (db w0)), w1)"
    and a1: "form_submissions (db w1) = form_submissions (db w0) @
           [(sync_submission_row e req a (next_s3_object_id (db w0)))\<lparr>fs_id := next_submission_id (db w0)\<rparr>]"
    and a2: "sync_queue (db w1) = sync_queue (db w0) @
           [(completed_entry e req ?dev a (next_submission_id (db w0)))\<lparr>sq_id := next_queue_id (db w0)\<rparr>]"
    and a3: "form_templates (db w1) = form_templates (db w0)"
    and a4: "form_template_versions (db w1) = form_template_versions (db w0)"
    and a5: "s3_objects (db w1) = s3_objects (db w0) @ [orow]"
      "so_bucket_name orow = submissionsBucket e"
      "so_object_key_hash orow = sha256 e (submission_key (s_formTemplateId a) (s_uuid a))"
    by (elim exE conjE)
  have pb: "process_item (flts (Suc 0)) e req ?dev b w1 =
      (error_result b ''Form template version not found'', w1)"
    by (rule process_item_version_missing)
      (use f1 b ne w0 a1 a3 a4 in \<open>simp_all add: sync_submission_row_def Let_def\<close>)
  have ic1: "ingestible e c (db w1)"
    using ic ne w0 a1 a3 a4 a5
    by (simp add: ingestible_def sync_submission_row_def Let_def same_object_def)
  have f2': "\<And>st. flts (Suc (Suc 0)) st = None" using f2 by (simp add: numeral_2_eq_2)
  from process_item_ingest [where flt = "flts (Suc (Suc 0))" and req = req and dev = ?dev, OF f2' ic1] obtain w2 where
    pc: "process_item (flts (Suc (Suc 0))) e req ?dev c w1 = (success_result c (next_submission_id (db w1)), w2)"
    and c1: "form_submissions (db w2) = form_submissions (db w1) @
           [(sync_submission_row e req c (next_s3_object_id (db w1)))\<lparr>fs_id := next_submission_id (db w1)\<rparr>]"
    and c2: "sync_queue (db w2) = sync_queue (db w1) @
           [(completed_entry e req ?dev c (next_submission_id (db w1)))\<lparr>sq_id := next_queue_id (db w1)\<rparr>]"
    by (elim exE conjE)
  let ?rs = "[success_result a (next_submission_id (db w0)),
              error_result b ''Form template version not found'',
              success_result c (next_submission_id (db w1))]"
  have loop: "sync_loop flts e req ?dev 0 [a, b, c] ?t0 w0 =
      (\<lparr>results = ?rs, syncedCount = 2, errorCount = 1\<rparr>, w2)"
    by (simp add: pa pb pc push_result_def success_result_def error_result_def)
  have r: "syncSubmissions flt flts e req body w =
      (Json 200 \<lparr>sd_message = None, synced = 2, errors = 1, sd_results = ?rs\<rparr>, w2)"
    using dev subs q loop by (simp add: syncSubmissions_def Let_def)
  show ?thesis
    apply (rule exI [of _ "\<lparr>sd_message = None, synced = 2, errors = 1, sd_results = ?rs\<rparr>"])
    apply (rule exI [of _ w2])
    apply (intro conjI)
         apply (rule r)
        apply simp
       apply simp
      apply (simp add: success_result_def error_result_def)
     apply (simp add: c1 a1 w0 sync_submission_row_def Let_def)
    apply (simp add: c2 a2 w0 completed_entry_def)
    done
qed


lemma syncSubmissions_answers:
  assumes "truthy_string (b_deviceId body)" and "flt UpdUser = None"
    and "b_submissions body = Some subs" and "subs \<noteq> []"
  shows "\<exists>d w'. syncSubmissions flt flts e req body w = (Json 200 d, w')
       \<and> map r_uuid (sd_results d) = map s_uuid subs
       \<and> synced d = length (filter (\<lambda>r. r_status r = ''success'') (sd_results d))
       \<and> errors d = length (filter (\<lambda>r. r_status r = ''error'') (sd_results d))"
proof -
  let ?dev = "the (b_deviceId body)"
  let ?t0 = "\<lparr>results = [], syncedCount = 0, errorCount = 0\<rparr>"
  obtain w0 where q: "query flt UpdUser (update_user_device ?dev (now e) (user_id req)) w = (Inr (), w0)"
    using assms(2) by (simp add: query_def update_user_device_def)
  obtain t1 w1 where l: "sync_loop flts e req ?dev 0 subs ?t0 w0 = (t1, w1)" by (metis prod.exhaust)
  let ?d = "\<lparr>sd_message = None, synced = syncedCount t1, errors = errorCount t1,
             sd_results = results t1\<rparr>"
  have r: "syncSubmissions flt flts e req body w = (Json 200 ?d, w1)"
    using assms q l by (simp add: syncSubmissions_def Let_def)
  from syncSubmissions_tally [OF r assms(3,4)] r show ?thesis by blast
qed

text \<open>
  C5. Isolation across items. Whatever fails inside the items, a batch with a device
  identifier whose UPDATE of the user succeeds is answered with status 200 and exactly one
  result per input item, in input order, and the two counters count the \<open>success\<close> and the
  \<open>error\<close> results. An item whose result is not \<open>success\<close> leaves every table but the sync
  queue as it found it, so it takes nothing back that another item committed. In
  particular, in a batch of three items with distinct client identifiers, in which the
  first and the third can be ingested and meet no fault and the second names a version that
  does not exist, the answer has synced = 2 and errors = 1, and the submissions and
  completed queue entries of the first and the third item are stored.
\<close>

theorem sync_items_isolated:
  "(truthy_string (b_deviceId body) \<and> flt UpdUser = None
      \<and> b_submissions body = Some subs \<and> subs \<noteq> [] \<longrightarrow>
    (\<exists>d w'. syncSubmissions flt flts e req body w = (Json 200 d, w')
       \<and> map r_uuid (sd_results d) = map s_uuid subs
       \<and> synced d = length (filter (\<lambda>r. r_status r = ''success'') (sd_results d))
       \<and> errors d = length (filter (\<lambda>r. r_status r = ''error'') (sd_results d))))
   \<and> (process_item flt1 e1 req1 dev1 s1 w1 = (r1, w2) \<and> r_status r1 \<noteq> ''success'' \<longrightarrow>
        only_queue_changed (db w1) (db w2))
   \<and> (truthy_string (b_deviceId body3) \<and> b_submissions body3 = Some [a, b, c]
      \<and> flt3 UpdUser = None \<and> (\<forall>st. flts3 0 st = None) \<and> (\<forall>st. flts3 2 st = None)
      \<and> flts3 1 SelExisting = None \<and> flts3 1 SelTemplate = None \<and> flts3 1 SelVersion = None
      \<and> ingestible e3 a (db w3) \<and> ingestible e3 c (db w3)
      \<and> filter (\<lambda>r. fs_uuid r = s_uuid b) (form_submissions (db w3)) = []
      \<and> filter (\<lambda>r. ft_id r = s_formTemplateId b) (form_templates (db w3)) \<noteq> []
      \<and> filter (\<lambda>r. ftv_form_template_id r = s_formTemplateId b
                     \<and> ftv_version r = s_formTemplateVersion b) (form_template_versions (db w3)) = []
      \<and> s_uuid a \<noteq> s_uuid b \<and> s_uuid a \<noteq> s_uuid c
      \<and> sha256 e3 (submission_key (s_formTemplateId a) (s_uuid a))
         \<noteq> sha256 e3 (submission_key (s_formTemplateId c) (s_uuid c)) \<longrightarrow>
    (\<exists>d w'. syncSubmissions flt3 flts3 e3 req3 body3 w3 = (Json 200 d, w')
      \<and> synced d = 2 \<and> errors d = 1
      \<and> map r_status (sd_results d) = [''success'', ''error'', ''success'']
      \<and> map fs_uuid (form_submissions (db w')) =
           map fs_uuid (form_submissions (db w3)) @ [s_uuid a, s_uuid c]
      \<and> map (\<lambda>q. (sq_local_id q, sq_status q)) (sync_queue (db w')) =
           map (\<lambda>q. (sq_local_id q, sq_status q)) (sync_queue (db w3))
             @ [(s_uuid a, ''completed''), (s_uuid c, ''completed'')]))"
proof (intro conjI impI)
  assume "truthy_string (b_deviceId body) \<and> flt UpdUser = None
      \<and> b_submissions body = Some subs \<and> subs \<noteq> []"
  then show "\<exists>d w'. syncSubmissions flt flts e req body w = (Json 200 d, w')
       \<and> map r_uuid (sd_results d) = map s_uuid subs
       \<and> synced d = length (filter (\<lambda>r. r_status r = ''success'') (sd_results d))
       \<and> errors d = length (filter (\<lambda>r. r_status r = ''error'') (sd_results d))"
    by (intro syncSubmissions_answers) simp_all
next
  assume "process_item flt1 e1 req1 dev1 s1 w1 = (r1, w2) \<and> r_status r1 \<noteq> ''success''"
  then have p: "process_item flt1 e1 req1 dev1 s1 w1 = (r1, w2)" and n: "r_status r1 \<noteq> ''success''"
    by simp_all
  from process_item_cases [OF p] n show "only_queue_changed (db w1) (db w2)"
    by (auto simp: success_result_def)
next
  assume h: "truthy_string (b_deviceId body3) \<and> b_submissions body3 = Some [a, b, c]
      \<and> flt3 UpdUser = None \<and> (\<forall>st. flts3 0 st = None) \<and> (\<forall>st. flts3 2 st = None)
      \<and> flts3 1 SelExisting = None \<and> flts3 1 SelTemplate = None \<and> flts3 1 SelVersion = None
      \<and> ingestible e3 a (db w3) \<and> ingestible e3 c (db w3)
      \<and> filter (\<lambda>r. fs_uuid r = s_uuid b) (form_submissions (db w3)) = []
      \<and> filter (\<lambda>r. ft_id r = s_formTemplateId b) (form_templates (db w3)) \<noteq> []
      \<and> filter (\<lambda>r. ftv_form_template_id r = s_formTemplateId b
                     \<and> ftv_version r = s_formTemplateVersion b) (form_template_versions (db w3)) = []
      \<and> s_uuid a \<noteq> s_uuid b \<and> s_uuid a \<noteq> s_uuid c
      \<and> sha256 e3 (submission_key (s_formTemplateId a) (s_uuid a))
         \<noteq> sha256 e3 (submission_key (s_formTemplateId c) (s_uuid c))"
  show "\<exists>d w'. syncSubmissions flt3 flts3 e3 req3 body3 w3 = (Json 200 d, w')
      \<and> synced d = 2 \<and> errors d = 1
      \<and> map r_status (sd_results d) = [''success'', ''error'', ''success'']
      \<and> map fs_uuid (form_submissions (db w')) =
           map fs_uuid (form_submissions (db w3)) @ [s_uuid a, s_uuid c]
      \<and> map (\<lambda>q. (sq_local_id q, sq_status q)) (sync_queue (db w')) =
           map (\<lambda>q. (sq_local_id q, sq_status q)) (sync_queue (db w3))
             @ [(s_uuid a, ''completed''), (s_uuid c, ''completed'')]"
    by (rule three_item_batch) (insert h, blast)+
qed

theorem sync_items_isolated_witness:
  "(case fst (syncSubmissions no_faults (\<lambda>i. no_faults) env0 req0 body0 world0) of
      Json code d \<Rightarrow> code = 200 \<and> synced d = 2 \<and> errors d = 1
          \<and> map r_status (sd_results d) = [''success'', ''error'', ''success'']
          \<and> map r_uuid (sd_results d) = [''a1'', ''a2'', ''a3'']
    | Next err \<Rightarrow> False)
   \<and> map fs_uuid (form_submissions (db (snd
        (syncSubmissions no_faults (\<lambda>i. no_faults) env0 req0 body0 world0)))) = [''a1'', ''a3'']
   \<and> only_queue_changed (db world0) (db (snd
        (process_item no_faults env0 req0 ''dev-1'' (item ''a2'' 99 ''submitted'') world0)))"
proof -
  let ?a = "item ''a1'' 1 ''submitted''" and ?b = "item ''a2'' 99 ''submitted''"
    and ?c = "item ''a3'' 1 ''draft''"
  have h3: "truthy_string (b_deviceId body0) \<and> b_submissions body0 = Some [?a, ?b, ?c]
      \<and> no_faults UpdUser = None \<and> (\<forall>st. (\<lambda>i. no_faults) 0 st = None)
      \<and> (\<forall>st. (\<lambda>i. no_faults) 2 st = None)
      \<and> (\<lambda>i. no_faults) 1 SelExisting = None \<and> (\<lambda>i. no_faults) 1 SelTemplate = None
      \<and> (\<lambda>i. no_faults) 1 SelVersion = None
      \<and> ingestible env0 ?a (db world0) \<and> ingestible env0 ?c (db world0)
      \<and> filter (\<lambda>r. fs_uuid r = s_uuid ?b) (form_submissions (db world0)) = []
      \<and> filter (\<lambda>r. ft_id r = s_formTemplateId ?b) (form_templates (db world0)) \<noteq> []
      \<and> filter (\<lambda>r. ftv_form_template_id r = s_formTemplateId ?b
                     \<and> ftv_version r = s_formTemplateVersion ?b) (form_template_versions (db world0)) = []
      \<and> s_uuid ?a \<noteq> s_uuid ?b \<and> s_uuid ?a \<noteq> s_uuid ?c
      \<and> sha256 env0 (submission_key (s_formTemplateId ?a) (s_uuid ?a))
         \<noteq> sha256 env0 (submission_key (s_formTemplateId ?c) (s_uuid ?c))"
    by (simp add: body0_def truthy_string_def no_faults_def ingestible_def item_def env0_def
        world0_def db0_def submission_key_5)
  from sync_items_isolated [where ?body3.0 = body0 and a = ?a and b = ?b and c = ?c
      and ?flt3.0 = no_faults and ?flts3.0 = "\<lambda>i. no_faults" and ?e3.0 = env0 and ?w3.0 = world0
      and ?req3.0 = req0, THEN conjunct2, THEN conjunct2, THEN mp, OF h3]
  obtain d w' where
    r: "syncSubmissions no_faults (\<lambda>i. no_faults) env0 req0 body0 world0 = (Json 200 d, w')"
    and k: "synced d = 2" "errors d = 1"
      "map r_status (sd_results d) = [''success'', ''error'', ''success'']"
      "map fs_uuid (form_submissions (db w')) =
           map fs_uuid (form_submissions (db world0)) @ [s_uuid ?a, s_uuid ?c]"
    by (elim exE conjE)
  have h1: "truthy_string (b_deviceId body0) \<and> no_faults UpdUser = None
      \<and> b_submissions body0 = Some [?a, ?b, ?c] \<and> [?a, ?b, ?c] \<noteq> []"
    by (simp add: body0_def truthy_string_def no_faults_def)
  from sync_items_isolated [where body = body0 and flt = no_faults and subs = "[?a, ?b, ?c]"
      and flts = "\<lambda>i. no_faults" and e = env0 and req = req0 and w = world0,
      THEN conjunct1, THEN mp, OF h1] r
  have u: "map r_uuid (sd_results d) = map s_uuid [?a, ?b, ?c]" by auto
  have pb: "process_item no_faults env0 req0 ''dev-1'' ?b world0 =
      (error_result ?b ''Form template version not found'', world0)"
    by (rule process_item_version_missing)
      (simp_all add: no_faults_def item_def world0_def db0_def)
  have h2: "process_item no_faults env0 req0 ''dev-1'' ?b world0 =
      (error_result ?b ''Form template version not found'', world0)
      \<and> r_status (error_result ?b ''Form template version not found'') \<noteq> ''success''"
    using pb by (simp add: error_result_def)
  note o = sync_items_isolated [where ?flt1.0 = no_faults and ?e1.0 = env0 and ?req1.0 = req0
      and ?dev1.0 = "''dev-1''" and ?s1.0 = ?b and ?w1.0 = world0 and ?w2.0 = world0
      and ?r1.0 = "error_result ?b ''Form template version not found''",
      THEN conjunct2, THEN conjunct1, THEN mp, OF h2]
  from r have f: "fst (syncSubmissions no_faults (\<lambda>i. no_faults) env0 req0 body0 world0) = Json 200 d"
    and s: "snd (syncSubmissions no_faults (\<lambda>i. no_faults) env0 req0 body0 world0) = w'"
    by simp_all
  from pb have sb: "snd (process_item no_faults env0 req0 ''dev-1'' ?b world0) = world0" by simp
  show ?thesis unfolding f s sb using k u o
    by (simp add: item_def world0_def db0_def)
qed

lemma process_item_not_reaching:
  assumes "\<not> reaches_transaction flt s w"
  shows "snd (process_item flt e req dev s w) = w"
  using assms
  by (auto simp: process_item_def sync_item_def seq_def query_def select_submission_ids_def
        select_templates_def select_versions_def getConnection_def ret_def
        reaches_transaction_def error_result_def skipped_result_def
        split: option.splits sum.splits prod.splits if_splits)

lemma reaches_transaction_world0:
  "flt SelExisting = None \<Longrightarrow> flt SelTemplate = None \<Longrightarrow> flt SelVersion = None
     \<Longrightarrow> flt GetConn = None \<Longrightarrow> reaches_transaction flt (item u 1 status) world0"
  by (simp add: reaches_transaction_def item_def world0_def db0_def)

lemma not_reaching_a2: "\<not> reaches_transaction flt (item u 99 status) world0"
  by (simp add: reaches_transaction_def item_def world0_def db0_def)

lemma no_collision_world0:
  "filter (same_object (submissionsBucket e)
      (sha256 e (submission_key (s_formTemplateId s) (s_uuid s)))) (s3_objects (db world0)) = []"
  by (simp add: world0_def db0_def)

lemma tx_steps_item: "tx_steps (item u v status) =
    [Begin, S3Put, InsObject, InsSubmission, InsLog, InsQueueCompleted, Commit]"
  by (simp add: tx_steps_def file_steps_def item_def)

lemma process_item_completed_exact:
  assumes rt: "reaches_transaction flt s w"
    and f: "\<forall>st\<in>set (tx_steps s). flt st = None"
    and o: "filter (same_object (submissionsBucket e)
            (sha256 e (submission_key (s_formTemplateId s) (s_uuid s)))) (s3_objects (db w)) = []"
  shows "sync_writes flt e req dev s (w, db w) =
       (Inr (next_submission_id (db w)),
        (w\<lparr>s3_sent := s3_sent w @ [PutObject (submissionsBucket e)
            (submission_key (s_formTemplateId s) (s_uuid s)) (s_data s) ''application/json'']\<rparr>,
         ingested e req dev s (db w)))"
    and "process_item flt e req dev s w =
     (\<lparr>r_uuid = s_uuid s, r_status = ''success'', r_message = ''Submission synced successfully'',
       r_serverId = Some (next_submission_id (db w))\<rparr>,
      w\<lparr>s3_sent := s3_sent w @ [PutObject (submissionsBucket e)
            (submission_key (s_formTemplateId s) (s_uuid s)) (s_data s) ''application/json''],
        db := ingested e req dev s (db w)\<rparr>)"
proof -
  from f have f': "\<And>st. st \<in> set (tx_steps s) \<Longrightarrow> flt st = None" by blast
  then have g: "flt S3Put = None" "flt InsObject = None" "flt InsSubmission = None"
    "flt InsLog = None" "flt InsQueueCompleted = None"
    "\<And>st. st \<in> set (file_steps (s_files s)) \<Longrightarrow> flt st = None"
    by (simp_all add: tx_steps_def)
  from rt have u: "filter (\<lambda>r. fs_uuid r = s_uuid s) (form_submissions (db w)) = []"
    by (simp add: reaches_transaction_def)
  show "sync_writes flt e req dev s (w, db w) =
       (Inr (next_submission_id (db w)),
        (w\<lparr>s3_sent := s3_sent w @ [PutObject (submissionsBucket e)
            (submission_key (s_formTemplateId s) (s_uuid s)) (s_data s) ''application/json'']\<rparr>,
         ingested e req dev s (db w)))"
    by (rule sync_writes_exact [where flt = flt and s = s])
      (rule g(1), rule g(2), rule g(3), rule g(4), rule g(5), rule g(6), assumption, rule o, rule u)
  show "process_item flt e req dev s w =
     (\<lparr>r_uuid = s_uuid s, r_status = ''success'', r_message = ''Submission synced successfully'',
       r_serverId = Some (next_submission_id (db w))\<rparr>,
      w\<lparr>s3_sent := s3_sent w @ [PutObject (submissionsBucket e)
            (submission_key (s_formTemplateId s) (s_uuid s)) (s_data s) ''application/json''],
        db := ingested e req dev s (db w)\<rparr>)"
    by (rule process_item_exact [where flt = flt and s = s]) (rule rt, rule f', assumption, rule o)
qed

text \<open>
  C6, as the code has it. Every attempt falls under one of four cases.
  \<^item> An item that does not get as far as its transaction (it is a duplicate, or its template
    or version is missing, or a SELECT or the checkout fails) leaves the world, and so the
    sync queue, as it was: no entry is written for it.
  \<^item> An item whose \<open>try\<close> block meets no fault and no constraint violation inserts its
    \<open>completed\<close> entry, with the new submission's identifier, through the connection: the
    statements between \<open>beginTransaction\<close> and \<open>commit\<close> leave the stored database as it was
    and put the entry into the working copy of the item's own transaction, and the entry
    is stored by that transaction's \<open>commit\<close>, together with the submission.
  \<^item> An item whose \<open>try\<close> block fails with the error \<open>err\<close>, while \<open>rollback\<close> and the INSERT of
    the failed entry succeed, leaves exactly one new entry: status \<open>failed\<close>, no server
    identifier, the message of \<open>err\<close>; it is inserted outside the transaction, after the
    rollback, and nothing else of the database changes.
  \<^item> An item whose \<open>try\<close> block fails and whose \<open>rollback\<close> or INSERT of the failed entry fails
    too leaves no entry.

  The \<open>try\<close> block fails whenever one of its calls raises, and also, with no call raising,
  when the ledger already holds an object record for the item's payload key.
\<close>

theorem sync_queue_entry_per_attempt:
  "(\<not> reaches_transaction flt s w \<longrightarrow> snd (process_item flt e req dev s w) = w)
   \<and> (reaches_transaction flt s w \<and> (\<forall>st\<in>set (tx_steps s). flt st = None)
       \<and> filter (same_object (submissionsBucket e)
            (sha256 e (submission_key (s_formTemplateId s) (s_uuid s)))) (s3_objects (db w)) = []
      \<longrightarrow>
      (\<exists>w1 d1. sync_writes flt e req dev s (w, db w) = (Inr (next_submission_id (db w)), (w1, d1))
        \<and> db w1 = db w
        \<and> sync_queue d1 = sync_queue (db w) @
             [\<lparr>sq_id = next_queue_id (db w), sq_user_id = user_id req, sq_device_id = dev,
               sq_entity_type = ''form_submissions'', sq_operation = ''create'',
               sq_local_id = s_uuid s, sq_server_id = Some (next_submission_id (db w)),
               sq_data = JObject [(''uuid'', JString (s_uuid s)),
                                  (''form_template_id'', JNumber (s_formTemplateId s)),
                                  (''status'', JString (s_status s))],
               sq_status = ''completed'', sq_error_message = None,
               sq_retry_count = 0, sq_created_at = now e, sq_updated_at = now e\<rparr>]
        \<and> map fs_id (filter (\<lambda>x. fs_uuid x = s_uuid s) (form_submissions d1))
             = [next_submission_id (db w)]
        \<and> process_item flt e req dev s w =
             (\<lparr>r_uuid = s_uuid s, r_status = ''success'',
               r_message = ''Submission synced successfully'',
               r_serverId = Some (next_submission_id (db w))\<rparr>, w1\<lparr>db := d1\<rparr>)))
   \<and> (reaches_transaction flt s w
       \<and> sync_try flt e req dev s (w, PoolConnection \<lparr>pending = None, released = 0\<rparr>)
            = (Inl err, (w1, h1))
       \<and> flt Rollback = None \<and> flt InsQueueFailed = None \<longrightarrow>
      db w1 = db w
      \<and> process_item flt e req dev s w =
          (\<lparr>r_uuid = s_uuid s, r_status = ''error'', r_message = ''Error: '' @ message err,
            r_serverId = None\<rparr>,
           w1\<lparr>db := (db w)\<lparr>sync_queue := sync_queue (db w) @
               [\<lparr>sq_id = next_queue_id (db w), sq_user_id = user_id req, sq_device_id = dev,
                 sq_entity_type = ''form_submissions'', sq_operation = ''create'',
                 sq_local_id = s_uuid s, sq_server_id = None,
                 sq_data = JObject [(''uuid'', JString (s_uuid s)),
                                    (''form_template_id'', JNumber (s_formTemplateId s)),
                                    (''status'', JString (s_status s))],
                 sq_status = ''failed'', sq_error_message = Some (message err),
                 sq_retry_count = 0, sq_created_at = now e, sq_updated_at = now e\<rparr>],
               next_queue_id := Suc (next_queue_id (db w))\<rparr>\<rparr>))
   \<and> (reaches_transaction flt s w
       \<and> sync_try flt e req dev s (w, PoolConnection \<lparr>pending = None, released = 0\<rparr>)
            = (Inl err, (w1, h1))
       \<and> (flt Rollback \<noteq> None \<or> flt InsQueueFailed \<noteq> None) \<longrightarrow>
      db w1 = db w \<and> snd (process_item flt e req dev s w) = w1)
   \<and> (st \<in> set (tx_steps s) \<and> flt st = Some m0 \<longrightarrow>
        (\<exists>err0 w0 h0. sync_try flt e req dev s (w, PoolConnection c) = (Inl err0, (w0, h0))))
   \<and> (flt Begin = None \<and> flt S3Put = None \<and> flt InsObject = None
        \<and> filter (same_object (submissionsBucket e)
              (sha256 e (submission_key (s_formTemplateId s) (s_uuid s)))) (s3_objects (db w)) \<noteq> []
      \<longrightarrow>
        sync_try flt e req dev s (w, PoolConnection c) =
          (Inl (DriverError ''Duplicate entry''),
           (w\<lparr>s3_sent := s3_sent w @ [PutObject (submissionsBucket e)
                 (submission_key (s_formTemplateId s) (s_uuid s)) (s_data s) ''application/json'']\<rparr>,
            PoolConnection (c\<lparr>pending := Some (db w)\<rparr>))))"
proof (intro conjI impI)
  assume "\<not> reaches_transaction flt s w"
  then show "snd (process_item flt e req dev s w) = w" by (rule process_item_not_reaching)
next
  assume a: "reaches_transaction flt s w \<and> (\<forall>st\<in>set (tx_steps s). flt st = None)
       \<and> filter (same_object (submissionsBucket e)
            (sha256 e (submission_key (s_formTemplateId s) (s_uuid s)))) (s3_objects (db w)) = []"
  then have rt: "reaches_transaction flt s w" and f: "\<forall>st\<in>set (tx_steps s). flt st = None"
    and o: "filter (same_object (submissionsBucket e)
            (sha256 e (submission_key (s_formTemplateId s) (s_uuid s)))) (s3_objects (db w)) = []"
    by blast+
  from rt have u: "filter (\<lambda>r. fs_uuid r = s_uuid s) (form_submissions (db w)) = []"
    by (simp add: reaches_transaction_def)
  let ?w1 = "w\<lparr>s3_sent := s3_sent w @ [PutObject (submissionsBucket e)
            (submission_key (s_formTemplateId s) (s_uuid s)) (s_data s) ''application/json'']\<rparr>"
  note k = process_item_completed_exact [OF rt f o, of req dev]
  have q: "sync_queue (ingested e req dev s (db w)) = sync_queue (db w) @
             [\<lparr>sq_id = next_queue_id (db w), sq_user_id = user_id req, sq_device_id = dev,
               sq_entity_type = ''form_submissions'', sq_operation = ''create'',
               sq_local_id = s_uuid s, sq_server_id = Some (next_submission_id (db w)),
               sq_data = JObject [(''uuid'', JString (s_uuid s)),
                                  (''form_template_id'', JNumber (s_formTemplateId s)),
                                  (''status'', JString (s_status s))],
               sq_status = ''completed'', sq_error_message = None,
               sq_retry_count = 0, sq_created_at = now e, sq_updated_at = now e\<rparr>]"
    by (simp add: ingested_def)
  have i: "map fs_id (filter (\<lambda>x. fs_uuid x = s_uuid s) (form_submissions (ingested e req dev s (db w))))
             = [next_submission_id (db w)]"
    using u by (simp add: ingested_def)
  have p: "process_item flt e req dev s w =
             (\<lparr>r_uuid = s_uuid s, r_status = ''success'',
               r_message = ''Submission synced successfully'',
               r_serverId = Some (next_submission_id (db w))\<rparr>, ?w1\<lparr>db := ingested e req dev s (db w)\<rparr>)"
    using k(2) by simp
  have s: "db ?w1 = db w" by simp
  show "\<exists>w1 d1. sync_writes flt e req dev s (w, db w) = (Inr (next_submission_id (db w)), (w1, d1))
        \<and> db w1 = db w
        \<and> sync_queue d1 = sync_queue (db w) @
             [\<lparr>sq_id = next_queue_id (db w), sq_user_id = user_id req, sq_device_id = dev,
               sq_entity_type = ''form_submissions'', sq_operation = ''create'',
               sq_local_id = s_uuid s, sq_server_id = Some (next_submission_id (db w)),
               sq_data = JObject [(''uuid'', JString (s_uuid s)),
                                  (''form_template_id'', JNumber (s_formTemplateId s)),
                                  (''status'', JString (s_status s))],
               sq_status = ''completed'', sq_error_message = None,
               sq_retry_count = 0, sq_created_at = now e, sq_updated_at = now e\<rparr>]
        \<and> map fs_id (filter (\<lambda>x. fs_uuid x = s_uuid s) (form_submissions d1))
             = [next_submission_id (db w)]
        \<and> process_item flt e req dev s w =
             (\<lparr>r_uuid = s_uuid s, r_status = ''success'',
               r_message = ''Submission synced successfully'',
               r_serverId = Some (next_submission_id (db w))\<rparr>, w1\<lparr>db := d1\<rparr>)"
    by (rule exI [where x = ?w1], rule exI [where x = "ingested e req dev s (db w)"])
      (intro conjI, rule k(1), rule s, rule q, rule i, rule p)
next
  assume a: "reaches_transaction flt s w
       \<and> sync_try flt e req dev s (w, PoolConnection \<lparr>pending = None, released = 0\<rparr>)
            = (Inl err, (w1, h1))
       \<and> flt Rollback = None \<and> flt InsQueueFailed = None"
  then have rt: "reaches_transaction flt s w"
    and t: "sync_try flt e req dev s (w, PoolConnection \<lparr>pending = None, released = 0\<rparr>)
            = (Inl err, (w1, h1))"
    and ok: "flt Rollback = None" "flt InsQueueFailed = None" by simp_all
  from sync_try_Inl_handle [OF t] show "db w1 = db w" by blast
  from process_item_after_failure [OF rt t] ok
  show "process_item flt e req dev s w =
          (\<lparr>r_uuid = s_uuid s, r_status = ''error'', r_message = ''Error: '' @ message err,
            r_serverId = None\<rparr>,
           w1\<lparr>db := (db w)\<lparr>sync_queue := sync_queue (db w) @
               [\<lparr>sq_id = next_queue_id (db w), sq_user_id = user_id req, sq_device_id = dev,
                 sq_entity_type = ''form_submissions'', sq_operation = ''create'',
                 sq_local_id = s_uuid s, sq_server_id = None,
                 sq_data = JObject [(''uuid'', JString (s_uuid s)),
                                    (''form_template_id'', JNumber (s_formTemplateId s)),
                                    (''status'', JString (s_status s))],
                 sq_status = ''failed'', sq_error_message = Some (message err),
                 sq_retry_count = 0, sq_created_at = now e, sq_updated_at = now e\<rparr>],
               next_queue_id := Suc (next_queue_id (db w))\<rparr>\<rparr>)"
    by (simp add: failed_attempt_def)
next
  assume a: "reaches_transaction flt s w
       \<and> sync_try flt e req dev s (w, PoolConnection \<lparr>pending = None, released = 0\<rparr>)
            = (Inl err, (w1, h1))
       \<and> (flt Rollback \<noteq> None \<or> flt InsQueueFailed \<noteq> None)"
  then have rt: "reaches_transaction flt s w"
    and t: "sync_try flt e req dev s (w, PoolConnection \<lparr>pending = None, released = 0\<rparr>)
            = (Inl err, (w1, h1))"
    and no: "flt Rollback \<noteq> None \<or> flt InsQueueFailed \<noteq> None" by simp_all
  from sync_try_Inl_handle [OF t] show "db w1 = db w" by blast
  from process_item_after_failure [OF rt t] no
  show "snd (process_item flt e req dev s w) = w1"
    by (auto split: option.splits)
next
  assume "st \<in> set (tx_steps s) \<and> flt st = Some m0"
  then show "\<exists>err0 w0 h0. sync_try flt e req dev s (w, PoolConnection c) = (Inl err0, (w0, h0))"
    using sync_try_faulty [of st s flt m0 e req dev w c] by blast
next
  assume "flt Begin = None \<and> flt S3Put = None \<and> flt InsObject = None
        \<and> filter (same_object (submissionsBucket e)
              (sha256 e (submission_key (s_formTemplateId s) (s_uuid s)))) (s3_objects (db w)) \<noteq> []"
  then show "sync_try flt e req dev s (w, PoolConnection c) =
          (Inl (DriverError ''Duplicate entry''),
           (w\<lparr>s3_sent := s3_sent w @ [PutObject (submissionsBucket e)
                 (submission_key (s_formTemplateId s) (s_uuid s)) (s_data s) ''application/json'']\<rparr>,
            PoolConnection (c\<lparr>pending := Some (db w)\<rparr>)))"
    using sync_try_duplicate [of flt e s w req dev c] by blast
qed

theorem sync_queue_entry_per_attempt_witness:
  "snd (process_item no_faults env0 req0 ''dev-1'' (item ''a2'' 99 ''submitted'') world0) = world0
   \<and> sync_queue (db (snd
        (process_item no_faults env0 req0 ''dev-1'' (item ''a1'' 1 ''submitted'') world0)))
      = [\<lparr>sq_id = 1, sq_user_id = 7, sq_device_id = ''dev-1'',
          sq_entity_type = ''form_submissions'', sq_operation = ''create'',
          sq_local_id = ''a1'', sq_server_id = Some 1,
          sq_data = JObject [(''uuid'', JString ''a1''), (''form_template_id'', JNumber 5),
                             (''status'', JString ''submitted'')],
          sq_status = ''completed'', sq_error_message = None,
          sq_retry_count = 0, sq_created_at = 1000, sq_updated_at = 1000\<rparr>]
   \<and> sync_queue (db (snd
        (process_item no_faults env0 req0 ''dev-1'' (item ''a1'' 1 ''submitted'') world_o)))
      = [\<lparr>sq_id = 1, sq_user_id = 7, sq_device_id = ''dev-1'',
          sq_entity_type = ''form_submissions'', sq_operation = ''create'',
          sq_local_id = ''a1'', sq_server_id = None,
          sq_data = JObject [(''uuid'', JString ''a1''), (''form_template_id'', JNumber 5),
                             (''status'', JString ''submitted'')],
          sq_status = ''failed'', sq_error_message = Some ''Duplicate entry'',
          sq_retry_count = 0, sq_created_at = 1000, sq_updated_at = 1000\<rparr>]
   \<and> sync_queue (db (snd
        (process_item (no_faults(Commit := Some ''commit failed'', InsQueueFailed := Some ''queue down''))
           env0 req0 ''dev-1'' (item ''a1'' 1 ''submitted'') world0)))
      = []"
proof -
  let ?c0 = "\<lparr>pending = None, released = 0\<rparr>"
  let ?a = "item ''a1'' 1 ''submitted''" and ?b = "item ''a2'' 99 ''submitted''"
  let ?flc = "no_faults(Commit := Some ''commit failed'', InsQueueFailed := Some ''queue down'')"
  let ?P = "process_item no_faults env0 req0 ''dev-1'' ?a world0"
  let ?Q = "process_item no_faults env0 req0 ''dev-1'' ?a world_o"
  let ?R = "process_item ?flc env0 req0 ''dev-1'' ?a world0"
  note ea = item_sel
  have 1: "snd (process_item no_faults env0 req0 ''dev-1'' ?b world0) = world0"
    by (rule sync_queue_entry_per_attempt [where flt = no_faults and s = ?b and w = world0,
          THEN conjunct1, THEN mp]) (rule not_reaching_a2)
  \<comment> \<open>success\<close>
  have h2: "reaches_transaction no_faults ?a world0 \<and> (\<forall>st\<in>set (tx_steps ?a). no_faults st = None)
       \<and> filter (same_object (submissionsBucket env0)
            (sha256 env0 (submission_key (s_formTemplateId ?a) (s_uuid ?a)))) (s3_objects (db world0)) = []"
    by (simp add: reaches_transaction_world0 [unfolded One_nat_def] no_faults_None no_collision_world0)
  from sync_queue_entry_per_attempt [where flt = no_faults and s = ?a and w = world0 and e = env0
      and req = req0 and dev = "''dev-1''", THEN conjunct2, THEN conjunct1, THEN mp, OF h2]
  obtain w1 d1 where
    q: "sync_queue d1 = sync_queue (db world0) @
             [\<lparr>sq_id = next_queue_id (db world0), sq_user_id = user_id req0, sq_device_id = ''dev-1'',
               sq_entity_type = ''form_submissions'', sq_operation = ''create'',
               sq_local_id = s_uuid ?a, sq_server_id = Some (next_submission_id (db world0)),
               sq_data = JObject [(''uuid'', JString (s_uuid ?a)),
                                  (''form_template_id'', JNumber (s_formTemplateId ?a)),
                                  (''status'', JString (s_status ?a))],
               sq_status = ''completed'', sq_error_message = None,
               sq_retry_count = 0, sq_created_at = now env0, sq_updated_at = now env0\<rparr>]"
    and p: "?P = (\<lparr>r_uuid = s_uuid ?a, r_status = ''success'',
               r_message = ''Submission synced successfully'',
               r_serverId = Some (next_submission_id (db world0))\<rparr>, w1\<lparr>db := d1\<rparr>)"
    by (elim exE conjE)
  from p have s2: "snd ?P = w1\<lparr>db := d1\<rparr>" by simp
  have 2: "sync_queue (db (snd ?P))
      = [\<lparr>sq_id = 1, sq_user_id = 7, sq_device_id = ''dev-1'',
          sq_entity_type = ''form_submissions'', sq_operation = ''create'',
          sq_local_id = ''a1'', sq_server_id = Some 1,
          sq_data = JObject [(''uuid'', JString ''a1''), (''form_template_id'', JNumber 5),
                             (''status'', JString ''submitted'')],
          sq_status = ''completed'', sq_error_message = None,
          sq_retry_count = 0, sq_created_at = 1000, sq_updated_at = 1000\<rparr>]"
    unfolding s2 using q by (simp add: ea world0_def db0_def req0_def env0_def)
  \<comment> \<open>no call fails, the ledger holds the payload key\<close>
  have rq: "reaches_transaction no_faults ?a world_o"
    by (rule reaches_transaction_world_o) (simp_all add: no_faults_def)
  have dup: "no_faults Begin = None \<and> no_faults S3Put = None \<and> no_faults InsObject = None
        \<and> filter (same_object (submissionsBucket env0)
              (sha256 env0 (submission_key (s_formTemplateId ?a) (s_uuid ?a)))) (s3_objects (db world_o)) \<noteq> []"
    by (simp add: no_faults_def ea submission_key_5 env0_def world_o_def object0_def same_object_def)
  note tq = sync_queue_entry_per_attempt [where flt = no_faults and s = ?a and w = world_o
      and e = env0 and req = req0 and dev = "''dev-1''" and c = ?c0,
      THEN conjunct2, THEN conjunct2, THEN conjunct2, THEN conjunct2, THEN conjunct2, THEN mp, OF dup]
  have hq: "reaches_transaction no_faults ?a world_o
      \<and> sync_try no_faults env0 req0 ''dev-1'' ?a (world_o, PoolConnection ?c0)
           = (Inl (DriverError ''Duplicate entry''),
           (world_o\<lparr>s3_sent := s3_sent world_o @ [PutObject (submissionsBucket env0)
                 (submission_key (s_formTemplateId ?a) (s_uuid ?a)) (s_data ?a) ''application/json'']\<rparr>,
            PoolConnection (?c0\<lparr>pending := Some (db world_o)\<rparr>)))
      \<and> no_faults Rollback = None \<and> no_faults InsQueueFailed = None"
    using rq tq by (simp add: no_faults_def)
  note Q = sync_queue_entry_per_attempt [where flt = no_faults and s = ?a and w = world_o
      and e = env0 and req = req0 and dev = "''dev-1''",
      THEN conjunct2, THEN conjunct2, THEN conjunct1, THEN mp, OF hq, THEN conjunct2]
  have 3: "sync_queue (db (snd ?Q))
      = [\<lparr>sq_id = 1, sq_user_id = 7, sq_device_id = ''dev-1'',
          sq_entity_type = ''form_submissions'', sq_operation = ''create'',
          sq_local_id = ''a1'', sq_server_id = None,
          sq_data = JObject [(''uuid'', JString ''a1''), (''form_template_id'', JNumber 5),
                             (''status'', JString ''submitted'')],
          sq_status = ''failed'', sq_error_message = Some ''Duplicate entry'',
          sq_retry_count = 0, sq_created_at = 1000, sq_updated_at = 1000\<rparr>]"
    unfolding Q by (simp add: ea world_o_def db0_def req0_def env0_def)
  \<comment> \<open>commit fails and the INSERT of the failed entry fails\<close>
  have hc: "Commit \<in> set (tx_steps ?a) \<and> ?flc Commit = Some ''commit failed''"
    by (simp add: tx_steps_item)
  from sync_queue_entry_per_attempt [where flt = ?flc and s = ?a and w = world0
      and e = env0 and req = req0 and dev = "''dev-1''" and c = ?c0 and st = Commit
      and ?m0.0 = "''commit failed''",
      THEN conjunct2, THEN conjunct2, THEN conjunct2, THEN conjunct2, THEN conjunct1, THEN mp, OF hc]
  obtain err0 w0 h0 where
    tc: "sync_try ?flc env0 req0 ''dev-1'' ?a (world0, PoolConnection ?c0) = (Inl err0, (w0, h0))"
    by (elim exE)
  have rc: "reaches_transaction ?flc ?a world0"
    by (rule reaches_transaction_world0) (simp_all add: no_faults_def)
  have hr: "reaches_transaction ?flc ?a world0
       \<and> sync_try ?flc env0 req0 ''dev-1'' ?a (world0, PoolConnection ?c0) = (Inl err0, (w0, h0))
       \<and> (?flc Rollback \<noteq> None \<or> ?flc InsQueueFailed \<noteq> None)"
    using rc tc by simp
  note R = sync_queue_entry_per_attempt [where flt = ?flc and s = ?a and w = world0
      and e = env0 and req = req0 and dev = "''dev-1''",
      THEN conjunct2, THEN conjunct2, THEN conjunct2, THEN conjunct1, THEN mp, OF hr]
  from R have R1: "db w0 = db world0" and R2: "snd ?R = w0" by blast+
  have 4: "sync_queue (db (snd ?R)) = []"
    unfolding R2 R1 by (simp add: world0_def db0_def)
  from 1 2 3 4 show ?thesis by (intro conjI)
qed

text \<open>
  C6 as stated fails on the code. An attempt that names a version that does not exist
  writes no sync queue entry at all. And the \<open>completed\<close> entry is written inside the
  item's transaction: in an attempt whose statements all succeed and whose \<open>commit\<close> fails,
  the working copy of the transaction holds the \<open>completed\<close> entry, and what is stored in
  the end is the \<open>failed\<close> entry alone.
\<close>

theorem sync_queue_entry_counterexample:
  "sync_queue (db (snd (process_item no_faults env0 req0 ''dev-1''
        (item ''a2'' 99 ''submitted'') world0))) = []
   \<and> map sq_status (sync_queue (snd (snd
        (sync_writes (no_faults(Commit := Some ''commit failed'')) env0 req0 ''dev-1''
           (item ''a1'' 1 ''submitted'') (world0, db world0)))))
      = [''completed'']
   \<and> map sq_status (sync_queue (db (snd
        (process_item (no_faults(Commit := Some ''commit failed'')) env0 req0 ''dev-1''
           (item ''a1'' 1 ''submitted'') world0))))
      = [''failed'']"
proof -
  let ?a = "item ''a1'' 1 ''submitted''" and ?b = "item ''a2'' 99 ''submitted''"
  let ?flt = "no_faults(Commit := Some ''commit failed'')"
  have 1: "sync_queue (db (snd (process_item no_faults env0 req0 ''dev-1'' ?b world0))) = []"
    by (simp only: process_item_not_reaching [OF not_reaching_a2]) (simp add: world0_def db0_def)
  have "\<exists>w1 d1. sync_writes ?flt env0 req0 ''dev-1'' ?a (world0, db world0)
      = (Inr (next_submission_id (db world0)), (w1, d1))"
    by (rule sync_writes_ok)
      (simp_all add: no_faults_def no_collision_world0 item_def file_steps_def world0_def db0_def)
  then obtain w1 d1 where sw: "sync_writes ?flt env0 req0 ''dev-1'' ?a (world0, db world0)
      = (Inr (next_submission_id (db world0)), (w1, d1))" by (elim exE)
  have 2: "map sq_status (sync_queue (snd (snd
        (sync_writes ?flt env0 req0 ''dev-1'' ?a (world0, db world0))))) = [''completed'']"
  proof -
    from sw have s2: "snd (snd (sync_writes ?flt env0 req0 ''dev-1'' ?a (world0, db world0))) = d1"
      by simp
    show ?thesis unfolding s2 using sync_writes_Inr(5) [OF sw]
      by (simp add: world0_def db0_def completed_entry_def)
  qed
  have "\<exists>err w1 h1 w'.
      sync_try ?flt env0 req0 ''dev-1'' ?a (world0, PoolConnection \<lparr>pending = None, released = 0\<rparr>) = (Inl err, (w1, h1))
      \<and> process_item ?flt env0 req0 ''dev-1'' ?a world0 = (error_result ?a (''Error: '' @ message err), w')
      \<and> only_queue_changed (db world0) (db w')
      \<and> sync_queue (db w') = sync_queue (db world0) @
           [(failed_entry env0 req0 ''dev-1'' ?a (message err))\<lparr>sq_id := next_queue_id (db world0)\<rparr>]"
    by (rule process_item_tx_failure [where st = Commit and m = "''commit failed''"])
      (simp_all add: reaches_transaction_world0 [unfolded One_nat_def] no_faults_None tx_steps_item)
  then obtain err w' where
    p3: "process_item ?flt env0 req0 ''dev-1'' ?a world0 = (error_result ?a (''Error: '' @ message err), w')"
    and q3: "sync_queue (db w') = sync_queue (db world0) @
             [(failed_entry env0 req0 ''dev-1'' ?a (message err))\<lparr>sq_id := next_queue_id (db world0)\<rparr>]"
    by (elim exE conjE)
  from p3 have s3: "snd (process_item ?flt env0 req0 ''dev-1'' ?a world0) = w'" by simp
  have 3: "map sq_status (sync_queue (db (snd (process_item ?flt env0 req0 ''dev-1'' ?a world0))))
      = [''failed'']"
    unfolding s3 using q3 by (simp add: world0_def db0_def failed_entry_def)
  from 1 2 3 show ?thesis by (intro conjI)
qed

lemma createSubmission_callback_Inr:
  assumes "createSubmission_callback flt e req body pid (w, d) = (Inr c, (w', d'))"
  shows "form_submissions d' = form_submissions d @
           [\<lparr>fs_id = next_submission_id d, fs_uuid = uuid_of e body,
             fs_form_template_id = c_formTemplateId body,
             fs_form_template_version = c_formTemplateVersion body, fs_submitted_by = user_id req,
             fs_status = status_of body,
             fs_submitted_at = (if status_of body = ''draft'' then None else Some (now e)),
             fs_data_s3_object_id = next_s3_object_id d,
             fs_geolocation_latitude = number_or_null (c_geolocationLatitude body),
             fs_geolocation_longitude = number_or_null (c_geolocationLongitude body),
             fs_geolocation_accuracy = number_or_null (c_geolocationAccuracy body),
             fs_device_info = c_deviceInfo body,
             fs_is_offline_submission = offline_of body,
             fs_synced_at = (if offline_of body then Some (now e) else None)\<rparr>]"
    and "cr_submittedAt c = (if status_of body = ''draft'' then None else Some (now e))"
    and "cr_status c = status_of body" and "cr_uuid c = uuid_of e body"
    and "cr_submissionId c = next_submission_id d"
proof -
  let ?key = "submission_key (c_formTemplateId body) (uuid_of e body)"
  let ?w1 = "w\<lparr>s3_sent := s3_sent w @ [PutObject (submissionsBucket e) ?key (c_data body) ''application/json'']\<rparr>"
  let ?row = "\<lambda>oid. \<lparr>fs_id = 0, fs_uuid = uuid_of e body, fs_form_template_id = c_formTemplateId body,
              fs_form_template_version = c_formTemplateVersion body, fs_submitted_by = user_id req,
              fs_status = status_of body,
              fs_submitted_at = (if status_of body = ''draft'' then None else Some (now e)),
              fs_data_s3_object_id = oid,
              fs_geolocation_latitude = number_or_null (c_geolocationLatitude body),
              fs_geolocation_longitude = number_or_null (c_geolocationLongitude body),
              fs_geolocation_accuracy = number_or_null (c_geolocationAccuracy body),
              fs_device_info = c_deviceInfo body,
              fs_is_offline_submission = offline_of body,
              fs_synced_at = (if offline_of body then Some (now e) else None)\<rparr>"
  from assms obtain u1 s1 oid s2 sid s3 u3 s4 u4 s5 where
    put: "outside (putObject flt (submissionsBucket e) ?key (c_data body) ''application/json'') (w, d) = (Inr u1, s1)"
    and obj: "execute flt InsObject (insert_s3_object e (submissionsBucket e) ?key
             ''application/json'' (length (c_data body)) (user_id req)) s1 = (Inr oid, s2)"
    and sub: "execute flt InsSubmission (insert_submission (?row oid)) s2 = (Inr sid, s3)"
    and fil: "sync_files flt sid 0 (files_of body) s3 = (Inr u3, s4)"
    and log: "execute flt InsLog (insert_log
             \<lparr>al_id = 0, al_user_id = user_id req, al_activity_type = ''form_submission'',
              al_entity_type = ''form_submissions'', al_entity_id = sid,
              al_details = JObject [(''project_id'', JNumber pid),
                                    (''form_template_id'', JNumber (c_formTemplateId body)),
                                    (''action'', JString (status_of body))],
              al_ip_address = ip req\<rparr>) s4 = (Inr u4, s5)"
    and fin: "ret \<lparr>cr_submissionId = sid, cr_uuid = uuid_of e body,
           cr_formTemplateId = c_formTemplateId body,
           cr_formTemplateVersion = c_formTemplateVersion body,
           cr_status = status_of body,
           cr_submittedAt = (if status_of body = ''draft'' then None else Some (now e))\<rparr> s5
         = (Inr c, (w', d'))"
    unfolding createSubmission_callback_def Let_def by (elim seq_InrE) blast
  from putObject_Inr [OF put] have s1: "s1 = (?w1, d)" by simp
  from obj [unfolded s1] obtain d2 where
    o2: "insert_s3_object e (submissionsBucket e) ?key ''application/json''
               (length (c_data body)) (user_id req) d = Inr (d2, oid)"
    and s2: "s2 = (?w1, d2)" by (rule execute_Inr)
  from sub [unfolded s2] obtain d3 where
    o3: "insert_submission (?row oid) d2 = Inr (d3, sid)"
    and s3: "s3 = (?w1, d3)" by (rule execute_Inr)
  obtain w4 d4 where s4: "s4 = (w4, d4)" by (cases s4)
  from sync_files_Inr [OF fil [unfolded s3 s4]]
  have w4: "w4 = ?w1" and d4: "form_submissions d4 = form_submissions d3" by simp_all
  from log [unfolded s4 w4] obtain d5 where
    o5: "insert_log \<lparr>al_id = 0, al_user_id = user_id req, al_activity_type = ''form_submission'',
              al_entity_type = ''form_submissions'', al_entity_id = sid,
              al_details = JObject [(''project_id'', JNumber pid),
                                    (''form_template_id'', JNumber (c_formTemplateId body)),
                                    (''action'', JString (status_of body))],
              al_ip_address = ip req\<rparr> d4 = Inr (d5, u4)"
    and s5: "s5 = (?w1, d5)" by (rule execute_Inr)
  from fin [unfolded s5] have c: "c = \<lparr>cr_submissionId = sid, cr_uuid = uuid_of e body,
           cr_formTemplateId = c_formTemplateId body,
           cr_formTemplateVersion = c_formTemplateVersion body,
           cr_status = status_of body,
           cr_submittedAt = (if status_of body = ''draft'' then None else Some (now e))\<rparr>"
    and d': "d' = d5" by (simp_all add: ret_def)
  from o2 have d2: "oid = next_s3_object_id d" "form_submissions d2 = form_submissions d"
      "next_submission_id d2 = next_submission_id d"
    by (auto simp: insert_s3_object_def split: if_splits)
  from o3 have d3: "sid = next_submission_id d2"
      "form_submissions d3 = form_submissions d2 @ [(?row oid)\<lparr>fs_id := next_submission_id d2\<rparr>]"
    by (auto simp: insert_submission_def split: if_splits)
  from o5 have d5: "form_submissions d5 = form_submissions d4" by (auto simp: insert_log_def)
  show "form_submissions d' = form_submissions d @
           [\<lparr>fs_id = next_submission_id d, fs_uuid = uuid_of e body,
             fs_form_template_id = c_formTemplateId body,
             fs_form_template_version = c_formTemplateVersion body, fs_submitted_by = user_id req,
             fs_status = status_of body,
             fs_submitted_at = (if status_of body = ''draft'' then None else Some (now e)),
             fs_data_s3_object_id = next_s3_object_id d,
             fs_geolocation_latitude = number_or_null (c_geolocationLatitude body),
             fs_geolocation_longitude = number_or_null (c_geolocationLongitude body),
             fs_geolocation_accuracy = number_or_null (c_geolocationAccuracy body),
             fs_device_info = c_deviceInfo body,
             fs_is_offline_submission = offline_of body,
             fs_synced_at = (if offline_of body then Some (now e) else None)\<rparr>]"
    using d' d5 d4 d3 d2 by simp
  show "cr_submittedAt c = (if status_of body = ''draft'' then None else Some (now e))"
    using c by simp
  show "cr_status c = status_of body" using c by simp
  show "cr_uuid c = uuid_of e body" using c by simp
  show "cr_submissionId c = next_submission_id d" using c d3 d2 by simp
qed

lemma createSubmission_callback_ok:
  assumes f: "flt S3Put = None" "flt InsObject = None" "flt InsSubmission = None" "flt InsLog = None"
      "\<And>st. st \<in> set (file_steps (Some (files_of body))) \<Longrightarrow> flt st = None"
    and o: "filter (same_object (submissionsBucket e)
            (sha256 e (submission_key (c_formTemplateId body) (uuid_of e body)))) (s3_objects d) = []"
    and u: "filter (\<lambda>r. fs_uuid r = uuid_of e body) (form_submissions d) = []"
  shows "\<exists>c w1 d1. createSubmission_callback flt e req body pid (w, d) = (Inr c, (w1, d1))"
proof -
  let ?key = "submission_key (c_formTemplateId body) (uuid_of e body)"
  let ?w1 = "w\<lparr>s3_sent := s3_sent w @ [PutObject (submissionsBucket e) ?key (c_data body) ''application/json'']\<rparr>"
  let ?sid = "next_submission_id d"
  let ?row = "\<lambda>oid. \<lparr>fs_id = 0, fs_uuid = uuid_of e body, fs_form_template_id = c_formTemplateId body,
              fs_form_template_version = c_formTemplateVersion body, fs_submitted_by = user_id req,
              fs_status = status_of body,
              fs_submitted_at = (if status_of body = ''draft'' then None else Some (now e)),
              fs_data_s3_object_id = oid,
              fs_geolocation_latitude = number_or_null (c_geolocationLatitude body),
              fs_geolocation_longitude = number_or_null (c_geolocationLongitude body),
              fs_geolocation_accuracy = number_or_null (c_geolocationAccuracy body),
              fs_device_info = c_deviceInfo body,
              fs_is_offline_submission = offline_of body,
              fs_synced_at = (if offline_of body then Some (now e) else None)\<rparr>"
  have 1: "outside (putObject flt (submissionsBucket e) ?key (c_data body) ''application/json'') (w, d)
      = (Inr (), (?w1, d))"
    using f by (simp add: outside_def putObject_def)
  obtain d2 where 2: "execute flt InsObject (insert_s3_object e (submissionsBucket e) ?key
             ''application/json'' (length (c_data body)) (user_id req)) (?w1, d) = (Inr (next_s3_object_id d), (?w1, d2))"
    and d2: "form_submissions d2 = form_submissions d" "next_submission_id d2 = next_submission_id d"
    using f o by (simp add: execute_def insert_s3_object_def)
  obtain d3 where 3: "execute flt InsSubmission (insert_submission (?row (next_s3_object_id d))) (?w1, d2)
       = (Inr ?sid, (?w1, d3))"
    using f u d2 by (simp add: execute_def insert_submission_def)
  have "\<exists>d'. sync_files flt ?sid 0 (files_of body) (?w1, d3) = (Inr (), (?w1, d'))"
    by (rule sync_files_ok) (use f(5) in \<open>simp add: file_steps_def\<close>)
  then obtain d4 where 4: "sync_files flt ?sid 0 (files_of body) (?w1, d3) = (Inr (), (?w1, d4))"
    by (elim exE)
  obtain d5 where 5: "execute flt InsLog (insert_log
             \<lparr>al_id = 0, al_user_id = user_id req, al_activity_type = ''form_submission'',
              al_entity_type = ''form_submissions'', al_entity_id = ?sid,
              al_details = JObject [(''project_id'', JNumber pid),
                                    (''form_template_id'', JNumber (c_formTemplateId body)),
                                    (''action'', JString (status_of body))],
              al_ip_address = ip req\<rparr>) (?w1, d4) = (Inr (next_log_id d4), (?w1, d5))"
    using f by (simp add: execute_def insert_log_def)
  have "createSubmission_callback flt e req body pid (w, d) =
      (Inr \<lparr>cr_submissionId = ?sid, cr_uuid = uuid_of e body,
           cr_formTemplateId = c_formTemplateId body,
           cr_formTemplateVersion = c_formTemplateVersion body,
           cr_status = status_of body,
           cr_submittedAt = (if status_of body = ''draft'' then None else Some (now e))\<rparr>, (?w1, d5))"
    unfolding createSubmission_callback_def Let_def
    by (simp add: seq_def 1 2 3 4 5 ret_def)
  then show ?thesis by blast
qed

lemma process_item_row:
  assumes "process_item flt e req dev s w = (r, w')"
  shows "(r_status r \<noteq> ''success'' \<and> form_submissions (db w') = form_submissions (db w))
     \<or> (r_status r = ''success''
         \<and> (\<exists>row. form_submissions (db w') = form_submissions (db w) @ [row]
               \<and> fs_uuid row = s_uuid s \<and> fs_status row = s_status s
               \<and> fs_submitted_at row = (if s_status s = ''draft'' then None else Some (now e))))"
proof (cases "r_status r = ''success''")
  case True
  let ?row = "(sync_submission_row e req s (next_s3_object_id (db w)))\<lparr>fs_id := next_submission_id (db w)\<rparr>"
  have "\<exists>row. form_submissions (db w') = form_submissions (db w) @ [row]
      \<and> fs_uuid row = s_uuid s \<and> fs_status row = s_status s
      \<and> fs_submitted_at row = (if s_status s = ''draft'' then None else Some (now e))"
    by (rule exI [where x = ?row])
      (simp add: process_item_new_row(2) [OF assms True] sync_submission_row_def Let_def)
  with True show ?thesis by simp
next
  case False
  from process_item_cases [OF assms] False
  have "form_submissions (db w') = form_submissions (db w)"
    by (elim disjE exE conjE) (simp_all add: only_queue_changed_def success_result_def)
  with False show ?thesis by (intro disjI1 conjI)
qed

text \<open>
  C9. Draft timestamp rule. A loop iteration of \<open>syncSubmissions\<close> stores a submission row
  exactly when its result is \<open>success\<close>; the row carries the item's status, and its
  \<open>submitted_at\<close> is null when that status is \<open>draft\<close> and the current time otherwise. The
  callback \<open>createSubmission\<close> hands to its transaction stores, when it returns, one row with
  the request's status (\<open>draft\<close> by default), whose \<open>submitted_at\<close> is null when the status is
  \<open>draft\<close> and the current time otherwise, and returns that same \<open>submittedAt\<close>.
\<close>

theorem draft_timestamp_rule:
  "(process_item flt e req dev s w = (r, w') \<longrightarrow>
      (r_status r \<noteq> ''success'' \<and> form_submissions (db w') = form_submissions (db w))
      \<or> (r_status r = ''success''
         \<and> (\<exists>row. form_submissions (db w') = form_submissions (db w) @ [row]
               \<and> fs_uuid row = s_uuid s \<and> fs_status row = s_status s
               \<and> fs_submitted_at row = (if s_status s = ''draft'' then None else Some (now e)))))
   \<and> (createSubmission_callback fltc ec reqc body pid (wc, d) = (Inr c, (wc', d')) \<longrightarrow>
      (\<exists>row. form_submissions d' = form_submissions d @ [row]
          \<and> fs_uuid row = uuid_of ec body \<and> fs_status row = status_of body
          \<and> fs_submitted_at row = (if status_of body = ''draft'' then None else Some (now ec))
          \<and> cr_submittedAt c = fs_submitted_at row))"
proof (intro conjI impI)
  assume "process_item flt e req dev s w = (r, w')"
  then show "(r_status r \<noteq> ''success'' \<and> form_submissions (db w') = form_submissions (db w))
      \<or> (r_status r = ''success''
         \<and> (\<exists>row. form_submissions (db w') = form_submissions (db w) @ [row]
               \<and> fs_uuid row = s_uuid s \<and> fs_status row = s_status s
               \<and> fs_submitted_at row = (if s_status s = ''draft'' then None else Some (now e))))"
    by (rule process_item_row)
next
  assume a: "createSubmission_callback fltc ec reqc body pid (wc, d) = (Inr c, (wc', d'))"
  note k = createSubmission_callback_Inr [OF a]
  show "\<exists>row. form_submissions d' = form_submissions d @ [row]
          \<and> fs_uuid row = uuid_of ec body \<and> fs_status row = status_of body
          \<and> fs_submitted_at row = (if status_of body = ''draft'' then None else Some (now ec))
          \<and> cr_submittedAt c = fs_submitted_at row"
    by (rule exI, intro conjI, rule k(1)) (simp_all add: k(2))
qed

theorem draft_timestamp_rule_witness:
  "map fs_submitted_at (form_submissions (db (snd
      (process_item no_faults env0 req0 ''dev-1'' (item ''a3'' 1 ''draft'') world0)))) = [None]
   \<and> map fs_submitted_at (form_submissions (db (snd
      (process_item no_faults env0 req0 ''dev-1'' (item ''a1'' 1 ''submitted'') world0)))) = [Some 1000]
   \<and> map fs_submitted_at (form_submissions (snd (snd
      (createSubmission_callback no_faults env0 req0 (create0 ''draft'') 1 (world0, db0))))) = [None]
   \<and> map fs_submitted_at (form_submissions (snd (snd
      (createSubmission_callback no_faults env0 req0 (create0 ''submitted'') 1 (world0, db0)))))
        = [Some 1000]"
proof -
  have sync: "map fs_submitted_at (form_submissions (db (snd
      (process_item no_faults env0 req0 ''dev-1'' (item u 1 st) world0))))
        = [if st = ''draft'' then None else Some 1000]" for u st
  proof -
    let ?s = "item u 1 st"
    have ing: "ingestible env0 ?s (db world0)"
      by (simp add: ingestible_def item_def world0_def db0_def)
    from process_item_ingest [where flt = no_faults and e = env0 and s = ?s and w = world0
        and req = req0 and dev = "''dev-1''", OF no_faults_None ing]
    obtain w' where p: "process_item no_faults env0 req0 ''dev-1'' ?s world0
        = (success_result ?s (next_submission_id (db world0)), w')" by (elim exE conjE)
    have st: "r_status (success_result ?s (next_submission_id (db world0))) = ''success''"
      by (simp add: success_result_def)
    have "\<exists>row. form_submissions (db w') = form_submissions (db world0) @ [row]
               \<and> fs_uuid row = s_uuid ?s \<and> fs_status row = s_status ?s
               \<and> fs_submitted_at row = (if s_status ?s = ''draft'' then None else Some (now env0))"
      using draft_timestamp_rule [where flt = no_faults and e = env0 and req = req0
        and dev = "''dev-1''" and s = ?s and w = world0
        and r = "success_result ?s (next_submission_id (db world0))" and w' = w',
        THEN conjunct1, THEN mp, OF p] st
      by (elim disjE conjE) simp_all
    then obtain row where "form_submissions (db w') = form_submissions (db world0) @ [row]"
      and "fs_submitted_at row = (if s_status ?s = ''draft'' then None else Some (now env0))"
      by (elim exE conjE)
    moreover from p have "snd (process_item no_faults env0 req0 ''dev-1'' ?s world0) = w'" by simp
    ultimately show ?thesis by (simp add: world0_def db0_def item_def env0_def)
  qed
  have cb: "map fs_submitted_at (form_submissions (snd (snd
      (createSubmission_callback no_faults env0 req0 (create0 st) 1 (world0, db0)))))
        = [if st = ''draft'' then None else Some 1000]" for st
  proof -
    have "\<exists>c w1 d1. createSubmission_callback no_faults env0 req0 (create0 st) 1 (world0, db0)
        = (Inr c, (w1, d1))"
      by (rule createSubmission_callback_ok)
        (simp_all add: no_faults_def db0_def create0_def uuid_of_def)
    then obtain c w1 d1 where p: "createSubmission_callback no_faults env0 req0 (create0 st) 1
        (world0, db0) = (Inr c, (w1, d1))" by (elim exE)
    from draft_timestamp_rule [where fltc = no_faults and ec = env0 and reqc = req0
        and body = "create0 st" and pid = 1 and wc = world0 and d = db0 and c = c and wc' = w1
        and d' = d1, THEN conjunct2, THEN mp, OF p]
    obtain row where "form_submissions d1 = form_submissions db0 @ [row]"
      and "fs_submitted_at row = (if status_of (create0 st) = ''draft'' then None else Some (now env0))"
      by (elim exE conjE)
    moreover from p have "snd (snd (createSubmission_callback no_faults env0 req0 (create0 st) 1
        (world0, db0))) = d1" by simp
    ultimately show ?thesis by (simp add: db0_def create0_def status_of_def env0_def)
  qed
  show ?thesis using sync [of "''a3''" "''draft''"] sync [of "''a1''" "''submitted''"]
      cb [of "''draft''"] cb [of "''submitted''"] by simp
qed

lemma getSyncStatus_pending:
  assumes d: "truthy_string deviceId"
    and f: "flt SelUser = None" "flt SelPending = None" "flt SelCompleted = None"
  shows "\<exists>data. getSyncStatus flt e req deviceId w = (Json 200 data, w)
      \<and> set (pendingItems data) =
          {r \<in> set (sync_queue (db w)). sq_user_id r = user_id req \<and> sq_device_id r = the deviceId
              \<and> (sq_status r = ''pending'' \<or> sq_status r = ''failed'')}
      \<and> length (pendingItems data) =
          length (filter (\<lambda>r. sq_user_id r = user_id req \<and> sq_device_id r = the deviceId
              \<and> (sq_status r = ''pending'' \<or> sq_status r = ''failed'')) (sync_queue (db w)))
      \<and> pendingCount data = length (pendingItems data)
      \<and> sorted (map (\<lambda>r. - sq_created_at r) (pendingItems data))"
proof -
  let ?P = "\<lambda>r. sq_user_id r = user_id req \<and> sq_device_id r = the deviceId
              \<and> (sq_status r = ''pending'' \<or> sq_status r = ''failed'')"
  let ?ps = "sort_key (\<lambda>r. - sq_created_at r) (filter ?P (sync_queue (db w)))"
  let ?us = "map u_last_sync_at
        (filter (\<lambda>r. u_id r = user_id req \<and> u_device_id r = Some (the deviceId)) (users (db w)))"
  let ?cs = "take 50 (sort_key (\<lambda>r. - sq_updated_at r)
        (filter (\<lambda>r. sq_user_id r = user_id req \<and> sq_device_id r = the deviceId
                    \<and> sq_status r = ''completed''
                    \<and> sq_updated_at r \<ge> now e - 24 * 3600) (sync_queue (db w))))"
  let ?data = "\<lparr>lastSync = (if ?us \<noteq> [] then hd ?us else None), pendingCount = length ?ps,
                pendingItems = ?ps, completedItems = ?cs\<rparr>"
  have r: "getSyncStatus flt e req deviceId w = (Json 200 ?data, w)"
    using d f
    by (simp add: getSyncStatus_def seq_def query_def select_last_sync_def select_pending_def
        select_completed_def ret_def)
  show ?thesis
    by (rule exI [where x = ?data]) (simp add: r)
qed


text \<open>
  C10. When the device identifier is given and the three SELECTs succeed, \<open>getSyncStatus\<close>
  answers with status 200 and leaves the world as it was; its \<open>pendingItems\<close> are exactly the
  sync queue entries of the user and device whose status is \<open>pending\<close> or \<open>failed\<close>, each
  of them once and none left out (there is no LIMIT), \<open>pendingCount\<close> is their number, and
  they are ordered by \<open>created_at\<close>, the most recent first.
\<close>

theorem getSyncStatus_pending_items:
  "truthy_string deviceId \<and> flt SelUser = None \<and> flt SelPending = None \<and> flt SelCompleted = None
   \<longrightarrow>
   (\<exists>data. getSyncStatus flt e req deviceId w = (Json 200 data, w)
      \<and> set (pendingItems data) =
          {r \<in> set (sync_queue (db w)). sq_user_id r = user_id req \<and> sq_device_id r = the deviceId
              \<and> (sq_status r = ''pending'' \<or> sq_status r = ''failed'')}
      \<and> length (pendingItems data) =
          length (filter (\<lambda>r. sq_user_id r = user_id req \<and> sq_device_id r = the deviceId
              \<and> (sq_status r = ''pending'' \<or> sq_status r = ''failed'')) (sync_queue (db w)))
      \<and> pendingCount data = length (pendingItems data)
      \<and> sorted (map (\<lambda>r. - sq_created_at r) (pendingItems data)))"
proof
  assume a: "truthy_string deviceId \<and> flt SelUser = None \<and> flt SelPending = None
    \<and> flt SelCompleted = None"
  show "\<exists>data. getSyncStatus flt e req deviceId w = (Json 200 data, w)
      \<and> set (pendingItems data) =
          {r \<in> set (sync_queue (db w)). sq_user_id r = user_id req \<and> sq_device_id r = the deviceId
              \<and> (sq_status r = ''pending'' \<or> sq_status r = ''failed'')}
      \<and> length (pendingItems data) =
          length (filter (\<lambda>r. sq_user_id r = user_id req \<and> sq_device_id r = the deviceId
              \<and> (sq_status r = ''pending'' \<or> sq_status r = ''failed'')) (sync_queue (db w)))
      \<and> pendingCount data = length (pendingItems data)
      \<and> sorted (map (\<lambda>r. - sq_created_at r) (pendingItems data))"
    by (rule getSyncStatus_pending) (simp_all add: a)
qed

lemma qrow_sel:
  "sq_user_id (qrow i uid dev status t) = uid" "sq_device_id (qrow i uid dev status t) = dev"
  "sq_status (qrow i uid dev status t) = status" "sq_created_at (qrow i uid dev status t) = t"
  by (simp_all add: qrow_def)

lemma world_q_queue: "sync_queue (db world_q) =
       [qrow 1 7 ''dev-1'' ''failed'' 10, qrow 2 7 ''dev-1'' ''pending'' 30,
        qrow 3 7 ''dev-1'' ''completed'' 20, qrow 4 7 ''dev-2'' ''failed'' 40,
        qrow 5 8 ''dev-1'' ''failed'' 50]"
  by (simp add: world_q_def)

theorem getSyncStatus_pending_items_witness:
  "\<exists>data. getSyncStatus no_faults env0 req0 (Some ''dev-1'') world_q = (Json 200 data, world_q)
     \<and> set (pendingItems data) = {qrow 1 7 ''dev-1'' ''failed'' 10, qrow 2 7 ''dev-1'' ''pending'' 30}
     \<and> pendingCount data = 2"
proof -
  have h: "truthy_string (Some ''dev-1'') \<and> no_faults SelUser = None \<and> no_faults SelPending = None
     \<and> no_faults SelCompleted = None"
    by (simp add: truthy_string_def no_faults_def)
  from getSyncStatus_pending_items [where deviceId = "Some ''dev-1''" and flt = no_faults
      and e = env0 and req = req0 and w = world_q, THEN mp, OF h]
  obtain data where r: "getSyncStatus no_faults env0 req0 (Some ''dev-1'') world_q = (Json 200 data, world_q)"
    and s: "set (pendingItems data) =
          {r \<in> set (sync_queue (db world_q)). sq_user_id r = user_id req0
              \<and> sq_device_id r = the (Some ''dev-1'')
              \<and> (sq_status r = ''pending'' \<or> sq_status r = ''failed'')}"
    and l: "length (pendingItems data) =
          length (filter (\<lambda>r. sq_user_id r = user_id req0 \<and> sq_device_id r = the (Some ''dev-1'')
              \<and> (sq_status r = ''pending'' \<or> sq_status r = ''failed'')) (sync_queue (db world_q)))"
    and c: "pendingCount data = length (pendingItems data)"
    by (elim exE conjE)
  have s': "set (pendingItems data) = {qrow 1 7 ''dev-1'' ''failed'' 10, qrow 2 7 ''dev-1'' ''pending'' 30}"
    unfolding s set_filter [symmetric] by (simp add: world_q_queue qrow_sel req0_def)
  have c': "pendingCount data = 2"
    unfolding c l by (simp add: world_q_queue qrow_sel req0_def)
  show ?thesis
    by (rule exI [where x = data]) (intro conjI r s' c')
qed

end
